theory Spec2Isabelle
  imports Main
begin

section \<open>Two-phase authentication service: data model\<close>

text \<open>
  Shallow embedding of \<^verbatim>\<open>AuthService\<close> (auth-service.ts), of the part of
  \<^verbatim>\<open>DatabaseStorage\<close> it calls (storage.ts) and of the \<^verbatim>\<open>POST /api/auth/verify\<close>
  handler.  Timestamps are milliseconds since the epoch (\<^verbatim>\<open>Date.now()\<close>,
  \<^verbatim>\<open>Date\<close> compared by value), modelled as \<^typ>\<open>int\<close>.  Record fields carry a
  short prefix per record because the source reuses field names (\<^verbatim>\<open>email\<close>,
  \<^verbatim>\<open>isActive\<close>, \<^verbatim>\<open>expiresAt\<close>, ...) across its interfaces.
\<close>

record User =
  u_id :: int
  u_email :: string
  u_passwordHash :: string
  u_role :: string
  u_name :: string
  u_isActive :: bool
  u_whitelistedIPs :: "string list option"

record VerificationCode =
  vc_code :: string
  vc_email :: string
  vc_ip :: string
  vc_userAgent :: string
  vc_expiresAt :: int
  vc_used :: bool

record LoginAttempt =
  la_count :: int
  la_lastAttempt :: int

record AuthSession =
  as_userId :: int
  as_sessionToken :: string
  as_ipAddress :: string
  as_userAgent :: string
  as_isActive :: bool
  as_expiresAt :: int

record ActivityLog =
  al_userId :: int
  al_action :: string
  al_status :: string
  al_message :: string
  al_ipAddress :: string
  al_userAgent :: string

record AuthResult =
  r_success :: bool
  r_message :: string
  r_code :: "string option"
  r_codeId :: "string option"
  r_expiresIn :: "int option"
  r_sessionToken :: "string option"
  r_user :: "User option"

record SessionVerification =
  sv_valid :: bool
  sv_message :: "string option"
  sv_user :: "User option"
  sv_session :: "AuthSession option"

record AttemptCheck =
  allowed :: bool
  remainingTime :: "int option"

text \<open>
  The service state: the two process-local maps of \<^verbatim>\<open>AuthService\<close>, whether the
  e-mail transporter was configured, and the three tables of the relational store the
  service reads and writes (rows in table order).
\<close>

record auth_state =
  verificationCodes :: "string \<rightharpoonup> VerificationCode"
  loginAttempts :: "string \<rightharpoonup> LoginAttempt"
  emailTransporter :: bool
  users :: "User list"
  authSessions :: "AuthSession list"
  activityLogs :: "ActivityLog list"

text \<open>
  Everything a call observes from outside the state: the clock readings it takes in
  program order, the random values it draws, whether \<^verbatim>\<open>sendMail\<close> succeeds, whether
  \<^verbatim>\<open>NODE_ENV\<close> is \<^verbatim>\<open>development\<close>, which storage operations throw during
  the call (every storage operation is reached at most once per service call), and which
  calls on the response object throw inside a route handler's \<^verbatim>\<open>try\<close> block.
\<close>

datatype storage_op =
  GetUser | GetUserByEmail | UpdateUser
  | CreateAuthSession | GetAuthSession | UpdateAuthSession | DeleteAuthSession
  | CleanupExpiredSessions | CreateActivityLog

datatype storage_error = StorageError

datatype express_op = ResCookie | ResJson

record world =
  now1 :: int
  now2 :: int
  dbNow :: int
  randomCode :: string
  randomUUID :: string
  randomToken :: string
  salt :: string
  sendMailOk :: bool
  development :: bool
  dbThrows :: "storage_op \<Rightarrow> bool"
  expressThrows :: "express_op \<Rightarrow> bool"

text \<open>
  What the code takes from outside the repository is a parameter of the model:
  \<^verbatim>\<open>bcrypt\<close>'s \<^verbatim>\<open>compare(password, hash)\<close> and \<^verbatim>\<open>hash(password, 12)\<close> (the
  latter draws a salt), the runtime's \<^verbatim>\<open>String.prototype.toLowerCase\<close>, and the
  \<^verbatim>\<open>uuid()\<close> check of the \<^verbatim>\<open>zod\<close> validation library.
\<close>

record library =
  bcrypt_compare :: "string \<Rightarrow> string \<Rightarrow> bool"
  bcrypt_hash :: "string \<Rightarrow> string \<Rightarrow> string"
  toLowerCase :: "string \<Rightarrow> string"
  zod_uuid :: "string \<Rightarrow> bool"

subsection \<open>Configuration\<close>

definition maxLoginAttempts :: int where
  "maxLoginAttempts = 3"

definition lockoutDuration :: int where
  "lockoutDuration = 15 * 60 * 1000"

definition codeExpiry :: int where
  "codeExpiry = 5 * 60 * 1000"

definition sessionExpiry :: int where
  "sessionExpiry = 24 * 60 * 60 * 1000"

subsection \<open>JavaScript primitives\<close>

text \<open>Decimal rendering of an integer, as a template literal renders a number.\<close>

definition digit_char :: "nat \<Rightarrow> char" where
  "digit_char d = ''0123456789'' ! d"

fun string_of_nat :: "nat \<Rightarrow> string" where
  "string_of_nat n =
     (if n < 10 then [digit_char n]
      else string_of_nat (n div 10) @ [digit_char (n mod 10)])"

declare string_of_nat.simps [simp del]

definition string_of_int :: "int \<Rightarrow> string" where
  "string_of_int i =
     (if i < 0 then CHR ''-'' # string_of_nat (nat (- i)) else string_of_nat (nat i))"

text \<open>
  \<^verbatim>\<open>Math.ceil(x / 1000)\<close> on an integer number of milliseconds (the values are far
  below \<open>2^53\<close>, where the floating-point quotient rounds to the same integer).
\<close>

definition ceil_div :: "int \<Rightarrow> int \<Rightarrow> int" where
  "ceil_div x d = - ((- x) div d)"

section \<open>Storage (DatabaseStorage)\<close>

text \<open>
  A table is the list of its rows; a select returns the first matching row, an update
  rewrites every matching row.  \<^verbatim>\<open>updateUser\<close> and \<^verbatim>\<open>updateAuthSession\<close> take a
  partial object: there is one function for each set of fields the service passes.  A
  storage call that throws returns \<open>Inl StorageError\<close>.
\<close>

definition getUser :: "world \<Rightarrow> auth_state \<Rightarrow> int \<Rightarrow> storage_error + User option" where
  "getUser w s uid =
     (if dbThrows w GetUser then Inl StorageError
      else Inr (find (\<lambda>u. u_id u = uid) (users s)))"

definition getUserByEmail :: "world \<Rightarrow> auth_state \<Rightarrow> string \<Rightarrow> storage_error + User option" where
  "getUserByEmail w s e =
     (if dbThrows w GetUserByEmail then Inl StorageError
      else Inr (find (\<lambda>u. u_email u = e) (users s)))"

definition updateUser_passwordHash ::
  "world \<Rightarrow> int \<Rightarrow> string \<Rightarrow> auth_state \<Rightarrow> storage_error + auth_state" where
  "updateUser_passwordHash w uid h s =
     (if dbThrows w UpdateUser then Inl StorageError
      else Inr (s\<lparr>users :=
                  map (\<lambda>u. if u_id u = uid then u\<lparr>u_passwordHash := h\<rparr> else u) (users s)\<rparr>))"

definition updateUser_whitelistedIPs ::
  "world \<Rightarrow> int \<Rightarrow> string list \<Rightarrow> auth_state \<Rightarrow> storage_error + auth_state" where
  "updateUser_whitelistedIPs w uid ips s =
     (if dbThrows w UpdateUser then Inl StorageError
      else Inr (s\<lparr>users :=
                  map (\<lambda>u. if u_id u = uid then u\<lparr>u_whitelistedIPs := Some ips\<rparr> else u)
                    (users s)\<rparr>))"

definition createAuthSession ::
  "world \<Rightarrow> AuthSession \<Rightarrow> auth_state \<Rightarrow> storage_error + auth_state" where
  "createAuthSession w session s =
     (if dbThrows w CreateAuthSession then Inl StorageError
      else Inr (s\<lparr>authSessions := authSessions s @ [session]\<rparr>))"

definition getAuthSession ::
  "world \<Rightarrow> auth_state \<Rightarrow> string \<Rightarrow> storage_error + AuthSession option" where
  "getAuthSession w s token =
     (if dbThrows w GetAuthSession then Inl StorageError
      else Inr (find (\<lambda>a. as_sessionToken a = token) (authSessions s)))"

definition updateAuthSession_isActive ::
  "world \<Rightarrow> string \<Rightarrow> bool \<Rightarrow> auth_state \<Rightarrow> storage_error + auth_state" where
  "updateAuthSession_isActive w token b s =
     (if dbThrows w UpdateAuthSession then Inl StorageError
      else Inr (s\<lparr>authSessions :=
                  map (\<lambda>a. if as_sessionToken a = token then a\<lparr>as_isActive := b\<rparr> else a)
                    (authSessions s)\<rparr>))"

definition deleteAuthSession ::
  "world \<Rightarrow> string \<Rightarrow> auth_state \<Rightarrow> storage_error + (bool \<times> auth_state)" where
  "deleteAuthSession w token s =
     (if dbThrows w DeleteAuthSession then Inl StorageError
      else Inr (length (filter (\<lambda>a. as_sessionToken a = token) (authSessions s)) > 0,
                s\<lparr>authSessions := filter (\<lambda>a. as_sessionToken a \<noteq> token) (authSessions s)\<rparr>))"

definition cleanupExpiredSessions :: "world \<Rightarrow> auth_state \<Rightarrow> storage_error + auth_state" where
  "cleanupExpiredSessions w s =
     (if dbThrows w CleanupExpiredSessions then Inl StorageError
      else Inr (s\<lparr>authSessions :=
                  filter (\<lambda>a. \<not> as_expiresAt a < dbNow w) (authSessions s)\<rparr>))"

definition createActivityLog ::
  "world \<Rightarrow> ActivityLog \<Rightarrow> auth_state \<Rightarrow> storage_error + auth_state" where
  "createActivityLog w entry s =
     (if dbThrows w CreateActivityLog then Inl StorageError
      else Inr (s\<lparr>activityLogs := activityLogs s @ [entry]\<rparr>))"

section \<open>AuthService\<close>

text \<open>The object literal \<^verbatim>\<open>{ success: false, message }\<close>.\<close>

definition failure :: "string \<Rightarrow> AuthResult" where
  "failure msg =
     \<lparr>r_success = False, r_message = msg, r_code = None, r_codeId = None,
      r_expiresIn = None, r_sessionToken = None, r_user = None\<rparr>"

definition invalid :: "string \<Rightarrow> SessionVerification" where
  "invalid msg = \<lparr>sv_valid = False, sv_message = Some msg, sv_user = None, sv_session = None\<rparr>"

definition checkLoginAttempts :: "int \<Rightarrow> string \<Rightarrow> auth_state \<Rightarrow> AttemptCheck \<times> auth_state" where
  "checkLoginAttempts now ip s =
     (case loginAttempts s ip of
        None \<Rightarrow> (\<lparr>allowed = True, remainingTime = None\<rparr>, s)
      | Some attempts \<Rightarrow>
          (let timeSinceLastAttempt = now - la_lastAttempt attempts in
           if la_count attempts \<ge> maxLoginAttempts then
             if timeSinceLastAttempt < lockoutDuration then
               (\<lparr>allowed = False,
                 remainingTime = Some (ceil_div (lockoutDuration - timeSinceLastAttempt) 1000)\<rparr>, s)
             else
               (\<lparr>allowed = True, remainingTime = None\<rparr>,
                s\<lparr>loginAttempts := (loginAttempts s)(ip := None)\<rparr>)
           else (\<lparr>allowed = True, remainingTime = None\<rparr>, s)))"

definition recordLoginAttempt :: "int \<Rightarrow> string \<Rightarrow> bool \<Rightarrow> auth_state \<Rightarrow> auth_state" where
  "recordLoginAttempt now ip ok s =
     (if ok then s\<lparr>loginAttempts := (loginAttempts s)(ip := None)\<rparr>
      else
        (let attempts = (case loginAttempts s ip of
                           None \<Rightarrow> \<lparr>la_count = 0, la_lastAttempt = 0\<rparr>
                         | Some a \<Rightarrow> a);
             attempts1 = attempts\<lparr>la_count := la_count attempts + 1\<rparr>;
             attempts2 = attempts1\<lparr>la_lastAttempt := now\<rparr>
         in s\<lparr>loginAttempts := (loginAttempts s)(ip \<mapsto> attempts2)\<rparr>))"

definition localhostIPs :: "string list" where
  "localhostIPs = [''127.0.0.1'', ''localhost'', ''::1'', ''0.0.0.0'']"

definition isIPWhitelisted :: "world \<Rightarrow> User \<Rightarrow> string \<Rightarrow> bool" where
  "isIPWhitelisted w user ip =
     (case u_whitelistedIPs user of
        None \<Rightarrow> True
      | Some ips \<Rightarrow>
          if length ips = 0 then True
          else if development w \<and> ip \<in> set localhostIPs then True
          else ip \<in> set ips)"

definition sendVerificationCode :: "world \<Rightarrow> auth_state \<Rightarrow> string \<Rightarrow> string \<Rightarrow> bool" where
  "sendVerificationCode w s email code =
     (if development w then True
      else if \<not> emailTransporter s then False
      else sendMailOk w)"

text \<open>\<^verbatim>\<open>logActivity\<close> swallows a failing log write.\<close>

definition logActivity ::
  "world \<Rightarrow> int \<Rightarrow> string \<Rightarrow> string \<Rightarrow> string \<Rightarrow> string \<Rightarrow> string option \<Rightarrow> auth_state
     \<Rightarrow> auth_state" where
  "logActivity w userId action status message ip userAgent s =
     (let entry = \<lparr>al_userId = userId, al_action = action, al_status = status,
                   al_message = message, al_ipAddress = ip,
                   al_userAgent = (case userAgent of
                                     None \<Rightarrow> ''Unknown''
                                   | Some ua \<Rightarrow> if ua = [] then ''Unknown'' else ua)\<rparr>
      in case createActivityLog w entry s of Inl _ \<Rightarrow> s | Inr s' \<Rightarrow> s')"

subsection \<open>Step 1: verifyCredentials\<close>

definition verifyCredentials ::
  "library \<Rightarrow> world \<Rightarrow> string \<Rightarrow> string \<Rightarrow> string \<Rightarrow> string \<Rightarrow> auth_state
     \<Rightarrow> AuthResult \<times> auth_state" where
  "verifyCredentials bc w email password ip userAgent s =
     (case checkLoginAttempts (now1 w) ip s of (attemptCheck, s0) \<Rightarrow>
      if \<not> allowed attemptCheck then
        (failure (''Too many login attempts. Try again in ''
                  @ (case remainingTime attemptCheck of
                       None \<Rightarrow> ''undefined'' | Some t \<Rightarrow> string_of_int t)
                  @ '' seconds.''), s0)
      else
        (case getUserByEmail w s0 (toLowerCase bc email) of
           Inl _ \<Rightarrow> (failure ''Authentication service error'', s0)
         | Inr None \<Rightarrow>
             (failure ''Invalid credentials'', recordLoginAttempt (now2 w) ip False s0)
         | Inr (Some user) \<Rightarrow>
             if \<not> u_isActive user then
               (failure ''Invalid credentials'', recordLoginAttempt (now2 w) ip False s0)
             else if \<not> bcrypt_compare bc password (u_passwordHash user) then
               (failure ''Invalid credentials'',
                logActivity w (u_id user) ''login_attempt'' ''error'' ''Invalid password'' ip
                  (Some userAgent) (recordLoginAttempt (now2 w) ip False s0))
             else if \<not> isIPWhitelisted w user ip then
               (failure ''Access denied: IP not authorized'',
                logActivity w (u_id user) ''login_attempt'' ''error'' (''Unauthorized IP: '' @ ip) ip
                  (Some userAgent) (recordLoginAttempt (now2 w) ip False s0))
             else
               (let code = randomCode w;
                    codeId = randomUUID w;
                    expiresAt = now2 w + codeExpiry;
                    verificationCode =
                      \<lparr>vc_code = code, vc_email = u_email user, vc_ip = ip,
                       vc_userAgent = userAgent, vc_expiresAt = expiresAt, vc_used = False\<rparr>;
                    s1 = s0\<lparr>verificationCodes :=
                              (verificationCodes s0)(codeId \<mapsto> verificationCode)\<rparr>;
                    emailSent = sendVerificationCode w s1 (u_email user) code
                in if \<not> emailSent \<and> \<not> development w then
                     (failure ''Failed to send verification code'', s1)
                   else
                     (\<lparr>r_success = True, r_message = ''Verification code sent to your email'',
                       r_code = None, r_codeId = Some codeId,
                       r_expiresIn = Some (codeExpiry div 1000),
                       r_sessionToken = None, r_user = None\<rparr>,
                      logActivity w (u_id user) ''login_step1'' ''success''
                        ''Credentials verified, 2FA sent'' ip (Some userAgent) s1))))"

subsection \<open>Step 2: verify2FACode\<close>

definition verify2FACode ::
  "world \<Rightarrow> string \<Rightarrow> string \<Rightarrow> string \<Rightarrow> auth_state \<Rightarrow> AuthResult \<times> auth_state" where
  "verify2FACode w codeId inputCode ip s =
     (case verificationCodes s codeId of
        None \<Rightarrow> (failure ''Invalid or expired verification code'', s)
      | Some verification \<Rightarrow>
          if now1 w > vc_expiresAt verification then
            (failure ''Verification code expired'',
             s\<lparr>verificationCodes := (verificationCodes s)(codeId := None)\<rparr>)
          else if vc_used verification then
            (failure ''Verification code already used'', s)
          else if vc_ip verification \<noteq> ip then
            (failure ''Security error: IP mismatch'', s)
          else if vc_code verification \<noteq> inputCode then
            (failure ''Invalid verification code'', s)
          else
            (let verification1 = verification\<lparr>vc_used := True\<rparr>;
                 s1 = s\<lparr>verificationCodes := (verificationCodes s)(codeId \<mapsto> verification1)\<rparr>
             in case getUserByEmail w s1 (vc_email verification1) of
                  Inl _ \<Rightarrow> (failure ''Authentication service error'', s1)
                | Inr None \<Rightarrow> (failure ''User not found or inactive'', s1)
                | Inr (Some user) \<Rightarrow>
                    if \<not> u_isActive user then (failure ''User not found or inactive'', s1)
                    else
                      (let sessionToken = randomToken w;
                           expiresAt = now2 w + sessionExpiry;
                           session =
                             \<lparr>as_userId = u_id user, as_sessionToken = sessionToken,
                              as_ipAddress = ip, as_userAgent = vc_userAgent verification1,
                              as_isActive = True, as_expiresAt = expiresAt\<rparr>
                       in case createAuthSession w session s1 of
                            Inl _ \<Rightarrow> (failure ''Authentication service error'', s1)
                          | Inr s2 \<Rightarrow>
                              (let s3 = recordLoginAttempt (now2 w) ip True s2;
                                   s4 = logActivity w (u_id user) ''login_success'' ''success''
                                          ''Successfully logged in'' ip
                                          (Some (vc_userAgent verification1)) s3;
                                   s5 = s4\<lparr>verificationCodes :=
                                             (verificationCodes s4)(codeId := None)\<rparr>
                               in (\<lparr>r_success = True, r_message = ''Login successful'',
                                    r_code = None, r_codeId = None, r_expiresIn = None,
                                    r_sessionToken = Some sessionToken, r_user = Some user\<rparr>,
                                   s5)))))"

subsection \<open>Sessions: verifySession, logout\<close>

definition verifySession :: "world \<Rightarrow> string \<Rightarrow> auth_state \<Rightarrow> SessionVerification \<times> auth_state" where
  "verifySession w sessionToken s =
     (if sessionToken = [] then (invalid ''No session token provided'', s)
      else
        (case getAuthSession w s sessionToken of
           Inl _ \<Rightarrow> (invalid ''Session verification error'', s)
         | Inr None \<Rightarrow> (invalid ''Invalid session token'', s)
         | Inr (Some session) \<Rightarrow>
             if \<not> as_isActive session then (invalid ''Session is inactive'', s)
             else if now1 w > as_expiresAt session then
               (case updateAuthSession_isActive w sessionToken False s of
                  Inl _ \<Rightarrow> (invalid ''Session verification error'', s)
                | Inr s1 \<Rightarrow> (invalid ''Session expired'', s1))
             else
               (case getUser w s (as_userId session) of
                  Inl _ \<Rightarrow> (invalid ''Session verification error'', s)
                | Inr None \<Rightarrow>
                    (case updateAuthSession_isActive w sessionToken False s of
                       Inl _ \<Rightarrow> (invalid ''Session verification error'', s)
                     | Inr s1 \<Rightarrow> (invalid ''User not found or inactive'', s1))
                | Inr (Some user) \<Rightarrow>
                    if \<not> u_isActive user then
                      (case updateAuthSession_isActive w sessionToken False s of
                         Inl _ \<Rightarrow> (invalid ''Session verification error'', s)
                       | Inr s1 \<Rightarrow> (invalid ''User not found or inactive'', s1))
                    else
                      (\<lparr>sv_valid = True, sv_message = None, sv_user = Some user,
                        sv_session = Some session\<rparr>, s))))"

definition logout :: "world \<Rightarrow> string \<Rightarrow> auth_state \<Rightarrow> (bool \<times> string) \<times> auth_state" where
  "logout w sessionToken s =
     (case deleteAuthSession w sessionToken s of
        Inl _ \<Rightarrow> ((False, ''Logout error''), s)
      | Inr (sessionDeleted, s1) \<Rightarrow>
          ((sessionDeleted,
            if sessionDeleted then ''Logged out successfully'' else ''Session not found''), s1))"

subsection \<open>cleanupExpiredData\<close>

text \<open>
  The two \<^verbatim>\<open>for ... of map.entries()\<close> loops delete every entry that satisfies
  the test and touch no other; on a map that is the pointwise filter below.
\<close>

definition cleanupExpiredData :: "world \<Rightarrow> auth_state \<Rightarrow> auth_state" where
  "cleanupExpiredData w s =
     (case cleanupExpiredSessions w s of
        Inl _ \<Rightarrow> s
      | Inr s1 \<Rightarrow>
          (let now = now1 w;
               s2 = s1\<lparr>verificationCodes :=
                         (\<lambda>cid. case verificationCodes s1 cid of
                                  None \<Rightarrow> None
                                | Some c \<Rightarrow> if now > vc_expiresAt c then None else Some c)\<rparr>;
               oneHourAgo = now2 w - 60 * 60 * 1000
           in s2\<lparr>loginAttempts :=
                    (\<lambda>ip. case loginAttempts s2 ip of
                             None \<Rightarrow> None
                           | Some attempt \<Rightarrow>
                               if la_lastAttempt attempt < oneHourAgo then None
                               else Some attempt)\<rparr>))"

subsection \<open>changePassword, updateIPWhitelist\<close>

definition changePassword ::
  "library \<Rightarrow> world \<Rightarrow> int \<Rightarrow> string \<Rightarrow> string \<Rightarrow> auth_state
     \<Rightarrow> (bool \<times> string) \<times> auth_state" where
  "changePassword bc w userId currentPassword newPassword s =
     (case getUser w s userId of
        Inl _ \<Rightarrow> ((False, ''Failed to change password''), s)
      | Inr None \<Rightarrow> ((False, ''User not found''), s)
      | Inr (Some user) \<Rightarrow>
          if \<not> bcrypt_compare bc currentPassword (u_passwordHash user) then
            ((False, ''Current password is incorrect''), s)
          else
            (let hashedNewPassword = bcrypt_hash bc newPassword (salt w)
             in case updateUser_passwordHash w userId hashedNewPassword s of
                  Inl _ \<Rightarrow> ((False, ''Failed to change password''), s)
                | Inr s1 \<Rightarrow>
                    ((True, ''Password changed successfully''),
                     logActivity w userId ''password_change'' ''success''
                       ''Password changed successfully'' ''system'' None s1)))"

fun join_comma :: "string list \<Rightarrow> string" where
  "join_comma [] = []"
| "join_comma [x] = x"
| "join_comma (x # y # ys) = x @ '', '' @ join_comma (y # ys)"

definition updateIPWhitelist ::
  "world \<Rightarrow> int \<Rightarrow> string list \<Rightarrow> auth_state \<Rightarrow> (bool \<times> string) \<times> auth_state" where
  "updateIPWhitelist w userId ips s =
     (case updateUser_whitelistedIPs w userId ips s of
        Inl _ \<Rightarrow> ((False, ''Failed to update IP whitelist''), s)
      | Inr s1 \<Rightarrow>
          ((True, ''IP whitelist updated successfully''),
           logActivity w userId ''ip_whitelist_update'' ''success''
             (''Updated IP whitelist: '' @ join_comma ips) ''system'' None s1))"

section \<open>The POST /api/auth/verify handler\<close>

text \<open>
  The request body after JSON parsing: a field is \<open>None\<close> when it is absent or not a
  string.  \<^verbatim>\<open>verifySchema.safeParse\<close> accepts the body when \<^verbatim>\<open>codeId\<close> passes
  \<^verbatim>\<open>uuid()\<close> and \<^verbatim>\<open>code\<close> has length 6 and matches \<^verbatim>\<open>/^\d+$/\<close>.
\<close>

record VerifyBody =
  b_codeId :: "string option"
  b_code :: "string option"

definition digit :: "char \<Rightarrow> bool" where
  "digit c = (c \<in> set ''0123456789'')"

definition verifySchema :: "library \<Rightarrow> VerifyBody \<Rightarrow> (string \<times> string) option" where
  "verifySchema lib body =
     (case b_codeId body of
        None \<Rightarrow> None
      | Some codeId \<Rightarrow>
          (case b_code body of
             None \<Rightarrow> None
           | Some code \<Rightarrow>
               if zod_uuid lib codeId \<and> length code = 6 \<and> code \<noteq> [] \<and> list_all digit code
               then Some (codeId, code) else None))"

text \<open>
  The handler: it answers 400 on a body that fails validation, otherwise calls
  \<^verbatim>\<open>verify2FACode\<close> with the client address and answers 200, with the session cookie
  and a \<^verbatim>\<open>user\<close> object built from four fields of the returned user, or 401.  When
  a call on the response object throws, the \<^verbatim>\<open>catch\<close> answers 500; a cookie set
  before the throw stays set.  \<open>resp_errors\<close> says whether the body carries the
  validator's \<^verbatim>\<open>errors\<close> array.
\<close>

record UserJson =
  j_id :: int
  j_email :: string
  j_name :: string
  j_role :: string

record VerifyResponse =
  resp_status :: nat
  resp_cookie :: "string option"
  resp_success :: bool
  resp_message :: string
  resp_user :: "UserJson option"
  resp_errors :: bool

definition internalServerError :: "string option \<Rightarrow> VerifyResponse" where
  "internalServerError cookie =
     \<lparr>resp_status = 500, resp_cookie = cookie, resp_success = False,
      resp_message = ''Internal server error'', resp_user = None, resp_errors = False\<rparr>"

definition verifyHandler ::
  "library \<Rightarrow> world \<Rightarrow> VerifyBody \<Rightarrow> string \<Rightarrow> auth_state \<Rightarrow> VerifyResponse \<times> auth_state" where
  "verifyHandler lib w body ip s =
     (case verifySchema lib body of
        None \<Rightarrow>
          if expressThrows w ResJson then (internalServerError None, s)
          else
            (\<lparr>resp_status = 400, resp_cookie = None, resp_success = False,
              resp_message = ''Invalid input'', resp_user = None, resp_errors = True\<rparr>, s)
      | Some (codeId, code) \<Rightarrow>
          (case verify2FACode w codeId code ip s of (result, s1) \<Rightarrow>
             if r_success result then
               if expressThrows w ResCookie then (internalServerError None, s1)
               else if expressThrows w ResJson then
                 (internalServerError (r_sessionToken result), s1)
               else
                 (\<lparr>resp_status = 200, resp_cookie = r_sessionToken result,
                   resp_success = True, resp_message = r_message result,
                   resp_user = map_option
                     (\<lambda>u. \<lparr>j_id = u_id u, j_email = u_email u, j_name = u_name u,
                           j_role = u_role u\<rparr>)
                     (r_user result),
                   resp_errors = False\<rparr>, s1)
             else if expressThrows w ResJson then (internalServerError None, s1)
             else
               (\<lparr>resp_status = 401, resp_cookie = None, resp_success = False,
                 resp_message = r_message result, resp_user = None, resp_errors = False\<rparr>,
                s1)))"

section \<open>Calls on the service, and runs of them\<close>

datatype call =
  VerifyCredentials library world string string string string
  | Verify2FACode world string string string
  | VerifySession world string
  | Logout world string
  | CleanupExpiredData world
  | ChangePassword library world int string string
  | UpdateIPWhitelist world int "string list"

fun exec :: "call \<Rightarrow> auth_state \<Rightarrow> auth_state" where
  "exec (VerifyCredentials bc w email password ip userAgent) s =
     snd (verifyCredentials bc w email password ip userAgent s)"
| "exec (Verify2FACode w codeId inputCode ip) s = snd (verify2FACode w codeId inputCode ip s)"
| "exec (VerifySession w sessionToken) s = snd (verifySession w sessionToken s)"
| "exec (Logout w sessionToken) s = snd (logout w sessionToken s)"
| "exec (CleanupExpiredData w) s = cleanupExpiredData w s"
| "exec (ChangePassword bc w userId currentPassword newPassword) s =
     snd (changePassword bc w userId currentPassword newPassword s)"
| "exec (UpdateIPWhitelist w userId ips) s = snd (updateIPWhitelist w userId ips s)"

text \<open>A run of \<^verbatim>\<open>verifyCredentials\<close> calls arriving one after the other from one address.\<close>

fun verifyCredentials_run ::
  "library \<Rightarrow> string \<Rightarrow> (world \<times> string \<times> string \<times> string) list \<Rightarrow> auth_state
     \<Rightarrow> AuthResult list \<times> auth_state" where
  "verifyCredentials_run bc ip [] s = ([], s)"
| "verifyCredentials_run bc ip ((w, email, password, userAgent) # cs) s =
     (case verifyCredentials bc w email password ip userAgent s of (r, s1) \<Rightarrow>
        case verifyCredentials_run bc ip cs s1 of (rs, s2) \<Rightarrow> (r # rs, s2))"

text \<open>A run of \<^verbatim>\<open>verify2FACode\<close> calls on one code identifier.\<close>

fun verify2FACode_run ::
  "string \<Rightarrow> (world \<times> string \<times> string) list \<Rightarrow> auth_state \<Rightarrow> AuthResult list \<times> auth_state" where
  "verify2FACode_run codeId [] s = ([], s)"
| "verify2FACode_run codeId ((w, inputCode, ip) # cs) s =
     (case verify2FACode w codeId inputCode ip s of (r, s1) \<Rightarrow>
        case verify2FACode_run codeId cs s1 of (rs, s2) \<Rightarrow> (r # rs, s2))"

section \<open>Concrete inputs\<close>

text \<open>
  Stand-ins for the library functions at concrete inputs.  The hash of a password is the
  password behind a fixed marker, and \<^verbatim>\<open>compare\<close> accepts exactly the password that
  was hashed; lower-casing acts on the letters A to Z, which is what
  \<^verbatim>\<open>toLowerCase\<close> does on an ASCII string; the identifier check accepts 36
  characters, hyphens at positions 8, 13, 18 and 23 and hexadecimal digits elsewhere.
\<close>

definition ascii_lowerChar :: "char \<Rightarrow> char" where
  "ascii_lowerChar c =
     (let n = (of_char c :: nat) in if 65 \<le> n \<and> n \<le> 90 then char_of (n + 32) else c)"

definition ascii_toLowerCase :: "string \<Rightarrow> string" where
  "ascii_toLowerCase s = map ascii_lowerChar s"

definition hex_char :: "char \<Rightarrow> bool" where
  "hex_char c = (c \<in> set ''0123456789abcdefABCDEF'')"

definition canonical_uuid :: "string \<Rightarrow> bool" where
  "canonical_uuid s =
     (length s = 36
      \<and> list_all (\<lambda>i. if i \<in> set [8, 13, 18, 23] then s ! i = CHR ''-'' else hex_char (s ! i))
           [0..<36])"

definition plain_library :: library where
  "plain_library =
     \<lparr>bcrypt_compare = (\<lambda>p h. h = ''$2b$12$'' @ p), bcrypt_hash = (\<lambda>p sl. ''$2b$12$'' @ p),
      toLowerCase = ascii_toLowerCase, zod_uuid = canonical_uuid\<rparr>"

definition world0 :: world where
  "world0 =
     \<lparr>now1 = 1000, now2 = 1005, dbNow = 1000, randomCode = ''123456'', randomUUID = ''123e4567-e89b-42d3-a456-426614174000'',
      randomToken = ''tok-1'', salt = ''salt'', sendMailOk = True, development = False,
      dbThrows = (\<lambda>_. False), expressThrows = (\<lambda>_. False)\<rparr>"

definition alice :: User where
  "alice =
     \<lparr>u_id = 1, u_email = ''a@b.com'', u_passwordHash = ''$2b$12$secret123'', u_role = ''admin'',
      u_name = ''Alice'', u_isActive = True, u_whitelistedIPs = None\<rparr>"

definition state0 :: auth_state where
  "state0 =
     \<lparr>verificationCodes = Map.empty, loginAttempts = Map.empty, emailTransporter = True,
      users = [alice], authSessions = [], activityLogs = []\<rparr>"

definition pending_code :: VerificationCode where
  "pending_code =
     \<lparr>vc_code = ''123456'', vc_email = ''a@b.com'', vc_ip = ''1.2.3.4'', vc_userAgent = ''ua'',
      vc_expiresAt = 301005, vc_used = False\<rparr>"

definition state_pending :: auth_state where
  "state_pending = state0\<lparr>verificationCodes := [''123e4567-e89b-42d3-a456-426614174000'' \<mapsto> pending_code]\<rparr>"

definition pending_body :: VerifyBody where
  "pending_body =
     \<lparr>b_codeId = Some ''123e4567-e89b-42d3-a456-426614174000'', b_code = Some ''123456''\<rparr>"

definition undelivered_calls :: "(world \<times> string \<times> string \<times> string) list" where
  "undelivered_calls =
     [(world0\<lparr>sendMailOk := False\<rparr>, ''a@b.com'', ''secret123'', ''ua''),
      (world0\<lparr>sendMailOk := False, now1 := 2000, now2 := 2005\<rparr>, ''a@b.com'', ''secret123'',
       ''ua''),
      (world0\<lparr>sendMailOk := False, now1 := 3000, now2 := 3005\<rparr>, ''a@b.com'', ''secret123'',
       ''ua'')]"

definition locking_calls :: "(world \<times> string \<times> string \<times> string) list" where
  "locking_calls =
     [(world0, ''a@b.com'', ''secret123'', ''ua''),
      (world0\<lparr>now1 := 2000, now2 := 2005\<rparr>, ''a@b.com'', ''wrong-1'', ''ua''),
      (world0\<lparr>now1 := 3000, now2 := 3005\<rparr>, ''a@b.com'', ''wrong-2'', ''ua''),
      (world0\<lparr>now1 := 4000, now2 := 4005\<rparr>, ''a@b.com'', ''wrong-3'', ''ua'')]"

definition state_locked_pending :: auth_state where
  "state_locked_pending =
     state0\<lparr>verificationCodes := [''123e4567-e89b-42d3-a456-426614174000'' \<mapsto> pending_code],
            loginAttempts := [''1.2.3.4'' \<mapsto> \<lparr>la_count = 3, la_lastAttempt = 4005\<rparr>]\<rparr>"

definition old_session :: AuthSession where
  "old_session =
     \<lparr>as_userId = 1, as_sessionToken = ''tok-0'', as_ipAddress = ''1.2.3.4'', as_userAgent = ''ua'',
      as_isActive = True, as_expiresAt = 500\<rparr>"

definition state_session :: auth_state where
  "state_session = state0\<lparr>authSessions := [old_session]\<rparr>"

definition failed_calls :: "(world \<times> string \<times> string \<times> string) list" where
  "failed_calls =
     [(world0, ''a@b.com'', ''wrong-1'', ''ua''),
      (world0\<lparr>now1 := 2000, now2 := 2005\<rparr>, ''A@B.com'', ''wrong-2'', ''ua''),
      (world0\<lparr>now1 := 3000, now2 := 3005\<rparr>, ''nobody@b.com'', ''secret123'', ''ua'')]"

definition state_locked :: auth_state where
  "state_locked =
     state0\<lparr>loginAttempts := [''1.2.3.4'' \<mapsto> \<lparr>la_count = 3, la_lastAttempt = 3005\<rparr>]\<rparr>"

definition rejected_calls :: "(world \<times> string \<times> string \<times> string) list" where
  "rejected_calls =
     [(world0\<lparr>now1 := 60000, now2 := 60005\<rparr>, ''a@b.com'', ''secret123'', ''ua''),
      (world0\<lparr>now1 := 903004, now2 := 903009\<rparr>, ''a@b.com'', ''wrong-3'', ''ua'')]"

section \<open>Frame lemmas\<close>

lemma logActivity_frame [simp]:
  "verificationCodes (logActivity w uid a st m ip ua s) = verificationCodes s"
  "loginAttempts (logActivity w uid a st m ip ua s) = loginAttempts s"
  "users (logActivity w uid a st m ip ua s) = users s"
  "authSessions (logActivity w uid a st m ip ua s) = authSessions s"
  "emailTransporter (logActivity w uid a st m ip ua s) = emailTransporter s"
  by (simp_all add: logActivity_def createActivityLog_def)

lemma recordLoginAttempt_frame [simp]:
  "verificationCodes (recordLoginAttempt t ip ok s) = verificationCodes s"
  "users (recordLoginAttempt t ip ok s) = users s"
  "authSessions (recordLoginAttempt t ip ok s) = authSessions s"
  "activityLogs (recordLoginAttempt t ip ok s) = activityLogs s"
  "emailTransporter (recordLoginAttempt t ip ok s) = emailTransporter s"
  by (simp_all add: recordLoginAttempt_def Let_def)

lemma failure_sel [simp]:
  "r_success (failure m) = False"
  "r_message (failure m) = m"
  "r_sessionToken (failure m) = None"
  "r_user (failure m) = None"
  "r_codeId (failure m) = None"
  by (simp_all add: failure_def)

lemma failure_inj [simp]: "(failure m = failure m') = (m = m')"
  by (auto simp: failure_def)

section \<open>verify2FACode: the checks in order\<close>

lemma v2_none:
  "verificationCodes s cid = None \<Longrightarrow>
   verify2FACode w cid code ip s = (failure ''Invalid or expired verification code'', s)"
  by (simp add: verify2FACode_def)

lemma v2_expired:
  "verificationCodes s cid = Some v \<Longrightarrow> vc_expiresAt v < now1 w \<Longrightarrow>
   verify2FACode w cid code ip s =
     (failure ''Verification code expired'',
      s\<lparr>verificationCodes := (verificationCodes s)(cid := None)\<rparr>)"
  by (simp add: verify2FACode_def)

lemma v2_used:
  "verificationCodes s cid = Some v \<Longrightarrow> now1 w \<le> vc_expiresAt v \<Longrightarrow> vc_used v \<Longrightarrow>
   verify2FACode w cid code ip s = (failure ''Verification code already used'', s)"
  by (simp add: verify2FACode_def)

lemma v2_success_D:
  assumes "r_success (fst (verify2FACode w cid code ip s))"
  shows "\<exists>v. verificationCodes s cid = Some v \<and> now1 w \<le> vc_expiresAt v \<and> \<not> vc_used v
            \<and> vc_ip v = ip \<and> vc_code v = code"
    and "verificationCodes (snd (verify2FACode w cid code ip s)) cid = None"
  using assms
  by (auto simp: verify2FACode_def Let_def getUserByEmail_def createAuthSession_def
      split: option.splits sum.splits if_splits)

lemma v2_checks_passed:
  assumes "verificationCodes s cid = Some v" "now1 w \<le> vc_expiresAt v" "\<not> vc_used v"
    "vc_ip v = ip" "vc_code v = code"
  shows "(r_success (fst (verify2FACode w cid code ip s)) \<and>
            verificationCodes (snd (verify2FACode w cid code ip s)) cid = None) \<or>
         (\<not> r_success (fst (verify2FACode w cid code ip s)) \<and>
            verificationCodes (snd (verify2FACode w cid code ip s)) cid
              = Some (v\<lparr>vc_used := True\<rparr>))"
  using assms
  by (auto simp: verify2FACode_def Let_def getUserByEmail_def createAuthSession_def
      split: option.splits sum.splits if_splits)

lemmas fixture_defs =
  world0_def state0_def alice_def pending_code_def state_pending_def plain_library_def

lemmas v2_eval =
  verify2FACode_def getUserByEmail_def createAuthSession_def recordLoginAttempt_def
  logActivity_def createActivityLog_def Let_def

section \<open>C1: expiry and replay of a verification code\<close>

text \<open>
  Claim C1, as amended.  (1) Whenever the clock reading exceeds the stored expiry of the
  entry, \<^verbatim>\<open>verify2FACode\<close> fails with \<^verbatim>\<open>Verification code expired\<close> and deletes
  the entry.  (2) A call succeeds only on an entry that is present, not past its expiry,
  not used, and matches the address and the code.  (3) After a first submission of the
  correct code from the issuing address within the window, a second submission of the same
  code within the window fails: with \<^verbatim>\<open>Invalid or expired verification code\<close> when the
  first one succeeded (the entry was deleted), and with
  \<^verbatim>\<open>Verification code already used\<close> when the first one did not complete.  (4) Of two
  successive calls on one code identifier at most one succeeds.
\<close>

theorem code_accepted_at_most_once_before_expiry:
  "(verificationCodes s cid = Some v \<and> vc_expiresAt v < now1 w \<longrightarrow>
      verify2FACode w cid code ip s =
        (failure ''Verification code expired'',
         s\<lparr>verificationCodes := (verificationCodes s)(cid := None)\<rparr>))
   \<and> (r_success (fst (verify2FACode w cid code ip s)) \<longrightarrow>
        (\<exists>v. verificationCodes s cid = Some v \<and> now1 w \<le> vc_expiresAt v \<and> \<not> vc_used v
             \<and> vc_ip v = ip \<and> vc_code v = code))
   \<and> (verificationCodes s cid = Some v \<and> now1 w \<le> vc_expiresAt v \<and> \<not> vc_used v
        \<and> vc_ip v = ip \<and> vc_code v = code \<and> now1 w' \<le> vc_expiresAt v \<longrightarrow>
        fst (verify2FACode w' cid code ip (snd (verify2FACode w cid code ip s))) =
          (if r_success (fst (verify2FACode w cid code ip s))
           then failure ''Invalid or expired verification code''
           else failure ''Verification code already used''))
   \<and> \<not> (r_success (fst (verify2FACode w cid code ip s)) \<and>
          r_success (fst (verify2FACode w' cid code' ip' (snd (verify2FACode w cid code ip s)))))"
proof (intro conjI impI)
  assume "verificationCodes s cid = Some v \<and> vc_expiresAt v < now1 w"
  then show "verify2FACode w cid code ip s =
        (failure ''Verification code expired'',
         s\<lparr>verificationCodes := (verificationCodes s)(cid := None)\<rparr>)"
    by (simp add: v2_expired)
next
  assume "r_success (fst (verify2FACode w cid code ip s))"
  then show "\<exists>v. verificationCodes s cid = Some v \<and> now1 w \<le> vc_expiresAt v \<and> \<not> vc_used v
             \<and> vc_ip v = ip \<and> vc_code v = code"
    by (rule v2_success_D(1))
next
  assume h: "verificationCodes s cid = Some v \<and> now1 w \<le> vc_expiresAt v \<and> \<not> vc_used v
        \<and> vc_ip v = ip \<and> vc_code v = code \<and> now1 w' \<le> vc_expiresAt v"
  let ?s1 = "snd (verify2FACode w cid code ip s)"
  from h have "(r_success (fst (verify2FACode w cid code ip s)) \<and>
            verificationCodes ?s1 cid = None) \<or>
         (\<not> r_success (fst (verify2FACode w cid code ip s)) \<and>
            verificationCodes ?s1 cid = Some (v\<lparr>vc_used := True\<rparr>))"
    by (intro v2_checks_passed) simp_all
  then show "fst (verify2FACode w' cid code ip ?s1) =
          (if r_success (fst (verify2FACode w cid code ip s))
           then failure ''Invalid or expired verification code''
           else failure ''Verification code already used'')"
  proof (elim disjE conjE)
    assume "r_success (fst (verify2FACode w cid code ip s))"
      and "verificationCodes ?s1 cid = None"
    then show ?thesis by (simp add: v2_none)
  next
    assume "\<not> r_success (fst (verify2FACode w cid code ip s))"
      and "verificationCodes ?s1 cid = Some (v\<lparr>vc_used := True\<rparr>)"
    with h show ?thesis by (simp add: v2_used [where v = "v\<lparr>vc_used := True\<rparr>"])
  qed
next
  show "\<not> (r_success (fst (verify2FACode w cid code ip s)) \<and>
          r_success (fst (verify2FACode w' cid code' ip' (snd (verify2FACode w cid code ip s)))))"
  proof
    assume a: "r_success (fst (verify2FACode w cid code ip s)) \<and>
          r_success (fst (verify2FACode w' cid code' ip' (snd (verify2FACode w cid code ip s))))"
    then have "verificationCodes (snd (verify2FACode w cid code ip s)) cid = None"
      by (simp add: v2_success_D(2))
    then have "\<not> r_success (fst (verify2FACode w' cid code' ip' (snd (verify2FACode w cid code ip s))))"
      by (simp add: v2_none)
    with a show False by simp
  qed
qed


text \<open>
  The claim as written fails after a successful first submission: the entry is gone, and
  the second submission is answered \<^verbatim>\<open>Invalid or expired verification code\<close>, not
  \<^verbatim>\<open>Verification code already used\<close>.
\<close>

theorem second_submission_counterexample:
  "r_success (fst (verify2FACode world0 ''123e4567-e89b-42d3-a456-426614174000'' ''123456'' ''1.2.3.4'' state_pending))
   \<and> now1 (world0\<lparr>now1 := 2000\<rparr>) \<le> vc_expiresAt pending_code
   \<and> r_message (fst (verify2FACode (world0\<lparr>now1 := 2000\<rparr>) ''123e4567-e89b-42d3-a456-426614174000'' ''123456'' ''1.2.3.4''
        (snd (verify2FACode world0 ''123e4567-e89b-42d3-a456-426614174000'' ''123456'' ''1.2.3.4'' state_pending))))
      = ''Invalid or expired verification code''
   \<and> ''Invalid or expired verification code'' \<noteq> ''Verification code already used''"
  by (simp add: fixture_defs v2_eval)

theorem code_accepted_at_most_once_before_expiry_witness:
  "verificationCodes state_pending ''123e4567-e89b-42d3-a456-426614174000'' = Some pending_code
   \<and> vc_expiresAt pending_code < now1 (world0\<lparr>now1 := 400000\<rparr>)
   \<and> verify2FACode (world0\<lparr>now1 := 400000\<rparr>) ''123e4567-e89b-42d3-a456-426614174000'' ''123456'' ''1.2.3.4'' state_pending =
        (failure ''Verification code expired'', state0)
   \<and> r_success (fst (verify2FACode world0 ''123e4567-e89b-42d3-a456-426614174000'' ''123456'' ''1.2.3.4'' state_pending))
   \<and> now1 world0 \<le> vc_expiresAt pending_code \<and> \<not> vc_used pending_code
   \<and> vc_ip pending_code = ''1.2.3.4'' \<and> vc_code pending_code = ''123456''
   \<and> fst (verify2FACode world0 ''123e4567-e89b-42d3-a456-426614174000'' ''123456'' ''1.2.3.4''
        (snd (verify2FACode world0 ''123e4567-e89b-42d3-a456-426614174000'' ''123456'' ''1.2.3.4'' state_pending)))
      = failure ''Invalid or expired verification code''
   \<and> verificationCodes (state_pending\<lparr>users := []\<rparr>) ''123e4567-e89b-42d3-a456-426614174000'' = Some pending_code
   \<and> \<not> r_success (fst (verify2FACode world0 ''123e4567-e89b-42d3-a456-426614174000'' ''123456'' ''1.2.3.4''
          (state_pending\<lparr>users := []\<rparr>)))
   \<and> fst (verify2FACode world0 ''123e4567-e89b-42d3-a456-426614174000'' ''123456'' ''1.2.3.4''
        (snd (verify2FACode world0 ''123e4567-e89b-42d3-a456-426614174000'' ''123456'' ''1.2.3.4'' (state_pending\<lparr>users := []\<rparr>))))
      = failure ''Verification code already used''"
proof -
  have hyp: "verificationCodes state_pending ''123e4567-e89b-42d3-a456-426614174000'' = Some pending_code"
    "vc_expiresAt pending_code < now1 (world0\<lparr>now1 := 400000\<rparr>)"
    "now1 world0 \<le> vc_expiresAt pending_code" "\<not> vc_used pending_code"
    "vc_ip pending_code = ''1.2.3.4''" "vc_code pending_code = ''123456''"
    "verificationCodes (state_pending\<lparr>users := []\<rparr>) ''123e4567-e89b-42d3-a456-426614174000'' = Some pending_code"
    by (simp_all add: fixture_defs)
  have ok: "r_success (fst (verify2FACode world0 ''123e4567-e89b-42d3-a456-426614174000'' ''123456'' ''1.2.3.4'' state_pending))"
    by (simp add: fixture_defs v2_eval)
  have ko: "\<not> r_success (fst (verify2FACode world0 ''123e4567-e89b-42d3-a456-426614174000'' ''123456'' ''1.2.3.4''
          (state_pending\<lparr>users := []\<rparr>)))"
    by (simp add: fixture_defs v2_eval)
  have st: "state_pending\<lparr>verificationCodes := (verificationCodes state_pending)(''123e4567-e89b-42d3-a456-426614174000'' := None)\<rparr> = state0"
    by (simp add: fixture_defs)
  show ?thesis
    using hyp ok ko st
      code_accepted_at_most_once_before_expiry [of state_pending "''123e4567-e89b-42d3-a456-426614174000''" pending_code
        "world0\<lparr>now1 := 400000\<rparr>" "''123456''" "''1.2.3.4''"]
      code_accepted_at_most_once_before_expiry [of state_pending "''123e4567-e89b-42d3-a456-426614174000''" pending_code
        world0 "''123456''" "''1.2.3.4''" world0]
      code_accepted_at_most_once_before_expiry [of "state_pending\<lparr>users := []\<rparr>" "''123e4567-e89b-42d3-a456-426614174000''" pending_code
        world0 "''123456''" "''1.2.3.4''" world0]
    by simp
qed


section \<open>verify2FACode: the path after the checks\<close>

lemma find_map_fun: "find P (map f xs) = map_option f (find (\<lambda>x. P (f x)) xs)"
  by (induction xs) simp_all

lemma logActivity_logs:
  "activityLogs (logActivity w uid a st m ip ua s) =
     (if dbThrows w CreateActivityLog then activityLogs s
      else activityLogs s @
        [\<lparr>al_userId = uid, al_action = a, al_status = st, al_message = m, al_ipAddress = ip,
          al_userAgent = (case ua of None \<Rightarrow> ''Unknown''
                          | Some x \<Rightarrow> if x = [] then ''Unknown'' else x)\<rparr>])"
  by (simp add: logActivity_def createActivityLog_def)

lemma v2_passed:
  assumes "verificationCodes s cid = Some v" "now1 w \<le> vc_expiresAt v" "\<not> vc_used v"
    "vc_ip v = ip" "vc_code v = code"
  shows "verify2FACode w cid code ip s =
    (let s1 = s\<lparr>verificationCodes := (verificationCodes s)(cid \<mapsto> v\<lparr>vc_used := True\<rparr>)\<rparr> in
     if dbThrows w GetUserByEmail then (failure ''Authentication service error'', s1)
     else case find (\<lambda>u. u_email u = vc_email v) (users s) of
       None \<Rightarrow> (failure ''User not found or inactive'', s1)
     | Some user \<Rightarrow>
         if \<not> u_isActive user then (failure ''User not found or inactive'', s1)
         else if dbThrows w CreateAuthSession then (failure ''Authentication service error'', s1)
         else
           (\<lparr>r_success = True, r_message = ''Login successful'', r_code = None,
             r_codeId = None, r_expiresIn = None, r_sessionToken = Some (randomToken w),
             r_user = Some user\<rparr>,
            (logActivity w (u_id user) ''login_success'' ''success'' ''Successfully logged in'' ip
               (Some (vc_userAgent v))
               (recordLoginAttempt (now2 w) ip True
                 (s1\<lparr>authSessions := authSessions s1 @
                    [\<lparr>as_userId = u_id user, as_sessionToken = randomToken w, as_ipAddress = ip,
                      as_userAgent = vc_userAgent v, as_isActive = True,
                      as_expiresAt = now2 w + sessionExpiry\<rparr>]\<rparr>)))
            \<lparr>verificationCodes := (verificationCodes s)(cid := None)\<rparr>))"
  using assms
  by (simp add: verify2FACode_def Let_def getUserByEmail_def createAuthSession_def
      split: option.split)


lemma v2_user_unavailable:
  assumes "verificationCodes s cid = Some v" "now1 w \<le> vc_expiresAt v" "\<not> vc_used v"
    "vc_ip v = ip" "vc_code v = code" "\<not> dbThrows w GetUserByEmail"
    "case find (\<lambda>u. u_email u = vc_email v) (users s) of None \<Rightarrow> True | Some u \<Rightarrow> \<not> u_isActive u"
  shows "verify2FACode w cid code ip s =
           (failure ''User not found or inactive'',
            s\<lparr>verificationCodes := (verificationCodes s)(cid \<mapsto> v\<lparr>vc_used := True\<rparr>)\<rparr>)"
proof (cases "find (\<lambda>u. u_email u = vc_email v) (users s)")
  case None
  with assms(6) show ?thesis by (simp add: v2_passed [OF assms(1-5)] Let_def)
next
  case (Some u)
  with assms(6,7) show ?thesis by (simp add: v2_passed [OF assms(1-5)] Let_def)
qed

lemma v2_success_result:
  assumes "r_success (fst (verify2FACode w cid code ip s))"
  shows "\<exists>v u. verificationCodes s cid = Some v \<and> now1 w \<le> vc_expiresAt v \<and> \<not> vc_used v
            \<and> vc_ip v = ip \<and> vc_code v = code
            \<and> find (\<lambda>u. u_email u = vc_email v) (users s) = Some u \<and> u_isActive u
            \<and> fst (verify2FACode w cid code ip s) =
                 \<lparr>r_success = True, r_message = ''Login successful'', r_code = None,
                  r_codeId = None, r_expiresIn = None, r_sessionToken = Some (randomToken w),
                  r_user = Some u\<rparr>
            \<and> authSessions (snd (verify2FACode w cid code ip s)) =
                 authSessions s @
                   [\<lparr>as_userId = u_id u, as_sessionToken = randomToken w, as_ipAddress = ip,
                     as_userAgent = vc_userAgent v, as_isActive = True,
                     as_expiresAt = now2 w + sessionExpiry\<rparr>]
            \<and> activityLogs (snd (verify2FACode w cid code ip s)) =
                 (if dbThrows w CreateActivityLog then activityLogs s
                  else activityLogs s @
                   [\<lparr>al_userId = u_id u, al_action = ''login_success'', al_status = ''success'',
                     al_message = ''Successfully logged in'', al_ipAddress = ip,
                     al_userAgent =
                       (if vc_userAgent v = [] then ''Unknown'' else vc_userAgent v)\<rparr>])"
proof -
  from v2_success_D(1) [OF assms] obtain v where
    v: "verificationCodes s cid = Some v" "now1 w \<le> vc_expiresAt v" "\<not> vc_used v"
      "vc_ip v = ip" "vc_code v = code"
    by blast
  note eq = v2_passed [OF v]
  from assms have t1: "\<not> dbThrows w GetUserByEmail"
    by (auto simp: eq Let_def)
  with assms obtain u where u: "find (\<lambda>u. u_email u = vc_email v) (users s) = Some u"
    by (cases "find (\<lambda>u. u_email u = vc_email v) (users s)") (auto simp: eq Let_def)
  from assms t1 u have a: "u_isActive u"
    by (auto simp: eq Let_def split: if_splits)
  from assms t1 u a have t2: "\<not> dbThrows w CreateAuthSession"
    by (auto simp: eq Let_def split: if_splits)
  have "fst (verify2FACode w cid code ip s) =
                 \<lparr>r_success = True, r_message = ''Login successful'', r_code = None,
                  r_codeId = None, r_expiresIn = None, r_sessionToken = Some (randomToken w),
                  r_user = Some u\<rparr>"
    using t1 u a t2 by (simp add: eq Let_def)
  moreover have "authSessions (snd (verify2FACode w cid code ip s)) =
                 authSessions s @
                   [\<lparr>as_userId = u_id u, as_sessionToken = randomToken w, as_ipAddress = ip,
                     as_userAgent = vc_userAgent v, as_isActive = True,
                     as_expiresAt = now2 w + sessionExpiry\<rparr>]"
    using t1 u a t2 by (simp add: eq Let_def)
  moreover have "activityLogs (snd (verify2FACode w cid code ip s)) =
                 (if dbThrows w CreateActivityLog then activityLogs s
                  else activityLogs s @
                   [\<lparr>al_userId = u_id u, al_action = ''login_success'', al_status = ''success'',
                     al_message = ''Successfully logged in'', al_ipAddress = ip,
                     al_userAgent =
                       (if vc_userAgent v = [] then ''Unknown'' else vc_userAgent v)\<rparr>])"
    using t1 u a t2 by (simp add: eq Let_def logActivity_logs)
  ultimately show ?thesis using v u a by blast
qed

lemma v2_failure_frame:
  assumes "\<not> r_success (fst (verify2FACode w cid code ip s))"
  shows "authSessions (snd (verify2FACode w cid code ip s)) = authSessions s"
    and "r_sessionToken (fst (verify2FACode w cid code ip s)) = None"
    and "activityLogs (snd (verify2FACode w cid code ip s)) = activityLogs s"
    and "users (snd (verify2FACode w cid code ip s)) = users s"
    and "loginAttempts (snd (verify2FACode w cid code ip s)) = loginAttempts s"
proof -
  let ?R = "verify2FACode w cid code ip s"
  have "authSessions (snd ?R) = authSessions s \<and> r_sessionToken (fst ?R) = None
      \<and> activityLogs (snd ?R) = activityLogs s \<and> users (snd ?R) = users s
      \<and> loginAttempts (snd ?R) = loginAttempts s"
  proof (cases "verificationCodes s cid")
    case None
    then show ?thesis by (simp add: v2_none)
  next
    case (Some v)
    show ?thesis
    proof (cases "now1 w \<le> vc_expiresAt v \<and> \<not> vc_used v \<and> vc_ip v = ip \<and> vc_code v = code")
      case True
      with Some assms show ?thesis
        by (simp add: v2_passed [of s cid v w ip code] Let_def split: option.splits if_splits)
    next
      case False
      with Some show ?thesis
        by (auto simp: verify2FACode_def)
    qed
  qed
  then show "authSessions (snd ?R) = authSessions s"
    and "r_sessionToken (fst ?R) = None"
    and "activityLogs (snd ?R) = activityLogs s"
    and "users (snd ?R) = users s"
    and "loginAttempts (snd ?R) = loginAttempts s"
    by simp_all
qed

lemma v2_run_used:
  assumes "verificationCodes s cid = Some v" "vc_used v"
    "list_all (\<lambda>c. now1 (fst c) \<le> vc_expiresAt v) cs"
  shows "verify2FACode_run cid cs s =
           (replicate (length cs) (failure ''Verification code already used''), s)"
  using assms
  by (induction cs) (auto simp: v2_used)


lemma v2_hash_independent:
  "r_success (fst (verify2FACode w cid code ip
      (s\<lparr>users := map (\<lambda>u. u\<lparr>u_passwordHash := h u\<rparr>) (users s)\<rparr>)))
     = r_success (fst (verify2FACode w cid code ip s))
   \<and> r_message (fst (verify2FACode w cid code ip
      (s\<lparr>users := map (\<lambda>u. u\<lparr>u_passwordHash := h u\<rparr>) (users s)\<rparr>)))
     = r_message (fst (verify2FACode w cid code ip s))
   \<and> r_sessionToken (fst (verify2FACode w cid code ip
      (s\<lparr>users := map (\<lambda>u. u\<lparr>u_passwordHash := h u\<rparr>) (users s)\<rparr>)))
     = r_sessionToken (fst (verify2FACode w cid code ip s))
   \<and> map_option (\<lambda>u. \<lparr>j_id = u_id u, j_email = u_email u, j_name = u_name u, j_role = u_role u\<rparr>)
       (r_user (fst (verify2FACode w cid code ip
          (s\<lparr>users := map (\<lambda>u. u\<lparr>u_passwordHash := h u\<rparr>) (users s)\<rparr>))))
     = map_option (\<lambda>u. \<lparr>j_id = u_id u, j_email = u_email u, j_name = u_name u, j_role = u_role u\<rparr>)
         (r_user (fst (verify2FACode w cid code ip s)))"
proof (cases "verificationCodes s cid")
  case None
  then show ?thesis by (simp add: v2_none)
next
  case (Some v)
  let ?s' = "s\<lparr>users := map (\<lambda>u. u\<lparr>u_passwordHash := h u\<rparr>) (users s)\<rparr>"
  have vs': "verificationCodes ?s' cid = Some v" using Some by simp
  show ?thesis
  proof (cases "now1 w \<le> vc_expiresAt v \<and> \<not> vc_used v \<and> vc_ip v = ip \<and> vc_code v = code")
    case True
    then have c: "now1 w \<le> vc_expiresAt v" "\<not> vc_used v" "vc_ip v = ip" "vc_code v = code"
      by simp_all
    show ?thesis
      by (cases "find (\<lambda>u. u_email u = vc_email v) (users s)")
        (simp_all add: v2_passed [OF Some c] v2_passed [OF vs' c] Let_def find_map_fun)
  next
    case False
    with Some show ?thesis
      by (auto simp: verify2FACode_def)
  qed
qed

lemma verifyHandler_hash_independent:
  "fst (verifyHandler lib w body ip
          (s\<lparr>users := map (\<lambda>u. u\<lparr>u_passwordHash := h u\<rparr>) (users s)\<rparr>))
   = fst (verifyHandler lib w body ip s)"
proof (cases "verifySchema lib body")
  case None
  then show ?thesis by (simp add: verifyHandler_def)
next
  case (Some p)
  obtain cid code where p: "p = (cid, code)" by (cases p)
  let ?s' = "s\<lparr>users := map (\<lambda>u. u\<lparr>u_passwordHash := h u\<rparr>) (users s)\<rparr>"
  obtain r1 s1 where a: "verify2FACode w cid code ip ?s' = (r1, s1)"
    by (cases "verify2FACode w cid code ip ?s'")
  obtain r2 s2 where b: "verify2FACode w cid code ip s = (r2, s2)"
    by (cases "verify2FACode w cid code ip s")
  from v2_hash_independent [where w = w and cid = cid and code = code and ip = ip and s = s and h = h] a b
  show ?thesis by (simp add: verifyHandler_def Some p)
qed

lemma verifySchema_Some:
  "verifySchema lib body = Some (cid, code) \<Longrightarrow>
   b_codeId body = Some cid \<and> b_code body = Some code \<and> zod_uuid lib cid
   \<and> length code = 6 \<and> list_all digit code"
  by (auto simp: verifySchema_def split: option.splits if_splits)

lemma pending_body_valid:
  "verifySchema plain_library pending_body
     = Some (''123e4567-e89b-42d3-a456-426614174000'', ''123456'')"
  by code_simp


section \<open>C2: what a successful verify2FACode does and returns\<close>

text \<open>
  Claim C2, as amended.  On success \<^verbatim>\<open>verify2FACode\<close> has deleted the entry, has
  appended the \<^verbatim>\<open>login_success\<close> audit entry (when the log write does not throw),
  and returns the session token together with the user row as stored, password hash
  included.  It is the \<^verbatim>\<open>POST /api/auth/verify\<close> handler that, on a body that passes
  its validation and with the response calls not throwing, answers 200 with the token as a
  cookie and the public profile (id, email, name, role) only; a body that fails the
  validation is answered 400 and the service is not called.  No response of the handler
  depends on the stored password hashes.
\<close>

theorem verify2FACode_success_returns_stored_user:
  "(r_success (fst (verify2FACode w cid code ip s)) \<longrightarrow>
      (\<exists>v u. verificationCodes s cid = Some v
         \<and> find (\<lambda>u. u_email u = vc_email v) (users s) = Some u
         \<and> verificationCodes (snd (verify2FACode w cid code ip s)) cid = None
         \<and> (\<not> dbThrows w CreateActivityLog \<longrightarrow>
              activityLogs (snd (verify2FACode w cid code ip s)) =
                activityLogs s @
                  [\<lparr>al_userId = u_id u, al_action = ''login_success'', al_status = ''success'',
                    al_message = ''Successfully logged in'', al_ipAddress = ip,
                    al_userAgent =
                      (if vc_userAgent v = [] then ''Unknown'' else vc_userAgent v)\<rparr>])
         \<and> fst (verify2FACode w cid code ip s) =
              \<lparr>r_success = True, r_message = ''Login successful'', r_code = None,
               r_codeId = None, r_expiresIn = None, r_sessionToken = Some (randomToken w),
               r_user = Some u\<rparr>
         \<and> (verifySchema lib body = Some (cid, code) \<and> \<not> expressThrows w ResCookie
              \<and> \<not> expressThrows w ResJson \<longrightarrow>
              fst (verifyHandler lib w body ip s) =
                \<lparr>resp_status = 200, resp_cookie = Some (randomToken w), resp_success = True,
                 resp_message = ''Login successful'',
                 resp_user = Some \<lparr>j_id = u_id u, j_email = u_email u, j_name = u_name u,
                                   j_role = u_role u\<rparr>,
                 resp_errors = False\<rparr>)))
   \<and> (verifySchema lib body = None \<and> \<not> expressThrows w ResJson \<longrightarrow>
        verifyHandler lib w body ip s =
          (\<lparr>resp_status = 400, resp_cookie = None, resp_success = False,
            resp_message = ''Invalid input'', resp_user = None, resp_errors = True\<rparr>, s))
   \<and> fst (verifyHandler lib w body ip
            (s\<lparr>users := map (\<lambda>u. u\<lparr>u_passwordHash := h u\<rparr>) (users s)\<rparr>))
       = fst (verifyHandler lib w body ip s)"
proof (intro conjI impI)
  assume ok: "r_success (fst (verify2FACode w cid code ip s))"
  from v2_success_result [OF ok] obtain v u where
    r: "verificationCodes s cid = Some v"
       "find (\<lambda>u. u_email u = vc_email v) (users s) = Some u"
       "fst (verify2FACode w cid code ip s) =
              \<lparr>r_success = True, r_message = ''Login successful'', r_code = None,
               r_codeId = None, r_expiresIn = None, r_sessionToken = Some (randomToken w),
               r_user = Some u\<rparr>"
       "activityLogs (snd (verify2FACode w cid code ip s)) =
                 (if dbThrows w CreateActivityLog then activityLogs s
                  else activityLogs s @
                   [\<lparr>al_userId = u_id u, al_action = ''login_success'', al_status = ''success'',
                     al_message = ''Successfully logged in'', al_ipAddress = ip,
                     al_userAgent =
                       (if vc_userAgent v = [] then ''Unknown'' else vc_userAgent v)\<rparr>])"
    by blast
  have del: "verificationCodes (snd (verify2FACode w cid code ip s)) cid = None"
    by (rule v2_success_D(2) [OF ok])
  have h: "verifySchema lib body = Some (cid, code) \<and> \<not> expressThrows w ResCookie
              \<and> \<not> expressThrows w ResJson \<longrightarrow>
              fst (verifyHandler lib w body ip s) =
                \<lparr>resp_status = 200, resp_cookie = Some (randomToken w), resp_success = True,
                 resp_message = ''Login successful'',
                 resp_user = Some \<lparr>j_id = u_id u, j_email = u_email u, j_name = u_name u,
                                   j_role = u_role u\<rparr>,
                 resp_errors = False\<rparr>"
  proof (cases "verify2FACode w cid code ip s")
    case (Pair r1 s1)
    with r(3) show ?thesis by (simp add: verifyHandler_def)
  qed
  show "\<exists>v u. verificationCodes s cid = Some v
         \<and> find (\<lambda>u. u_email u = vc_email v) (users s) = Some u
         \<and> verificationCodes (snd (verify2FACode w cid code ip s)) cid = None
         \<and> (\<not> dbThrows w CreateActivityLog \<longrightarrow>
              activityLogs (snd (verify2FACode w cid code ip s)) =
                activityLogs s @
                  [\<lparr>al_userId = u_id u, al_action = ''login_success'', al_status = ''success'',
                    al_message = ''Successfully logged in'', al_ipAddress = ip,
                    al_userAgent =
                      (if vc_userAgent v = [] then ''Unknown'' else vc_userAgent v)\<rparr>])
         \<and> fst (verify2FACode w cid code ip s) =
              \<lparr>r_success = True, r_message = ''Login successful'', r_code = None,
               r_codeId = None, r_expiresIn = None, r_sessionToken = Some (randomToken w),
               r_user = Some u\<rparr>
         \<and> (verifySchema lib body = Some (cid, code) \<and> \<not> expressThrows w ResCookie
              \<and> \<not> expressThrows w ResJson \<longrightarrow>
              fst (verifyHandler lib w body ip s) =
                \<lparr>resp_status = 200, resp_cookie = Some (randomToken w), resp_success = True,
                 resp_message = ''Login successful'',
                 resp_user = Some \<lparr>j_id = u_id u, j_email = u_email u, j_name = u_name u,
                                   j_role = u_role u\<rparr>,
                 resp_errors = False\<rparr>)"
    using r del h by (intro exI [of _ v] exI [of _ u]) simp
next
  assume "verifySchema lib body = None \<and> \<not> expressThrows w ResJson"
  then show "verifyHandler lib w body ip s =
          (\<lparr>resp_status = 400, resp_cookie = None, resp_success = False,
            resp_message = ''Invalid input'', resp_user = None, resp_errors = True\<rparr>, s)"
    by (simp add: verifyHandler_def)
next
  show "fst (verifyHandler lib w body ip
            (s\<lparr>users := map (\<lambda>u. u\<lparr>u_passwordHash := h u\<rparr>) (users s)\<rparr>))
       = fst (verifyHandler lib w body ip s)"
    by (rule verifyHandler_hash_independent)
qed

text \<open>
  The claim as written fails: the value \<^verbatim>\<open>verify2FACode\<close> returns carries the
  stored password hash in its \<^verbatim>\<open>user\<close> field.
\<close>

theorem verify2FACode_returns_password_hash_counterexample:
  "r_success (fst (verify2FACode world0 ''123e4567-e89b-42d3-a456-426614174000'' ''123456'' ''1.2.3.4'' state_pending))
   \<and> map_option u_passwordHash (find (\<lambda>u. u_email u = ''a@b.com'') (users state_pending))
       = Some ''$2b$12$secret123''
   \<and> map_option u_passwordHash
        (r_user (fst (verify2FACode world0 ''123e4567-e89b-42d3-a456-426614174000'' ''123456'' ''1.2.3.4'' state_pending)))
       = Some ''$2b$12$secret123''"
  by (simp add: fixture_defs v2_eval)

theorem verify2FACode_success_returns_stored_user_witness:
  "r_success (fst (verify2FACode world0 ''123e4567-e89b-42d3-a456-426614174000'' ''123456'' ''1.2.3.4'' state_pending))
   \<and> \<not> dbThrows world0 CreateActivityLog
   \<and> verificationCodes (snd (verify2FACode world0 ''123e4567-e89b-42d3-a456-426614174000'' ''123456'' ''1.2.3.4'' state_pending))
        ''123e4567-e89b-42d3-a456-426614174000'' = None
   \<and> activityLogs (snd (verify2FACode world0 ''123e4567-e89b-42d3-a456-426614174000'' ''123456'' ''1.2.3.4'' state_pending)) =
        [\<lparr>al_userId = 1, al_action = ''login_success'', al_status = ''success'',
          al_message = ''Successfully logged in'', al_ipAddress = ''1.2.3.4'',
          al_userAgent = ''ua''\<rparr>]
   \<and> r_user (fst (verify2FACode world0 ''123e4567-e89b-42d3-a456-426614174000'' ''123456'' ''1.2.3.4'' state_pending))
        = Some alice
   \<and> verifySchema plain_library pending_body = Some (''123e4567-e89b-42d3-a456-426614174000'', ''123456'')
   \<and> \<not> expressThrows world0 ResCookie \<and> \<not> expressThrows world0 ResJson
   \<and> fst (verifyHandler plain_library world0 pending_body ''1.2.3.4'' state_pending) =
        \<lparr>resp_status = 200, resp_cookie = Some ''tok-1'', resp_success = True,
         resp_message = ''Login successful'',
         resp_user = Some \<lparr>j_id = 1, j_email = ''a@b.com'', j_name = ''Alice'',
                           j_role = ''admin''\<rparr>,
         resp_errors = False\<rparr>
   \<and> verifySchema plain_library (pending_body\<lparr>b_codeId := Some ''uuid-1''\<rparr>) = None
   \<and> verifyHandler plain_library world0 (pending_body\<lparr>b_codeId := Some ''uuid-1''\<rparr>)
        ''1.2.3.4'' state_pending =
        (\<lparr>resp_status = 400, resp_cookie = None, resp_success = False,
          resp_message = ''Invalid input'', resp_user = None, resp_errors = True\<rparr>,
         state_pending)"
proof -
  have ok: "r_success (fst (verify2FACode world0 ''123e4567-e89b-42d3-a456-426614174000'' ''123456'' ''1.2.3.4'' state_pending))"
    by (simp add: fixture_defs v2_eval)
  have f: "verificationCodes state_pending ''123e4567-e89b-42d3-a456-426614174000'' = Some pending_code"
    "find (\<lambda>u. u_email u = vc_email pending_code) (users state_pending) = Some alice"
    "\<not> dbThrows world0 CreateActivityLog" "activityLogs state_pending = []"
    "randomToken world0 = ''tok-1''"
    "\<not> expressThrows world0 ResCookie" "\<not> expressThrows world0 ResJson"
    by (simp_all add: fixture_defs)
  note valid = pending_body_valid
  have bad: "verifySchema plain_library (pending_body\<lparr>b_codeId := Some ''uuid-1''\<rparr>) = None"
    by code_simp
  note T = verify2FACode_success_returns_stored_user
         [where w = world0 and cid = "''123e4567-e89b-42d3-a456-426614174000''" and code = "''123456''" and ip = "''1.2.3.4''"
            and s = state_pending and lib = plain_library and h = u_passwordHash]
  from T [where body = pending_body] ok f valid
  have 1: "verificationCodes (snd (verify2FACode world0 ''123e4567-e89b-42d3-a456-426614174000'' ''123456'' ''1.2.3.4'' state_pending))
        ''123e4567-e89b-42d3-a456-426614174000'' = None
   \<and> activityLogs (snd (verify2FACode world0 ''123e4567-e89b-42d3-a456-426614174000'' ''123456'' ''1.2.3.4'' state_pending)) =
        [\<lparr>al_userId = 1, al_action = ''login_success'', al_status = ''success'',
          al_message = ''Successfully logged in'', al_ipAddress = ''1.2.3.4'',
          al_userAgent = ''ua''\<rparr>]
   \<and> r_user (fst (verify2FACode world0 ''123e4567-e89b-42d3-a456-426614174000'' ''123456'' ''1.2.3.4'' state_pending))
        = Some alice
   \<and> fst (verifyHandler plain_library world0 pending_body ''1.2.3.4'' state_pending) =
        \<lparr>resp_status = 200, resp_cookie = Some ''tok-1'', resp_success = True,
         resp_message = ''Login successful'',
         resp_user = Some \<lparr>j_id = 1, j_email = ''a@b.com'', j_name = ''Alice'',
                           j_role = ''admin''\<rparr>,
         resp_errors = False\<rparr>"
    by (auto simp: alice_def pending_code_def)
  have h2: "verifySchema plain_library (pending_body\<lparr>b_codeId := Some ''uuid-1''\<rparr>) = None
      \<and> \<not> expressThrows world0 ResJson"
    using bad f by simp
  from T [where body = "pending_body\<lparr>b_codeId := Some ''uuid-1''\<rparr>",
      THEN conjunct2, THEN conjunct1, THEN mp, OF h2]
  have 2: "verifyHandler plain_library world0 (pending_body\<lparr>b_codeId := Some ''uuid-1''\<rparr>)
        ''1.2.3.4'' state_pending =
        (\<lparr>resp_status = 400, resp_cookie = None, resp_success = False,
          resp_message = ''Invalid input'', resp_user = None, resp_errors = True\<rparr>,
         state_pending)" .
  from ok f valid bad 1 2 show ?thesis by simp
qed

section \<open>C4: a session only for an active user\<close>

text \<open>
  Claim C4.  In every execution of \<^verbatim>\<open>verify2FACode\<close>, the session table changes,
  or a session token is returned, only if the user fetched after the code checks exists
  and is active, and then exactly one session for that user is appended.  When the code
  checks pass and the fetched user is absent or inactive, the call fails with
  \<^verbatim>\<open>User not found or inactive\<close>, returns no token and leaves the session table
  as it was.
\<close>

theorem session_created_only_for_active_user:
  "(authSessions (snd (verify2FACode w cid code ip s)) \<noteq> authSessions s
      \<or> r_sessionToken (fst (verify2FACode w cid code ip s)) \<noteq> None
      \<or> r_success (fst (verify2FACode w cid code ip s)) \<longrightarrow>
      (\<exists>v u. verificationCodes s cid = Some v
         \<and> find (\<lambda>u. u_email u = vc_email v) (users s) = Some u \<and> u_isActive u
         \<and> authSessions (snd (verify2FACode w cid code ip s)) =
              authSessions s @
                [\<lparr>as_userId = u_id u, as_sessionToken = randomToken w, as_ipAddress = ip,
                  as_userAgent = vc_userAgent v, as_isActive = True,
                  as_expiresAt = now2 w + sessionExpiry\<rparr>]))
   \<and> (verificationCodes s cid = Some v \<and> now1 w \<le> vc_expiresAt v \<and> \<not> vc_used v
        \<and> vc_ip v = ip \<and> vc_code v = code \<and> \<not> dbThrows w GetUserByEmail
        \<and> (case find (\<lambda>u. u_email u = vc_email v) (users s) of
              None \<Rightarrow> True | Some u \<Rightarrow> \<not> u_isActive u) \<longrightarrow>
        fst (verify2FACode w cid code ip s) = failure ''User not found or inactive''
        \<and> r_sessionToken (fst (verify2FACode w cid code ip s)) = None
        \<and> authSessions (snd (verify2FACode w cid code ip s)) = authSessions s)"
proof (rule conjI; rule impI)
  let ?R = "verify2FACode w cid code ip s"
  assume a: "authSessions (snd ?R) \<noteq> authSessions s \<or> r_sessionToken (fst ?R) \<noteq> None
      \<or> r_success (fst ?R)"
  have ok: "r_success (fst ?R)"
  proof (rule ccontr)
    assume n: "\<not> r_success (fst ?R)"
    from v2_failure_frame(1,2) [OF n] a n show False by simp
  qed
  from v2_success_result [OF ok]
  show "\<exists>v u. verificationCodes s cid = Some v
         \<and> find (\<lambda>u. u_email u = vc_email v) (users s) = Some u \<and> u_isActive u
         \<and> authSessions (snd ?R) =
              authSessions s @
                [\<lparr>as_userId = u_id u, as_sessionToken = randomToken w, as_ipAddress = ip,
                  as_userAgent = vc_userAgent v, as_isActive = True,
                  as_expiresAt = now2 w + sessionExpiry\<rparr>]"
    by blast
next
  assume h: "verificationCodes s cid = Some v \<and> now1 w \<le> vc_expiresAt v \<and> \<not> vc_used v
        \<and> vc_ip v = ip \<and> vc_code v = code \<and> \<not> dbThrows w GetUserByEmail
        \<and> (case find (\<lambda>u. u_email u = vc_email v) (users s) of
              None \<Rightarrow> True | Some u \<Rightarrow> \<not> u_isActive u)"
  then have "verify2FACode w cid code ip s =
           (failure ''User not found or inactive'',
            s\<lparr>verificationCodes := (verificationCodes s)(cid \<mapsto> v\<lparr>vc_used := True\<rparr>)\<rparr>)"
    by (intro v2_user_unavailable) simp_all
  then show "fst (verify2FACode w cid code ip s) = failure ''User not found or inactive''
        \<and> r_sessionToken (fst (verify2FACode w cid code ip s)) = None
        \<and> authSessions (snd (verify2FACode w cid code ip s)) = authSessions s"
    by simp
qed

theorem session_created_only_for_active_user_witness:
  "r_success (fst (verify2FACode world0 ''123e4567-e89b-42d3-a456-426614174000'' ''123456'' ''1.2.3.4'' state_pending))
   \<and> find (\<lambda>u. u_email u = vc_email pending_code) (users state_pending) = Some alice
   \<and> u_isActive alice
   \<and> authSessions (snd (verify2FACode world0 ''123e4567-e89b-42d3-a456-426614174000'' ''123456'' ''1.2.3.4'' state_pending)) =
        [\<lparr>as_userId = 1, as_sessionToken = ''tok-1'', as_ipAddress = ''1.2.3.4'',
          as_userAgent = ''ua'', as_isActive = True, as_expiresAt = 86401005\<rparr>]
   \<and> verificationCodes (state_pending\<lparr>users := [alice\<lparr>u_isActive := False\<rparr>]\<rparr>) ''123e4567-e89b-42d3-a456-426614174000''
        = Some pending_code
   \<and> now1 world0 \<le> vc_expiresAt pending_code \<and> \<not> vc_used pending_code
   \<and> vc_ip pending_code = ''1.2.3.4'' \<and> vc_code pending_code = ''123456''
   \<and> \<not> dbThrows world0 GetUserByEmail
   \<and> find (\<lambda>u. u_email u = vc_email pending_code)
        (users (state_pending\<lparr>users := [alice\<lparr>u_isActive := False\<rparr>]\<rparr>))
        = Some (alice\<lparr>u_isActive := False\<rparr>)
   \<and> fst (verify2FACode world0 ''123e4567-e89b-42d3-a456-426614174000'' ''123456'' ''1.2.3.4''
          (state_pending\<lparr>users := [alice\<lparr>u_isActive := False\<rparr>]\<rparr>))
        = failure ''User not found or inactive''
   \<and> authSessions (snd (verify2FACode world0 ''123e4567-e89b-42d3-a456-426614174000'' ''123456'' ''1.2.3.4''
          (state_pending\<lparr>users := [alice\<lparr>u_isActive := False\<rparr>]\<rparr>))) = []"
proof -
  have ok: "r_success (fst (verify2FACode world0 ''123e4567-e89b-42d3-a456-426614174000'' ''123456'' ''1.2.3.4'' state_pending))"
    by (simp add: fixture_defs v2_eval)
  have f: "verificationCodes state_pending ''123e4567-e89b-42d3-a456-426614174000'' = Some pending_code"
    "find (\<lambda>u. u_email u = vc_email pending_code) (users state_pending) = Some alice"
    "u_isActive alice" "authSessions state_pending = []"
    "verificationCodes (state_pending\<lparr>users := [alice\<lparr>u_isActive := False\<rparr>]\<rparr>) ''123e4567-e89b-42d3-a456-426614174000''
        = Some pending_code"
    "now1 world0 \<le> vc_expiresAt pending_code" "\<not> vc_used pending_code"
    "vc_ip pending_code = ''1.2.3.4''" "vc_code pending_code = ''123456''"
    "\<not> dbThrows world0 GetUserByEmail"
    "find (\<lambda>u. u_email u = vc_email pending_code)
        (users (state_pending\<lparr>users := [alice\<lparr>u_isActive := False\<rparr>]\<rparr>))
        = Some (alice\<lparr>u_isActive := False\<rparr>)"
    "randomToken world0 = ''tok-1''" "now2 world0 + sessionExpiry = 86401005"
    "u_id alice = 1" "vc_userAgent pending_code = ''ua''"
    by (simp_all add: fixture_defs sessionExpiry_def)
  from session_created_only_for_active_user
         [of world0 "''123e4567-e89b-42d3-a456-426614174000''" "''123456''" "''1.2.3.4''" state_pending pending_code] ok f
  have 1: "authSessions (snd (verify2FACode world0 ''123e4567-e89b-42d3-a456-426614174000'' ''123456'' ''1.2.3.4'' state_pending)) =
        [\<lparr>as_userId = 1, as_sessionToken = ''tok-1'', as_ipAddress = ''1.2.3.4'',
          as_userAgent = ''ua'', as_isActive = True, as_expiresAt = 86401005\<rparr>]"
    by auto
  from session_created_only_for_active_user
         [of world0 "''123e4567-e89b-42d3-a456-426614174000''" "''123456''" "''1.2.3.4''"
            "state_pending\<lparr>users := [alice\<lparr>u_isActive := False\<rparr>]\<rparr>" pending_code] f
  have 2: "fst (verify2FACode world0 ''123e4567-e89b-42d3-a456-426614174000'' ''123456'' ''1.2.3.4''
          (state_pending\<lparr>users := [alice\<lparr>u_isActive := False\<rparr>]\<rparr>))
        = failure ''User not found or inactive''
   \<and> authSessions (snd (verify2FACode world0 ''123e4567-e89b-42d3-a456-426614174000'' ''123456'' ''1.2.3.4''
          (state_pending\<lparr>users := [alice\<lparr>u_isActive := False\<rparr>]\<rparr>))) = []"
    by (simp add: state_pending_def state0_def)
  from ok f 1 2 show ?thesis by simp
qed

section \<open>C8: a code burnt by the UserUnavailable failure\<close>

text \<open>
  Claim C8.  When \<^verbatim>\<open>verify2FACode\<close> has marked an entry used and then finds the
  owning user absent or inactive, it fails with \<^verbatim>\<open>User not found or inactive\<close>, issues
  no session, and leaves the entry in the cache with its used flag set.  From then on
  every call with that code identifier whose clock reading does not exceed the expiry,
  whatever code and address it supplies and in whatever state holds that entry, fails
  with \<^verbatim>\<open>Verification code already used\<close> and changes nothing; so does every run
  of such calls.
\<close>

theorem user_unavailable_burns_code:
  "verificationCodes s cid = Some v \<and> now1 w \<le> vc_expiresAt v \<and> \<not> vc_used v
     \<and> vc_ip v = ip \<and> vc_code v = code \<and> \<not> dbThrows w GetUserByEmail
     \<and> (case find (\<lambda>u. u_email u = vc_email v) (users s) of
           None \<Rightarrow> True | Some u \<Rightarrow> \<not> u_isActive u) \<longrightarrow>
   fst (verify2FACode w cid code ip s) = failure ''User not found or inactive''
   \<and> verificationCodes (snd (verify2FACode w cid code ip s)) cid = Some (v\<lparr>vc_used := True\<rparr>)
   \<and> authSessions (snd (verify2FACode w cid code ip s)) = authSessions s
   \<and> (verificationCodes s' cid = Some (v\<lparr>vc_used := True\<rparr>) \<and> now1 w' \<le> vc_expiresAt v \<longrightarrow>
        verify2FACode w' cid code' ip' s' = (failure ''Verification code already used'', s'))
   \<and> (list_all (\<lambda>c. now1 (fst c) \<le> vc_expiresAt v) later \<longrightarrow>
        verify2FACode_run cid later (snd (verify2FACode w cid code ip s)) =
          (replicate (length later) (failure ''Verification code already used''),
           snd (verify2FACode w cid code ip s)))"
proof (intro impI)
  assume h: "verificationCodes s cid = Some v \<and> now1 w \<le> vc_expiresAt v \<and> \<not> vc_used v
     \<and> vc_ip v = ip \<and> vc_code v = code \<and> \<not> dbThrows w GetUserByEmail
     \<and> (case find (\<lambda>u. u_email u = vc_email v) (users s) of
           None \<Rightarrow> True | Some u \<Rightarrow> \<not> u_isActive u)"
  then have eq: "verify2FACode w cid code ip s =
           (failure ''User not found or inactive'',
            s\<lparr>verificationCodes := (verificationCodes s)(cid \<mapsto> v\<lparr>vc_used := True\<rparr>)\<rparr>)"
    by (intro v2_user_unavailable) simp_all
  have one: "verificationCodes s' cid = Some (v\<lparr>vc_used := True\<rparr>) \<and> now1 w' \<le> vc_expiresAt v \<longrightarrow>
        verify2FACode w' cid code' ip' s' = (failure ''Verification code already used'', s')"
    by (simp add: v2_used [where v = "v\<lparr>vc_used := True\<rparr>"])
  have run: "list_all (\<lambda>c. now1 (fst c) \<le> vc_expiresAt v) later \<longrightarrow>
        verify2FACode_run cid later (snd (verify2FACode w cid code ip s)) =
          (replicate (length later) (failure ''Verification code already used''),
           snd (verify2FACode w cid code ip s))"
    by (auto simp: eq intro!: v2_run_used [where v = "v\<lparr>vc_used := True\<rparr>"])
  from eq one run
  show "fst (verify2FACode w cid code ip s) = failure ''User not found or inactive''
   \<and> verificationCodes (snd (verify2FACode w cid code ip s)) cid = Some (v\<lparr>vc_used := True\<rparr>)
   \<and> authSessions (snd (verify2FACode w cid code ip s)) = authSessions s
   \<and> (verificationCodes s' cid = Some (v\<lparr>vc_used := True\<rparr>) \<and> now1 w' \<le> vc_expiresAt v \<longrightarrow>
        verify2FACode w' cid code' ip' s' = (failure ''Verification code already used'', s'))
   \<and> (list_all (\<lambda>c. now1 (fst c) \<le> vc_expiresAt v) later \<longrightarrow>
        verify2FACode_run cid later (snd (verify2FACode w cid code ip s)) =
          (replicate (length later) (failure ''Verification code already used''),
           snd (verify2FACode w cid code ip s)))"
    by simp
qed

theorem user_unavailable_burns_code_witness:
  "verificationCodes (state_pending\<lparr>users := []\<rparr>) ''123e4567-e89b-42d3-a456-426614174000'' = Some pending_code
   \<and> now1 world0 \<le> vc_expiresAt pending_code \<and> \<not> vc_used pending_code
   \<and> vc_ip pending_code = ''1.2.3.4'' \<and> vc_code pending_code = ''123456''
   \<and> \<not> dbThrows world0 GetUserByEmail
   \<and> find (\<lambda>u. u_email u = vc_email pending_code) (users (state_pending\<lparr>users := []\<rparr>)) = None
   \<and> fst (verify2FACode world0 ''123e4567-e89b-42d3-a456-426614174000'' ''123456'' ''1.2.3.4'' (state_pending\<lparr>users := []\<rparr>))
        = failure ''User not found or inactive''
   \<and> verificationCodes
        (snd (verify2FACode world0 ''123e4567-e89b-42d3-a456-426614174000'' ''123456'' ''1.2.3.4'' (state_pending\<lparr>users := []\<rparr>)))
        ''123e4567-e89b-42d3-a456-426614174000'' = Some (pending_code\<lparr>vc_used := True\<rparr>)
   \<and> now1 (world0\<lparr>now1 := 3000\<rparr>) \<le> vc_expiresAt pending_code
   \<and> verify2FACode (world0\<lparr>now1 := 3000\<rparr>) ''123e4567-e89b-42d3-a456-426614174000'' ''123456'' ''1.2.3.4''
        (snd (verify2FACode world0 ''123e4567-e89b-42d3-a456-426614174000'' ''123456'' ''1.2.3.4'' (state_pending\<lparr>users := []\<rparr>)))
      = (failure ''Verification code already used'',
         snd (verify2FACode world0 ''123e4567-e89b-42d3-a456-426614174000'' ''123456'' ''1.2.3.4'' (state_pending\<lparr>users := []\<rparr>)))
   \<and> list_all (\<lambda>c. now1 (fst c) \<le> vc_expiresAt pending_code)
        [(world0\<lparr>now1 := 2000\<rparr>, ''123456'', ''1.2.3.4''),
         (world0\<lparr>now1 := 301005\<rparr>, ''000000'', ''9.9.9.9'')]
   \<and> fst (verify2FACode_run ''123e4567-e89b-42d3-a456-426614174000''
        [(world0\<lparr>now1 := 2000\<rparr>, ''123456'', ''1.2.3.4''),
         (world0\<lparr>now1 := 301005\<rparr>, ''000000'', ''9.9.9.9'')]
        (snd (verify2FACode world0 ''123e4567-e89b-42d3-a456-426614174000'' ''123456'' ''1.2.3.4'' (state_pending\<lparr>users := []\<rparr>))))
      = [failure ''Verification code already used'', failure ''Verification code already used'']"
proof -
  let ?s1 = "snd (verify2FACode world0 ''123e4567-e89b-42d3-a456-426614174000'' ''123456'' ''1.2.3.4'' (state_pending\<lparr>users := []\<rparr>))"
  let ?later = "[(world0\<lparr>now1 := 2000\<rparr>, ''123456'', ''1.2.3.4''),
         (world0\<lparr>now1 := 301005\<rparr>, ''000000'', ''9.9.9.9'')]"
  have f: "verificationCodes (state_pending\<lparr>users := []\<rparr>) ''123e4567-e89b-42d3-a456-426614174000'' = Some pending_code"
    "now1 world0 \<le> vc_expiresAt pending_code" "\<not> vc_used pending_code"
    "vc_ip pending_code = ''1.2.3.4''" "vc_code pending_code = ''123456''"
    "\<not> dbThrows world0 GetUserByEmail"
    "find (\<lambda>u. u_email u = vc_email pending_code) (users (state_pending\<lparr>users := []\<rparr>)) = None"
    "now1 (world0\<lparr>now1 := 3000\<rparr>) \<le> vc_expiresAt pending_code"
    "list_all (\<lambda>c. now1 (fst c) \<le> vc_expiresAt pending_code) ?later"
    by (simp_all add: fixture_defs)
  from f user_unavailable_burns_code
         [of "state_pending\<lparr>users := []\<rparr>" "''123e4567-e89b-42d3-a456-426614174000''" pending_code world0 "''1.2.3.4''"
            "''123456''" ?s1 "world0\<lparr>now1 := 3000\<rparr>" "''123456''" "''1.2.3.4''" ?later]
  show ?thesis by simp
qed

section \<open>verifySession\<close>

lemma invalid_sel [simp]:
  "sv_valid (invalid m) = False" "sv_message (invalid m) = Some m"
  by (simp_all add: invalid_def)

lemma find_deactivated:
  "find (\<lambda>a. as_sessionToken a = t)
     (map (\<lambda>a. if as_sessionToken a = t then a\<lparr>as_isActive := b\<rparr> else a) xs)
   = map_option (\<lambda>a. a\<lparr>as_isActive := b\<rparr>) (find (\<lambda>a. as_sessionToken a = t) xs)"
  by (induction xs) simp_all

lemma verifySession_expired_invalid:
  assumes "find (\<lambda>a. as_sessionToken a = token) (authSessions s) = Some session"
    "as_expiresAt session < now1 w"
  shows "sv_valid (fst (verifySession w token s)) = False"
  using assms
  by (simp add: verifySession_def getAuthSession_def updateAuthSession_isActive_def)

lemma verifySession_inactive:
  assumes "find (\<lambda>a. as_sessionToken a = token) (authSessions s) = Some session"
    "token \<noteq> []" "\<not> as_isActive session" "\<not> dbThrows w GetAuthSession"
  shows "verifySession w token s = (invalid ''Session is inactive'', s)"
  using assms by (simp add: verifySession_def getAuthSession_def)

lemma verifySession_expired_active:
  assumes "find (\<lambda>a. as_sessionToken a = token) (authSessions s) = Some session"
    "as_expiresAt session < now1 w"
    "token \<noteq> []" "as_isActive session" "\<not> dbThrows w GetAuthSession"
    "\<not> dbThrows w UpdateAuthSession"
  shows "verifySession w token s =
    (invalid ''Session expired'',
     s\<lparr>authSessions :=
         map (\<lambda>a. if as_sessionToken a = token then a\<lparr>as_isActive := False\<rparr> else a)
           (authSessions s)\<rparr>)"
  using assms
  by (simp add: verifySession_def getAuthSession_def updateAuthSession_isActive_def)

section \<open>C5: verifySession on an expired session\<close>

text \<open>
  Claim C5.  For a session found under its token whose expiry lies before the clock
  reading, \<^verbatim>\<open>verifySession\<close> returns invalid in every case.  When the session is
  still marked active (and the two storage calls do not throw) the answer is
  \<^verbatim>\<open>Session expired\<close> and the only change of state is that the rows with this token
  get their active flag set to false; a second call on the same token, at any time, then
  answers \<^verbatim>\<open>Session is inactive\<close> and changes nothing.  When the session was
  already inactive the first call already answers \<^verbatim>\<open>Session is inactive\<close> and
  changes nothing.
\<close>

theorem verifySession_expired_deactivates:
  "find (\<lambda>a. as_sessionToken a = token) (authSessions s) = Some session
     \<and> as_expiresAt session < now1 w \<longrightarrow>
   sv_valid (fst (verifySession w token s)) = False
   \<and> (token \<noteq> [] \<and> as_isActive session \<and> \<not> dbThrows w GetAuthSession
        \<and> \<not> dbThrows w UpdateAuthSession \<longrightarrow>
        verifySession w token s =
          (invalid ''Session expired'',
           s\<lparr>authSessions :=
               map (\<lambda>a. if as_sessionToken a = token then a\<lparr>as_isActive := False\<rparr> else a)
                 (authSessions s)\<rparr>)
        \<and> (\<not> dbThrows w' GetAuthSession \<longrightarrow>
             verifySession w' token (snd (verifySession w token s)) =
               (invalid ''Session is inactive'', snd (verifySession w token s))))
   \<and> (token \<noteq> [] \<and> \<not> as_isActive session \<and> \<not> dbThrows w GetAuthSession \<longrightarrow>
        verifySession w token s = (invalid ''Session is inactive'', s))"
proof (rule impI)
  assume h: "find (\<lambda>a. as_sessionToken a = token) (authSessions s) = Some session
     \<and> as_expiresAt session < now1 w"
  then have f: "find (\<lambda>a. as_sessionToken a = token) (authSessions s) = Some session"
    and e: "as_expiresAt session < now1 w"
    by simp_all
  have 1: "sv_valid (fst (verifySession w token s)) = False"
    by (rule verifySession_expired_invalid [OF f e])
  have 2: "token \<noteq> [] \<and> as_isActive session \<and> \<not> dbThrows w GetAuthSession
        \<and> \<not> dbThrows w UpdateAuthSession \<longrightarrow>
        verifySession w token s =
          (invalid ''Session expired'',
           s\<lparr>authSessions :=
               map (\<lambda>a. if as_sessionToken a = token then a\<lparr>as_isActive := False\<rparr> else a)
                 (authSessions s)\<rparr>)
        \<and> (\<not> dbThrows w' GetAuthSession \<longrightarrow>
             verifySession w' token (snd (verifySession w token s)) =
               (invalid ''Session is inactive'', snd (verifySession w token s)))"
  proof (intro impI)
    assume a: "token \<noteq> [] \<and> as_isActive session \<and> \<not> dbThrows w GetAuthSession
        \<and> \<not> dbThrows w UpdateAuthSession"
    let ?s1 = "s\<lparr>authSessions :=
               map (\<lambda>a. if as_sessionToken a = token then a\<lparr>as_isActive := False\<rparr> else a)
                 (authSessions s)\<rparr>"
    from a have first: "verifySession w token s = (invalid ''Session expired'', ?s1)"
      by (intro verifySession_expired_active [OF f e]) simp_all
    have found: "find (\<lambda>a. as_sessionToken a = token) (authSessions ?s1)
                   = Some (session\<lparr>as_isActive := False\<rparr>)"
      by (simp add: find_deactivated f)
    have second: "\<not> dbThrows w' GetAuthSession \<longrightarrow>
         verifySession w' token ?s1 = (invalid ''Session is inactive'', ?s1)"
      using a by (auto intro!: verifySession_inactive [OF found])
    from first second
    show "verifySession w token s = (invalid ''Session expired'', ?s1)
        \<and> (\<not> dbThrows w' GetAuthSession \<longrightarrow>
             verifySession w' token (snd (verifySession w token s)) =
               (invalid ''Session is inactive'', snd (verifySession w token s)))"
      by simp
  qed
  have 3: "token \<noteq> [] \<and> \<not> as_isActive session \<and> \<not> dbThrows w GetAuthSession \<longrightarrow>
        verifySession w token s = (invalid ''Session is inactive'', s)"
    by (auto intro!: verifySession_inactive [OF f])
  from 1 2 3
  show "sv_valid (fst (verifySession w token s)) = False
   \<and> (token \<noteq> [] \<and> as_isActive session \<and> \<not> dbThrows w GetAuthSession
        \<and> \<not> dbThrows w UpdateAuthSession \<longrightarrow>
        verifySession w token s =
          (invalid ''Session expired'',
           s\<lparr>authSessions :=
               map (\<lambda>a. if as_sessionToken a = token then a\<lparr>as_isActive := False\<rparr> else a)
                 (authSessions s)\<rparr>)
        \<and> (\<not> dbThrows w' GetAuthSession \<longrightarrow>
             verifySession w' token (snd (verifySession w token s)) =
               (invalid ''Session is inactive'', snd (verifySession w token s))))
   \<and> (token \<noteq> [] \<and> \<not> as_isActive session \<and> \<not> dbThrows w GetAuthSession \<longrightarrow>
        verifySession w token s = (invalid ''Session is inactive'', s))"
    by blast
qed

theorem verifySession_expired_deactivates_witness:
  "find (\<lambda>a. as_sessionToken a = ''tok-0'') (authSessions state_session) = Some old_session
   \<and> as_expiresAt old_session < now1 world0
   \<and> ''tok-0'' \<noteq> [] \<and> as_isActive old_session \<and> \<not> dbThrows world0 GetAuthSession
   \<and> \<not> dbThrows world0 UpdateAuthSession
   \<and> verifySession world0 ''tok-0'' state_session =
        (invalid ''Session expired'',
         state0\<lparr>authSessions := [old_session\<lparr>as_isActive := False\<rparr>]\<rparr>)
   \<and> verifySession (world0\<lparr>now1 := 2000\<rparr>) ''tok-0''
        (state0\<lparr>authSessions := [old_session\<lparr>as_isActive := False\<rparr>]\<rparr>) =
        (invalid ''Session is inactive'',
         state0\<lparr>authSessions := [old_session\<lparr>as_isActive := False\<rparr>]\<rparr>)
   \<and> find (\<lambda>a. as_sessionToken a = ''tok-0'')
        (authSessions (state0\<lparr>authSessions := [old_session\<lparr>as_isActive := False\<rparr>]\<rparr>))
        = Some (old_session\<lparr>as_isActive := False\<rparr>)
   \<and> \<not> as_isActive (old_session\<lparr>as_isActive := False\<rparr>)
   \<and> as_expiresAt (old_session\<lparr>as_isActive := False\<rparr>) < now1 world0
   \<and> sv_valid (fst (verifySession world0 ''tok-0''
        (state0\<lparr>authSessions := [old_session\<lparr>as_isActive := False\<rparr>]\<rparr>))) = False"
proof -
  let ?s1 = "state0\<lparr>authSessions := [old_session\<lparr>as_isActive := False\<rparr>]\<rparr>"
  have f: "find (\<lambda>a. as_sessionToken a = ''tok-0'') (authSessions state_session) = Some old_session"
    "as_expiresAt old_session < now1 world0"
    "''tok-0'' \<noteq> []" "as_isActive old_session" "\<not> dbThrows world0 GetAuthSession"
    "\<not> dbThrows world0 UpdateAuthSession"
    "\<not> dbThrows (world0\<lparr>now1 := 2000\<rparr>) GetAuthSession"
    "find (\<lambda>a. as_sessionToken a = ''tok-0'') (authSessions ?s1)
        = Some (old_session\<lparr>as_isActive := False\<rparr>)"
    "\<not> as_isActive (old_session\<lparr>as_isActive := False\<rparr>)"
    "as_expiresAt (old_session\<lparr>as_isActive := False\<rparr>) < now1 world0"
    by (simp_all add: fixture_defs old_session_def state_session_def)
  have st: "state_session\<lparr>authSessions :=
               map (\<lambda>a. if as_sessionToken a = ''tok-0'' then a\<lparr>as_isActive := False\<rparr> else a)
                 (authSessions state_session)\<rparr> = ?s1"
    by (simp add: fixture_defs old_session_def state_session_def)
  note thm1 = verifySession_expired_deactivates
      [of "''tok-0''" state_session old_session world0 "world0\<lparr>now1 := 2000\<rparr>"]
  from f st thm1
  have first: "verifySession world0 ''tok-0'' state_session = (invalid ''Session expired'', ?s1)"
    by simp
  from f st thm1 first
  have second: "verifySession (world0\<lparr>now1 := 2000\<rparr>) ''tok-0'' ?s1 =
      (invalid ''Session is inactive'', ?s1)"
    by simp
  from f
    verifySession_expired_deactivates
      [of "''tok-0''" ?s1 "old_session\<lparr>as_isActive := False\<rparr>" world0 world0]
  have third: "sv_valid (fst (verifySession world0 ''tok-0'' ?s1)) = False"
    by simp
  from f first second third show ?thesis by simp
qed

section \<open>The throttle check\<close>

lemma checkLoginAttempts_frame [simp]:
  "verificationCodes (snd (checkLoginAttempts t ip s)) = verificationCodes s"
  "users (snd (checkLoginAttempts t ip s)) = users s"
  "authSessions (snd (checkLoginAttempts t ip s)) = authSessions s"
  "activityLogs (snd (checkLoginAttempts t ip s)) = activityLogs s"
  "emailTransporter (snd (checkLoginAttempts t ip s)) = emailTransporter s"
  by (simp_all add: checkLoginAttempts_def Let_def split: option.splits)

lemma check_none:
  "loginAttempts s ip = None \<Longrightarrow>
   checkLoginAttempts t ip s = (\<lparr>allowed = True, remainingTime = None\<rparr>, s)"
  by (simp add: checkLoginAttempts_def)

lemma check_below_max:
  "loginAttempts s ip = Some a \<Longrightarrow> la_count a < maxLoginAttempts \<Longrightarrow>
   checkLoginAttempts t ip s = (\<lparr>allowed = True, remainingTime = None\<rparr>, s)"
  by (simp add: checkLoginAttempts_def Let_def)

lemma check_locked:
  "loginAttempts s ip = Some a \<Longrightarrow> maxLoginAttempts \<le> la_count a \<Longrightarrow>
   t - la_lastAttempt a < lockoutDuration \<Longrightarrow>
   checkLoginAttempts t ip s =
     (\<lparr>allowed = False,
       remainingTime = Some (ceil_div (lockoutDuration - (t - la_lastAttempt a)) 1000)\<rparr>, s)"
  by (simp add: checkLoginAttempts_def Let_def)

lemma check_elapsed:
  "loginAttempts s ip = Some a \<Longrightarrow> maxLoginAttempts \<le> la_count a \<Longrightarrow>
   lockoutDuration \<le> t - la_lastAttempt a \<Longrightarrow>
   checkLoginAttempts t ip s =
     (\<lparr>allowed = True, remainingTime = None\<rparr>,
      s\<lparr>loginAttempts := (loginAttempts s)(ip := None)\<rparr>)"
  by (simp add: checkLoginAttempts_def Let_def)

lemma check_rejected_state:
  "\<not> allowed (fst (checkLoginAttempts t ip s)) \<Longrightarrow> snd (checkLoginAttempts t ip s) = s"
  by (auto simp: checkLoginAttempts_def Let_def split: option.splits if_splits)

lemma ceil_div_pos: "0 < x \<Longrightarrow> 0 < ceil_div x 1000"
  by (simp add: ceil_div_def div_neg_pos_less0)

section \<open>verifyCredentials: the paths\<close>

lemma vc_rejected:
  assumes "\<not> allowed (fst (checkLoginAttempts (now1 w) ip s))"
  shows "verifyCredentials bc w email password ip userAgent s =
    (failure (''Too many login attempts. Try again in ''
              @ (case remainingTime (fst (checkLoginAttempts (now1 w) ip s)) of
                   None \<Rightarrow> ''undefined'' | Some t \<Rightarrow> string_of_int t)
              @ '' seconds.''), s)"
  using assms check_rejected_state [OF assms]
  by (cases "checkLoginAttempts (now1 w) ip s") (simp add: verifyCredentials_def)



lemma vc_db_error:
  assumes "allowed (fst (checkLoginAttempts (now1 w) ip s))" "dbThrows w GetUserByEmail"
  shows "verifyCredentials bc w email password ip userAgent s =
    (failure ''Authentication service error'', snd (checkLoginAttempts (now1 w) ip s))"
  using assms
  by (cases "checkLoginAttempts (now1 w) ip s")
    (simp add: verifyCredentials_def getUserByEmail_def)

lemma vc_no_user:
  assumes "allowed (fst (checkLoginAttempts (now1 w) ip s))" "\<not> dbThrows w GetUserByEmail"
    "find (\<lambda>u. u_email u = toLowerCase bc email) (users s) = None"
  shows "verifyCredentials bc w email password ip userAgent s =
    (failure ''Invalid credentials'',
     recordLoginAttempt (now2 w) ip False (snd (checkLoginAttempts (now1 w) ip s)))"
proof (cases "checkLoginAttempts (now1 w) ip s")
  case (Pair c s0)
  then have "users s0 = users s"
    using checkLoginAttempts_frame(2) [of "now1 w" ip s] by simp
  with Pair assms show ?thesis
    by (simp add: verifyCredentials_def getUserByEmail_def)
qed

lemma vc_inactive:
  assumes "allowed (fst (checkLoginAttempts (now1 w) ip s))" "\<not> dbThrows w GetUserByEmail"
    "find (\<lambda>u. u_email u = toLowerCase bc email) (users s) = Some user" "\<not> u_isActive user"
  shows "verifyCredentials bc w email password ip userAgent s =
    (failure ''Invalid credentials'',
     recordLoginAttempt (now2 w) ip False (snd (checkLoginAttempts (now1 w) ip s)))"
proof (cases "checkLoginAttempts (now1 w) ip s")
  case (Pair c s0)
  then have "users s0 = users s"
    using checkLoginAttempts_frame(2) [of "now1 w" ip s] by simp
  with Pair assms show ?thesis
    by (simp add: verifyCredentials_def getUserByEmail_def)
qed

lemma vc_wrong_password:
  assumes "allowed (fst (checkLoginAttempts (now1 w) ip s))" "\<not> dbThrows w GetUserByEmail"
    "find (\<lambda>u. u_email u = toLowerCase bc email) (users s) = Some user" "u_isActive user"
    "\<not> bcrypt_compare bc password (u_passwordHash user)"
  shows "verifyCredentials bc w email password ip userAgent s =
    (failure ''Invalid credentials'',
     logActivity w (u_id user) ''login_attempt'' ''error'' ''Invalid password'' ip
       (Some userAgent)
       (recordLoginAttempt (now2 w) ip False (snd (checkLoginAttempts (now1 w) ip s))))"
proof (cases "checkLoginAttempts (now1 w) ip s")
  case (Pair c s0)
  then have "users s0 = users s"
    using checkLoginAttempts_frame(2) [of "now1 w" ip s] by simp
  with Pair assms show ?thesis
    by (simp add: verifyCredentials_def getUserByEmail_def)
qed

lemma vc_ip_denied:
  assumes "allowed (fst (checkLoginAttempts (now1 w) ip s))" "\<not> dbThrows w GetUserByEmail"
    "find (\<lambda>u. u_email u = toLowerCase bc email) (users s) = Some user" "u_isActive user"
    "bcrypt_compare bc password (u_passwordHash user)" "\<not> isIPWhitelisted w user ip"
  shows "verifyCredentials bc w email password ip userAgent s =
    (failure ''Access denied: IP not authorized'',
     logActivity w (u_id user) ''login_attempt'' ''error'' (''Unauthorized IP: '' @ ip) ip
       (Some userAgent)
       (recordLoginAttempt (now2 w) ip False (snd (checkLoginAttempts (now1 w) ip s))))"
proof (cases "checkLoginAttempts (now1 w) ip s")
  case (Pair c s0)
  then have "users s0 = users s"
    using checkLoginAttempts_frame(2) [of "now1 w" ip s] by simp
  with Pair assms show ?thesis
    by (simp add: verifyCredentials_def getUserByEmail_def)
qed

lemma vc_dispatch_failed:
  assumes "allowed (fst (checkLoginAttempts (now1 w) ip s))" "\<not> dbThrows w GetUserByEmail"
    "find (\<lambda>u. u_email u = toLowerCase bc email) (users s) = Some user" "u_isActive user"
    "bcrypt_compare bc password (u_passwordHash user)" "isIPWhitelisted w user ip"
    "\<not> development w" "\<not> (emailTransporter s \<and> sendMailOk w)"
  shows "verifyCredentials bc w email password ip userAgent s =
    (failure ''Failed to send verification code'',
     (snd (checkLoginAttempts (now1 w) ip s))
       \<lparr>verificationCodes := (verificationCodes s)(randomUUID w \<mapsto>
           \<lparr>vc_code = randomCode w, vc_email = u_email user, vc_ip = ip,
            vc_userAgent = userAgent, vc_expiresAt = now2 w + codeExpiry,
            vc_used = False\<rparr>)\<rparr>)"
proof (cases "checkLoginAttempts (now1 w) ip s")
  case (Pair c s0)
  then have "users s0 = users s" "emailTransporter s0 = emailTransporter s"
    "verificationCodes s0 = verificationCodes s"
    using checkLoginAttempts_frame [of "now1 w" ip s] by simp_all
  with Pair assms show ?thesis
    by (simp add: verifyCredentials_def getUserByEmail_def sendVerificationCode_def Let_def)
qed

lemma vc_code_sent:
  assumes "allowed (fst (checkLoginAttempts (now1 w) ip s))" "\<not> dbThrows w GetUserByEmail"
    "find (\<lambda>u. u_email u = toLowerCase bc email) (users s) = Some user" "u_isActive user"
    "bcrypt_compare bc password (u_passwordHash user)" "isIPWhitelisted w user ip"
    "development w \<or> (emailTransporter s \<and> sendMailOk w)"
  shows "verifyCredentials bc w email password ip userAgent s =
    (\<lparr>r_success = True, r_message = ''Verification code sent to your email'',
      r_code = None, r_codeId = Some (randomUUID w),
      r_expiresIn = Some (codeExpiry div 1000), r_sessionToken = None, r_user = None\<rparr>,
     logActivity w (u_id user) ''login_step1'' ''success''
       ''Credentials verified, 2FA sent'' ip (Some userAgent)
       ((snd (checkLoginAttempts (now1 w) ip s))
          \<lparr>verificationCodes := (verificationCodes s)(randomUUID w \<mapsto>
              \<lparr>vc_code = randomCode w, vc_email = u_email user, vc_ip = ip,
               vc_userAgent = userAgent, vc_expiresAt = now2 w + codeExpiry,
               vc_used = False\<rparr>)\<rparr>))"
proof (cases "checkLoginAttempts (now1 w) ip s")
  case (Pair c s0)
  then have "users s0 = users s" "emailTransporter s0 = emailTransporter s"
    "verificationCodes s0 = verificationCodes s"
    using checkLoginAttempts_frame [of "now1 w" ip s] by simp_all
  with Pair assms show ?thesis
    by (auto simp add: verifyCredentials_def getUserByEmail_def sendVerificationCode_def Let_def)
qed


lemma vc_cases:
  obtains
    (rejected) "\<not> allowed (fst (checkLoginAttempts (now1 w) ip s))"
  | (db_error) "allowed (fst (checkLoginAttempts (now1 w) ip s))" "dbThrows w GetUserByEmail"
  | (no_user) "allowed (fst (checkLoginAttempts (now1 w) ip s))" "\<not> dbThrows w GetUserByEmail"
      "find (\<lambda>u. u_email u = toLowerCase bc email) (users s) = None"
  | (inactive) user where "allowed (fst (checkLoginAttempts (now1 w) ip s))"
      "\<not> dbThrows w GetUserByEmail"
      "find (\<lambda>u. u_email u = toLowerCase bc email) (users s) = Some user" "\<not> u_isActive user"
  | (wrong_password) user where "allowed (fst (checkLoginAttempts (now1 w) ip s))"
      "\<not> dbThrows w GetUserByEmail"
      "find (\<lambda>u. u_email u = toLowerCase bc email) (users s) = Some user" "u_isActive user"
      "\<not> bcrypt_compare bc password (u_passwordHash user)"
  | (ip_denied) user where "allowed (fst (checkLoginAttempts (now1 w) ip s))"
      "\<not> dbThrows w GetUserByEmail"
      "find (\<lambda>u. u_email u = toLowerCase bc email) (users s) = Some user" "u_isActive user"
      "bcrypt_compare bc password (u_passwordHash user)" "\<not> isIPWhitelisted w user ip"
  | (dispatch_failed) user where "allowed (fst (checkLoginAttempts (now1 w) ip s))"
      "\<not> dbThrows w GetUserByEmail"
      "find (\<lambda>u. u_email u = toLowerCase bc email) (users s) = Some user" "u_isActive user"
      "bcrypt_compare bc password (u_passwordHash user)" "isIPWhitelisted w user ip"
      "\<not> development w" "\<not> (emailTransporter s \<and> sendMailOk w)"
  | (code_sent) user where "allowed (fst (checkLoginAttempts (now1 w) ip s))"
      "\<not> dbThrows w GetUserByEmail"
      "find (\<lambda>u. u_email u = toLowerCase bc email) (users s) = Some user" "u_isActive user"
      "bcrypt_compare bc password (u_passwordHash user)" "isIPWhitelisted w user ip"
      "development w \<or> (emailTransporter s \<and> sendMailOk w)"
  by (cases "find (\<lambda>u. u_email u = toLowerCase bc email) (users s)") blast+

lemma recordLoginAttempt_failure:
  "loginAttempts (recordLoginAttempt t ip False s) =
     (loginAttempts s)(ip \<mapsto>
        \<lparr>la_count = (case loginAttempts s ip of None \<Rightarrow> 0 | Some a \<Rightarrow> la_count a) + 1,
         la_lastAttempt = t\<rparr>)"
  by (cases "loginAttempts s ip") (simp_all add: recordLoginAttempt_def Let_def fun_eq_iff)

lemma vc_recorded_failure:
  assumes "r_message (fst (verifyCredentials bc w email password ip userAgent s))
             = ''Invalid credentials''
           \<or> r_message (fst (verifyCredentials bc w email password ip userAgent s))
             = ''Access denied: IP not authorized''"
  shows "allowed (fst (checkLoginAttempts (now1 w) ip s))"
    and "loginAttempts (snd (verifyCredentials bc w email password ip userAgent s)) =
           loginAttempts (recordLoginAttempt (now2 w) ip False
             (snd (checkLoginAttempts (now1 w) ip s)))"
proof -
  have "allowed (fst (checkLoginAttempts (now1 w) ip s)) \<and>
        loginAttempts (snd (verifyCredentials bc w email password ip userAgent s)) =
           loginAttempts (recordLoginAttempt (now2 w) ip False
             (snd (checkLoginAttempts (now1 w) ip s)))"
  proof (cases rule: vc_cases [where w = w and ip = ip and s = s and email = email and bc = bc and password = password])
    case rejected
    with assms show ?thesis by (simp add: vc_rejected)
  next
    case db_error
    with assms show ?thesis by (simp add: vc_db_error)
  next
    case no_user
    then show ?thesis by (simp add: vc_no_user)
  next
    case (inactive user)
    then show ?thesis by (simp add: vc_inactive)
  next
    case (wrong_password user)
    then show ?thesis by (simp add: vc_wrong_password)
  next
    case (ip_denied user)
    then show ?thesis by (simp add: vc_ip_denied)
  next
    case (dispatch_failed user)
    with assms show ?thesis by (simp add: vc_dispatch_failed)
  next
    case (code_sent user)
    with assms show ?thesis by (simp add: vc_code_sent)
  qed
  then show "allowed (fst (checkLoginAttempts (now1 w) ip s))"
    and "loginAttempts (snd (verifyCredentials bc w email password ip userAgent s)) =
           loginAttempts (recordLoginAttempt (now2 w) ip False
             (snd (checkLoginAttempts (now1 w) ip s)))"
    by simp_all
qed

lemma vc_wrong_credentials_fail:
  assumes "find (\<lambda>u. u_email u = toLowerCase bc email) (users s) = Some user"
    "\<not> bcrypt_compare bc password (u_passwordHash user)"
  shows "\<not> r_success (fst (verifyCredentials bc w email password ip userAgent s))"
proof (cases rule: vc_cases [where w = w and ip = ip and s = s and email = email and bc = bc and password = password])
  case rejected
  then show ?thesis by (simp add: vc_rejected)
next
  case db_error
  then show ?thesis by (simp add: vc_db_error)
next
  case no_user
  then show ?thesis by (simp add: vc_no_user)
next
  case (inactive u)
  then show ?thesis by (simp add: vc_inactive)
next
  case (wrong_password u)
  then show ?thesis by (simp add: vc_wrong_password)
next
  case (ip_denied u)
  then show ?thesis by (simp add: vc_ip_denied)
next
  case (dispatch_failed u)
  with assms show ?thesis by simp
next
  case (code_sent u)
  with assms show ?thesis by simp
qed

lemma vc_keeps_codes:
  assumes "verificationCodes s cid = Some v"
  shows "verificationCodes (snd (verifyCredentials bc w email password ip userAgent s)) cid \<noteq> None"
proof (cases rule: vc_cases [where w = w and ip = ip and s = s and email = email and bc = bc and password = password])
  case rejected
  with assms show ?thesis by (simp add: vc_rejected)
next
  case db_error
  with assms show ?thesis by (simp add: vc_db_error)
next
  case no_user
  with assms show ?thesis by (simp add: vc_no_user)
next
  case (inactive u)
  with assms show ?thesis by (simp add: vc_inactive)
next
  case (wrong_password u)
  with assms show ?thesis by (simp add: vc_wrong_password)
next
  case (ip_denied u)
  with assms show ?thesis by (simp add: vc_ip_denied)
next
  case (dispatch_failed u)
  with assms show ?thesis by (simp add: vc_dispatch_failed)
next
  case (code_sent u)
  with assms show ?thesis by (simp add: vc_code_sent)
qed

section \<open>Evaluation at the concrete inputs\<close>

lemma ascii_lower_examples:
  "ascii_toLowerCase ''a@b.com'' = ''a@b.com''"
  "ascii_toLowerCase ''A@B.com'' = ''a@b.com''"
  "ascii_toLowerCase ''nobody@b.com'' = ''nobody@b.com''"
  by code_simp+

lemma plain_lower_examples:
  "toLowerCase plain_library ''a@b.com'' = ''a@b.com''"
  "toLowerCase plain_library ''A@B.com'' = ''a@b.com''"
  "toLowerCase plain_library ''nobody@b.com'' = ''nobody@b.com''"
  by (simp_all add: plain_library_def ascii_lower_examples)

lemmas lower_examples = ascii_lower_examples plain_lower_examples

section \<open>C6: one answer for every bad credential\<close>

text \<open>
  Claim C6.  When the throttle lets the call through and the lookup does not throw,
  \<^verbatim>\<open>verifyCredentials\<close> returns the same value, success flag false and message
  \<^verbatim>\<open>Invalid credentials\<close> with no other field set, whether the user is absent, is
  inactive, or the password does not match the stored hash.  In each of the three cases it
  records one failed attempt for the source address: the count kept for the address goes
  up by one (from zero if there was none) and its last-attempt time is the clock reading.
  The value and the throttle entry depend on nothing that distinguishes the cases.
\<close>

theorem invalid_credentials_indistinguishable:
  "allowed (fst (checkLoginAttempts (now1 w) ip s)) \<and> \<not> dbThrows w GetUserByEmail
     \<and> (case find (\<lambda>u. u_email u = toLowerCase bc email) (users s) of
           None \<Rightarrow> True
         | Some u \<Rightarrow> \<not> u_isActive u \<or> \<not> bcrypt_compare bc password (u_passwordHash u)) \<longrightarrow>
   fst (verifyCredentials bc w email password ip userAgent s) =
     \<lparr>r_success = False, r_message = ''Invalid credentials'', r_code = None, r_codeId = None,
      r_expiresIn = None, r_sessionToken = None, r_user = None\<rparr>
   \<and> loginAttempts (snd (verifyCredentials bc w email password ip userAgent s)) =
       (loginAttempts (snd (checkLoginAttempts (now1 w) ip s)))(ip \<mapsto>
          \<lparr>la_count =
             (case loginAttempts (snd (checkLoginAttempts (now1 w) ip s)) ip of
                None \<Rightarrow> 0 | Some a \<Rightarrow> la_count a) + 1,
           la_lastAttempt = now2 w\<rparr>)
   \<and> verificationCodes (snd (verifyCredentials bc w email password ip userAgent s))
       = verificationCodes s
   \<and> users (snd (verifyCredentials bc w email password ip userAgent s)) = users s
   \<and> authSessions (snd (verifyCredentials bc w email password ip userAgent s)) = authSessions s"
proof (rule impI)
  assume h: "allowed (fst (checkLoginAttempts (now1 w) ip s)) \<and> \<not> dbThrows w GetUserByEmail
     \<and> (case find (\<lambda>u. u_email u = toLowerCase bc email) (users s) of
           None \<Rightarrow> True
         | Some u \<Rightarrow> \<not> u_isActive u \<or> \<not> bcrypt_compare bc password (u_passwordHash u))"
  let ?s0 = "snd (checkLoginAttempts (now1 w) ip s)"
  let ?R = "verifyCredentials bc w email password ip userAgent s"
  have "fst ?R = failure ''Invalid credentials''
      \<and> loginAttempts (snd ?R) = loginAttempts (recordLoginAttempt (now2 w) ip False ?s0)
      \<and> verificationCodes (snd ?R) = verificationCodes s \<and> users (snd ?R) = users s
      \<and> authSessions (snd ?R) = authSessions s"
  proof (cases "find (\<lambda>u. u_email u = toLowerCase bc email) (users s)")
    case None
    with h show ?thesis by (simp add: vc_no_user)
  next
    case (Some u)
    show ?thesis
    proof (cases "u_isActive u")
      case False
      with h Some show ?thesis by (simp add: vc_inactive)
    next
      case True
      with h Some show ?thesis by (simp add: vc_wrong_password)
    qed
  qed
  then show "fst ?R =
     \<lparr>r_success = False, r_message = ''Invalid credentials'', r_code = None, r_codeId = None,
      r_expiresIn = None, r_sessionToken = None, r_user = None\<rparr>
   \<and> loginAttempts (snd ?R) =
       (loginAttempts ?s0)(ip \<mapsto>
          \<lparr>la_count = (case loginAttempts ?s0 ip of None \<Rightarrow> 0 | Some a \<Rightarrow> la_count a) + 1,
           la_lastAttempt = now2 w\<rparr>)
   \<and> verificationCodes (snd ?R) = verificationCodes s
   \<and> users (snd ?R) = users s
   \<and> authSessions (snd ?R) = authSessions s"
    by (simp add: recordLoginAttempt_failure failure_def)
qed

theorem invalid_credentials_indistinguishable_witness:
  "allowed (fst (checkLoginAttempts (now1 world0) ''1.2.3.4'' state0))
   \<and> \<not> dbThrows world0 GetUserByEmail
   \<and> find (\<lambda>u. u_email u = toLowerCase plain_library ''nobody@b.com'') (users state0) = None
   \<and> find (\<lambda>u. u_email u = toLowerCase plain_library ''A@B.com'') (users state0) = Some alice
   \<and> \<not> bcrypt_compare plain_library ''guess'' (u_passwordHash alice)
   \<and> find (\<lambda>u. u_email u = toLowerCase plain_library ''A@B.com'')
         (users (state0\<lparr>users := [alice\<lparr>u_isActive := False\<rparr>]\<rparr>))
       = Some (alice\<lparr>u_isActive := False\<rparr>)
   \<and> \<not> u_isActive (alice\<lparr>u_isActive := False\<rparr>)
   \<and> fst (verifyCredentials plain_library world0 ''nobody@b.com'' ''secret123'' ''1.2.3.4'' ''ua''
          state0) = failure ''Invalid credentials''
   \<and> fst (verifyCredentials plain_library world0 ''A@B.com'' ''guess'' ''1.2.3.4'' ''ua'' state0)
       = failure ''Invalid credentials''
   \<and> fst (verifyCredentials plain_library world0 ''A@B.com'' ''secret123'' ''1.2.3.4'' ''ua''
          (state0\<lparr>users := [alice\<lparr>u_isActive := False\<rparr>]\<rparr>)) = failure ''Invalid credentials''
   \<and> loginAttempts (snd (verifyCredentials plain_library world0 ''nobody@b.com'' ''secret123''
          ''1.2.3.4'' ''ua'' state0)) ''1.2.3.4'' = Some \<lparr>la_count = 1, la_lastAttempt = 1005\<rparr>
   \<and> loginAttempts (snd (verifyCredentials plain_library world0 ''A@B.com'' ''guess''
          ''1.2.3.4'' ''ua'' state0)) ''1.2.3.4'' = Some \<lparr>la_count = 1, la_lastAttempt = 1005\<rparr>
   \<and> loginAttempts (snd (verifyCredentials plain_library world0 ''A@B.com'' ''secret123''
          ''1.2.3.4'' ''ua'' (state0\<lparr>users := [alice\<lparr>u_isActive := False\<rparr>]\<rparr>))) ''1.2.3.4''
       = Some \<lparr>la_count = 1, la_lastAttempt = 1005\<rparr>"
proof -
  let ?s2 = "state0\<lparr>users := [alice\<lparr>u_isActive := False\<rparr>]\<rparr>"
  have c: "checkLoginAttempts (now1 world0) ''1.2.3.4'' state0
             = (\<lparr>allowed = True, remainingTime = None\<rparr>, state0)"
    "checkLoginAttempts (now1 world0) ''1.2.3.4'' ?s2 = (\<lparr>allowed = True, remainingTime = None\<rparr>, ?s2)"
    by (simp_all add: check_none state0_def)
  have f: "\<not> dbThrows world0 GetUserByEmail"
    "find (\<lambda>u. u_email u = toLowerCase plain_library ''nobody@b.com'') (users state0) = None"
    "find (\<lambda>u. u_email u = toLowerCase plain_library ''A@B.com'') (users state0) = Some alice"
    "\<not> bcrypt_compare plain_library ''guess'' (u_passwordHash alice)"
    "find (\<lambda>u. u_email u = toLowerCase plain_library ''A@B.com'') (users ?s2)
       = Some (alice\<lparr>u_isActive := False\<rparr>)"
    "\<not> u_isActive (alice\<lparr>u_isActive := False\<rparr>)"
    "loginAttempts state0 ''1.2.3.4'' = None" "loginAttempts ?s2 ''1.2.3.4'' = None"
    "now2 world0 = 1005"
    by (simp_all add: fixture_defs lower_examples)
  from c f
    invalid_credentials_indistinguishable
      [where w = world0 and ip = "''1.2.3.4''" and s = state0 and email = "''nobody@b.com''"
         and bc = plain_library and password = "''secret123''" and userAgent = "''ua''"]
  have 1: "fst (verifyCredentials plain_library world0 ''nobody@b.com'' ''secret123'' ''1.2.3.4'' ''ua''
          state0) = failure ''Invalid credentials''
     \<and> loginAttempts (snd (verifyCredentials plain_library world0 ''nobody@b.com'' ''secret123''
          ''1.2.3.4'' ''ua'' state0)) ''1.2.3.4'' = Some \<lparr>la_count = 1, la_lastAttempt = 1005\<rparr>"
    by (simp add: failure_def)
  from c f
    invalid_credentials_indistinguishable
      [where w = world0 and ip = "''1.2.3.4''" and s = state0 and email = "''A@B.com''"
         and bc = plain_library and password = "''guess''" and userAgent = "''ua''"]
  have 2: "fst (verifyCredentials plain_library world0 ''A@B.com'' ''guess'' ''1.2.3.4'' ''ua'' state0)
       = failure ''Invalid credentials''
     \<and> loginAttempts (snd (verifyCredentials plain_library world0 ''A@B.com'' ''guess''
          ''1.2.3.4'' ''ua'' state0)) ''1.2.3.4'' = Some \<lparr>la_count = 1, la_lastAttempt = 1005\<rparr>"
    by (simp add: failure_def)
  from c f
    invalid_credentials_indistinguishable
      [where w = world0 and ip = "''1.2.3.4''" and s = ?s2 and email = "''A@B.com''"
         and bc = plain_library and password = "''secret123''" and userAgent = "''ua''"]
  have 3: "fst (verifyCredentials plain_library world0 ''A@B.com'' ''secret123'' ''1.2.3.4'' ''ua''
          ?s2) = failure ''Invalid credentials''
     \<and> loginAttempts (snd (verifyCredentials plain_library world0 ''A@B.com'' ''secret123''
          ''1.2.3.4'' ''ua'' ?s2)) ''1.2.3.4'' = Some \<lparr>la_count = 1, la_lastAttempt = 1005\<rparr>"
    by (simp add: failure_def)
  from c f 1 2 3 show ?thesis by simp
qed

section \<open>Runs of verifyCredentials calls\<close>

lemma vc_run_Cons:
  "verifyCredentials_run bc ip ((w, email, password, userAgent) # cs) s =
     (fst (verifyCredentials bc w email password ip userAgent s)
        # fst (verifyCredentials_run bc ip cs
                 (snd (verifyCredentials bc w email password ip userAgent s))),
      snd (verifyCredentials_run bc ip cs
             (snd (verifyCredentials bc w email password ip userAgent s))))"
  by (simp split: prod.splits)

declare verifyCredentials_run.simps(2) [simp del]

lemma vc_failure_counts:
  assumes "loginAttempts s ip = (if k = 0 then None else Some \<lparr>la_count = k, la_lastAttempt = t0\<rparr>)"
    "0 \<le> k" "k < maxLoginAttempts"
    "r_message (fst (verifyCredentials bc w email password ip userAgent s))
             = ''Invalid credentials''
           \<or> r_message (fst (verifyCredentials bc w email password ip userAgent s))
             = ''Access denied: IP not authorized''"
  shows "loginAttempts (snd (verifyCredentials bc w email password ip userAgent s)) ip =
           Some \<lparr>la_count = k + 1, la_lastAttempt = now2 w\<rparr>"
proof -
  have c: "checkLoginAttempts (now1 w) ip s = (\<lparr>allowed = True, remainingTime = None\<rparr>, s)"
  proof (cases "k = 0")
    case True
    with assms(1) show ?thesis by (simp add: check_none)
  next
    case False
    with assms(1,3) show ?thesis
      by (simp add: check_below_max [where a = "\<lparr>la_count = k, la_lastAttempt = t0\<rparr>"])
  qed
  from vc_recorded_failure(2) [OF assms(4)] c assms(1)
  show ?thesis by (simp add: recordLoginAttempt_failure)
qed

lemma vc_run_failure_counts:
  assumes "loginAttempts s ip = (if k = 0 then None else Some \<lparr>la_count = k, la_lastAttempt = t0\<rparr>)"
    "0 \<le> k" "k + int (length cs) \<le> maxLoginAttempts" "cs \<noteq> []"
    "list_all (\<lambda>r. r_message r = ''Invalid credentials''
                   \<or> r_message r = ''Access denied: IP not authorized'')
       (fst (verifyCredentials_run bc ip cs s))"
  shows "loginAttempts (snd (verifyCredentials_run bc ip cs s)) ip =
           Some \<lparr>la_count = k + int (length cs), la_lastAttempt = now2 (fst (last cs))\<rparr>"
  using assms
proof (induction cs arbitrary: s k t0)
  case Nil
  then show ?case by simp
next
  case (Cons c cs)
  obtain w email password userAgent where c: "c = (w, email, password, userAgent)"
    by (cases c) auto
  let ?s1 = "snd (verifyCredentials bc w email password ip userAgent s)"
  from Cons.prems(5) have r1: "r_message (fst (verifyCredentials bc w email password ip userAgent s))
             = ''Invalid credentials''
           \<or> r_message (fst (verifyCredentials bc w email password ip userAgent s))
             = ''Access denied: IP not authorized''"
    and rest: "list_all (\<lambda>r. r_message r = ''Invalid credentials''
                   \<or> r_message r = ''Access denied: IP not authorized'')
       (fst (verifyCredentials_run bc ip cs ?s1))"
    by (simp_all add: c vc_run_Cons)
  from Cons.prems(3) have k: "k < maxLoginAttempts" by simp
  have s1: "loginAttempts ?s1 ip = Some \<lparr>la_count = k + 1, la_lastAttempt = now2 w\<rparr>"
    by (rule vc_failure_counts [OF Cons.prems(1,2) k r1])
  show ?case
  proof (cases "cs = []")
    case True
    with s1 show ?thesis by (simp add: c vc_run_Cons)
  next
    case False
    from s1 Cons.prems(2)
    have inv: "loginAttempts ?s1 ip =
        (if k + 1 = 0 then None else Some \<lparr>la_count = k + 1, la_lastAttempt = now2 w\<rparr>)"
      by simp
    from Cons.prems(2) have k1: "0 \<le> k + 1" by simp
    from Cons.prems(3) have len: "k + 1 + int (length cs) \<le> maxLoginAttempts" by simp
    from Cons.IH [OF inv k1 len False rest] False
    show ?thesis by (simp add: c vc_run_Cons add.assoc)
  qed
qed

lemma vc_locked:
  assumes "loginAttempts s ip = Some a" "maxLoginAttempts \<le> la_count a"
    "now1 w - la_lastAttempt a < lockoutDuration"
  shows "verifyCredentials bc w email password ip userAgent s =
    (failure (''Too many login attempts. Try again in ''
              @ string_of_int (ceil_div (lockoutDuration - (now1 w - la_lastAttempt a)) 1000)
              @ '' seconds.''), s)"
  using assms by (simp add: vc_rejected check_locked)

lemma vc_elapsed:
  assumes "loginAttempts s ip = Some a" "maxLoginAttempts \<le> la_count a"
    "lockoutDuration \<le> now1 w - la_lastAttempt a"
  shows "verifyCredentials bc w email password ip userAgent s =
         verifyCredentials bc w email password ip userAgent
           (s\<lparr>loginAttempts := (loginAttempts s)(ip := None)\<rparr>)"
proof -
  let ?s' = "s\<lparr>loginAttempts := (loginAttempts s)(ip := None)\<rparr>"
  have "checkLoginAttempts (now1 w) ip s = (\<lparr>allowed = True, remainingTime = None\<rparr>, ?s')"
    using assms by (rule check_elapsed)
  moreover have "checkLoginAttempts (now1 w) ip ?s' = (\<lparr>allowed = True, remainingTime = None\<rparr>, ?s')"
    by (simp add: check_none)
  ultimately show ?thesis
    by (simp add: verifyCredentials_def)
qed

lemma vc_run_locked:
  assumes "loginAttempts s ip = Some a" "maxLoginAttempts \<le> la_count a"
    "list_all (\<lambda>c. now1 (fst c) < la_lastAttempt a + lockoutDuration) cs"
  shows "snd (verifyCredentials_run bc ip cs s) = s"
    and "list_all (\<lambda>r. \<not> r_success r) (fst (verifyCredentials_run bc ip cs s))"
  using assms
proof (induction cs)
  case Nil
  { case 1 show ?case by simp }
  { case 2 show ?case by simp }
next
  case (Cons c cs)
  obtain w email password userAgent where c: "c = (w, email, password, userAgent)"
    by (cases c) auto
  { case 1
    from 1(3) have "now1 w - la_lastAttempt a < lockoutDuration" by (simp add: c)
    from vc_locked [OF 1(1,2) this] Cons.IH(1) [OF 1(1,2)] 1(3)
    show ?case by (simp add: c vc_run_Cons) }
  { case 2
    from 2(3) have "now1 w - la_lastAttempt a < lockoutDuration" by (simp add: c)
    from vc_locked [OF 2(1,2) this] Cons.IH(2) [OF 2(1,2)] 2(3)
    show ?case by (simp add: c vc_run_Cons) }
qed


lemmas vc_eval =
  verifyCredentials_def checkLoginAttempts_def getUserByEmail_def recordLoginAttempt_def
  logActivity_def createActivityLog_def isIPWhitelisted_def sendVerificationCode_def
  maxLoginAttempts_def lockoutDuration_def codeExpiry_def Let_def

lemma string_of_int_examples:
  "string_of_int 844 = ''844''"
  by code_simp

lemma failed_calls_results:
  "fst (verifyCredentials_run plain_library ''1.2.3.4'' failed_calls state0) =
     [failure ''Invalid credentials'', failure ''Invalid credentials'',
      failure ''Invalid credentials'']"
  by (simp add: vc_run_Cons fixture_defs failed_calls_def state_locked_def vc_eval lower_examples)


section \<open>Which calls change a login-attempt entry\<close>

lemma check_attempts_other:
  "ip \<noteq> ip' \<Longrightarrow> loginAttempts (snd (checkLoginAttempts t ip' s)) ip = loginAttempts s ip"
  by (simp add: checkLoginAttempts_def Let_def split: option.splits)

lemma record_attempts_other:
  "ip \<noteq> ip' \<Longrightarrow> loginAttempts (recordLoginAttempt t ip' ok s) ip = loginAttempts s ip"
  by (simp add: recordLoginAttempt_def Let_def)

lemma vc_attempts:
  "loginAttempts (snd (verifyCredentials bc w email password ip userAgent s)) =
     (if r_message (fst (verifyCredentials bc w email password ip userAgent s))
           = ''Invalid credentials''
         \<or> r_message (fst (verifyCredentials bc w email password ip userAgent s))
           = ''Access denied: IP not authorized''
      then loginAttempts (recordLoginAttempt (now2 w) ip False
             (snd (checkLoginAttempts (now1 w) ip s)))
      else loginAttempts (snd (checkLoginAttempts (now1 w) ip s)))"
proof (cases rule: vc_cases [where w = w and ip = ip and s = s and email = email and bc = bc and password = password])
  case rejected
  then show ?thesis by (simp add: vc_rejected check_rejected_state)
next
  case db_error
  then show ?thesis by (simp add: vc_db_error)
next
  case no_user
  then show ?thesis by (simp add: vc_no_user)
next
  case (inactive u)
  then show ?thesis by (simp add: vc_inactive)
next
  case (wrong_password u)
  then show ?thesis by (simp add: vc_wrong_password)
next
  case (ip_denied u)
  then show ?thesis by (simp add: vc_ip_denied)
next
  case (dispatch_failed u)
  then show ?thesis by (simp add: vc_dispatch_failed)
next
  case (code_sent u)
  then show ?thesis by (simp add: vc_code_sent)
qed

lemma vc_attempts_other:
  assumes "ip \<noteq> ip'"
  shows "loginAttempts (snd (verifyCredentials bc w email password ip' userAgent s)) ip
           = loginAttempts s ip"
  using assms by (simp add: vc_attempts check_attempts_other record_attempts_other)

lemma v2_success_attempts:
  assumes "r_success (fst (verify2FACode w cid code ip s))"
  shows "loginAttempts (snd (verify2FACode w cid code ip s)) = (loginAttempts s)(ip := None)"
proof -
  from v2_success_D(1) [OF assms] obtain v where
    v: "verificationCodes s cid = Some v" "now1 w \<le> vc_expiresAt v" "\<not> vc_used v"
      "vc_ip v = ip" "vc_code v = code"
    by blast
  note eq = v2_passed [OF v]
  from assms have t1: "\<not> dbThrows w GetUserByEmail"
    by (auto simp: eq Let_def)
  with assms obtain u where u: "find (\<lambda>u. u_email u = vc_email v) (users s) = Some u"
    by (cases "find (\<lambda>u. u_email u = vc_email v) (users s)") (auto simp: eq Let_def)
  from assms t1 u have a: "u_isActive u"
    by (auto simp: eq Let_def split: if_splits)
  from assms t1 u a have t2: "\<not> dbThrows w CreateAuthSession"
    by (auto simp: eq Let_def split: if_splits)
  from t1 u a t2 show ?thesis
    by (simp add: eq Let_def recordLoginAttempt_def)
qed

lemma verifySession_attempts [simp]:
  "loginAttempts (snd (verifySession w token s)) = loginAttempts s"
  by (auto simp: verifySession_def getAuthSession_def getUser_def updateAuthSession_isActive_def
      split: option.splits)

lemma logout_attempts [simp]:
  "loginAttempts (snd (logout w token s)) = loginAttempts s"
  by (simp add: logout_def deleteAuthSession_def)

lemma changePassword_attempts [simp]:
  "loginAttempts (snd (changePassword bc w uid cur new s)) = loginAttempts s"
  by (auto simp: changePassword_def getUser_def updateUser_passwordHash_def Let_def
      split: option.splits)

lemma updateIPWhitelist_attempts [simp]:
  "loginAttempts (snd (updateIPWhitelist w uid ips s)) = loginAttempts s"
  by (simp add: updateIPWhitelist_def updateUser_whitelistedIPs_def)

lemma cleanup_attempts:
  "loginAttempts (cleanupExpiredData w s) ip =
     (if dbThrows w CleanupExpiredSessions then loginAttempts s ip
      else case loginAttempts s ip of
             None \<Rightarrow> None
           | Some a \<Rightarrow> if la_lastAttempt a < now2 w - 60 * 60 * 1000 then None else Some a)"
  by (cases "loginAttempts s ip")
    (simp_all add: cleanupExpiredData_def cleanupExpiredSessions_def Let_def)

lemma exec_lockout:
  assumes "loginAttempts s ip = Some a" "maxLoginAttempts \<le> la_count a"
    "loginAttempts (exec c s) ip \<noteq> Some a"
  shows "(\<exists>bc w email password userAgent. c = VerifyCredentials bc w email password ip userAgent
            \<and> lockoutDuration \<le> now1 w - la_lastAttempt a)
         \<or> (\<exists>w cid code. c = Verify2FACode w cid code ip
              \<and> r_success (fst (verify2FACode w cid code ip s)))
         \<or> (\<exists>w. c = CleanupExpiredData w \<and> la_lastAttempt a < now2 w - 60 * 60 * 1000)"
proof (cases c)
  case (VerifyCredentials bc w email password ip' userAgent)
  show ?thesis
  proof (cases "ip = ip'")
    case False
    with assms VerifyCredentials vc_attempts_other [of ip ip' bc w email password userAgent s]
    show ?thesis by simp
  next
    case True
    show ?thesis
    proof (cases "now1 w - la_lastAttempt a < lockoutDuration")
      case within: True
      from vc_locked [OF assms(1,2) within, of bc email password userAgent] assms VerifyCredentials True
      show ?thesis by simp
    next
      case False
      with VerifyCredentials True show ?thesis by simp
    qed
  qed
next
  case (Verify2FACode w cid code ip')
  show ?thesis
  proof (cases "r_success (fst (verify2FACode w cid code ip' s))")
    case True
    from v2_success_attempts [OF True] assms Verify2FACode True show ?thesis
      by (cases "ip = ip'") auto
  next
    case False
    from v2_failure_frame(5) [OF False] assms Verify2FACode show ?thesis by simp
  qed
next
  case (VerifySession w token)
  with assms show ?thesis by simp
next
  case (Logout w token)
  with assms show ?thesis by simp
next
  case (CleanupExpiredData w)
  with assms show ?thesis by (simp add: cleanup_attempts split: if_splits)
next
  case (ChangePassword bc w uid cur new)
  with assms show ?thesis by simp
next
  case (UpdateIPWhitelist w uid ips)
  with assms show ?thesis by simp
qed


section \<open>C3: lockout after the maximum number of failed attempts\<close>

text \<open>
  Claim C3, as amended.  The maximum is 3 and the lockout window 15 minutes.  Starting
  with no recorded failure for an address, after \<^verbatim>\<open>maxLoginAttempts\<close> consecutive
  \<^verbatim>\<open>verifyCredentials\<close> calls from it that fail on the credentials or on the
  allow-list, the counter stands at the maximum and its time is the clock reading of the
  last such failure.  These are the only failures the service counts: a call that fails
  with \<^verbatim>\<open>Failed to send verification code\<close> or \<^verbatim>\<open>Authentication service error\<close>
  records nothing.  In any state with the counter at or above the maximum, a call whose
  clock reading is less than the lockout window after that time is rejected with the
  rate-limit message carrying the remaining seconds (the remaining milliseconds divided by
  1000, rounded up, at least 1), and the state is left as it was: the answer depends
  neither on the user table nor on the password.  A call at or after the end of the
  window clears the counter and is then evaluated exactly as a call from an address with
  no recorded failure.  The counter of a locked address stays as it is across every call
  on the service but three: a \<^verbatim>\<open>verifyCredentials\<close> from the address at or after the
  end of the window, a \<^verbatim>\<open>cleanupExpiredData\<close> more than an hour after the last
  failure, and a \<^verbatim>\<open>verify2FACode\<close> from the address that succeeds, which deletes the
  counter and so lifts the lockout inside the window.
\<close>

theorem lockout_after_max_failed_attempts:
  "maxLoginAttempts = 3 \<and> lockoutDuration = 15 * 60 * 1000
   \<and> (loginAttempts s ip = None \<and> int (length cs) = maxLoginAttempts
        \<and> list_all (\<lambda>r. r_message r = ''Invalid credentials''
                        \<or> r_message r = ''Access denied: IP not authorized'')
             (fst (verifyCredentials_run bc ip cs s)) \<longrightarrow>
        loginAttempts (snd (verifyCredentials_run bc ip cs s)) ip =
          Some \<lparr>la_count = maxLoginAttempts, la_lastAttempt = now2 (fst (last cs))\<rparr>)
   \<and> (loginAttempts s' ip = Some a \<and> maxLoginAttempts \<le> la_count a
        \<and> now1 w - la_lastAttempt a < lockoutDuration \<longrightarrow>
        verifyCredentials bc' w email password ip userAgent s' =
          (failure (''Too many login attempts. Try again in ''
                    @ string_of_int
                        (ceil_div (lockoutDuration - (now1 w - la_lastAttempt a)) 1000)
                    @ '' seconds.''), s')
        \<and> 0 < ceil_div (lockoutDuration - (now1 w - la_lastAttempt a)) 1000)
   \<and> (loginAttempts s' ip = Some a \<and> maxLoginAttempts \<le> la_count a
        \<and> lockoutDuration \<le> now1 w - la_lastAttempt a \<longrightarrow>
        checkLoginAttempts (now1 w) ip s' =
          (\<lparr>allowed = True, remainingTime = None\<rparr>,
           s'\<lparr>loginAttempts := (loginAttempts s')(ip := None)\<rparr>)
        \<and> verifyCredentials bc' w email password ip userAgent s' =
            verifyCredentials bc' w email password ip userAgent
              (s'\<lparr>loginAttempts := (loginAttempts s')(ip := None)\<rparr>))
   \<and> (r_message (fst (verifyCredentials bc' w email password ip userAgent s'))
         = ''Failed to send verification code''
       \<or> r_message (fst (verifyCredentials bc' w email password ip userAgent s'))
         = ''Authentication service error'' \<longrightarrow>
       loginAttempts (snd (verifyCredentials bc' w email password ip userAgent s')) =
         loginAttempts (snd (checkLoginAttempts (now1 w) ip s')))
   \<and> (r_success (fst (verify2FACode w' cid code ip s')) \<longrightarrow>
        loginAttempts (snd (verify2FACode w' cid code ip s')) ip = None)
   \<and> (loginAttempts s' ip = Some a \<and> maxLoginAttempts \<le> la_count a
        \<and> loginAttempts (exec c s') ip \<noteq> Some a \<longrightarrow>
        (\<exists>bc w email password userAgent.
            c = VerifyCredentials bc w email password ip userAgent
            \<and> lockoutDuration \<le> now1 w - la_lastAttempt a)
        \<or> (\<exists>w cid code. c = Verify2FACode w cid code ip
              \<and> r_success (fst (verify2FACode w cid code ip s')))
        \<or> (\<exists>w. c = CleanupExpiredData w \<and> la_lastAttempt a < now2 w - 60 * 60 * 1000))"
proof -
  have 1: "loginAttempts s ip = None \<and> int (length cs) = maxLoginAttempts
        \<and> list_all (\<lambda>r. r_message r = ''Invalid credentials''
                        \<or> r_message r = ''Access denied: IP not authorized'')
             (fst (verifyCredentials_run bc ip cs s)) \<longrightarrow>
        loginAttempts (snd (verifyCredentials_run bc ip cs s)) ip =
          Some \<lparr>la_count = maxLoginAttempts, la_lastAttempt = now2 (fst (last cs))\<rparr>"
  proof (rule impI)
    assume h: "loginAttempts s ip = None \<and> int (length cs) = maxLoginAttempts
        \<and> list_all (\<lambda>r. r_message r = ''Invalid credentials''
                        \<or> r_message r = ''Access denied: IP not authorized'')
             (fst (verifyCredentials_run bc ip cs s))"
    then have ne: "cs \<noteq> []" by (auto simp: maxLoginAttempts_def)
    from h have inv: "loginAttempts s ip =
        (if (0::int) = 0 then None else Some \<lparr>la_count = 0, la_lastAttempt = 0\<rparr>)"
      by simp
    from h have len: "0 + int (length cs) \<le> maxLoginAttempts" by simp
    from h have rs: "list_all (\<lambda>r. r_message r = ''Invalid credentials''
                        \<or> r_message r = ''Access denied: IP not authorized'')
             (fst (verifyCredentials_run bc ip cs s))" by simp
    from vc_run_failure_counts [OF inv _ len ne rs] h
    show "loginAttempts (snd (verifyCredentials_run bc ip cs s)) ip =
          Some \<lparr>la_count = maxLoginAttempts, la_lastAttempt = now2 (fst (last cs))\<rparr>"
      by simp
  qed
  have 2: "loginAttempts s' ip = Some a \<and> maxLoginAttempts \<le> la_count a
        \<and> now1 w - la_lastAttempt a < lockoutDuration \<longrightarrow>
        verifyCredentials bc' w email password ip userAgent s' =
          (failure (''Too many login attempts. Try again in ''
                    @ string_of_int
                        (ceil_div (lockoutDuration - (now1 w - la_lastAttempt a)) 1000)
                    @ '' seconds.''), s')
        \<and> 0 < ceil_div (lockoutDuration - (now1 w - la_lastAttempt a)) 1000"
    by (simp add: vc_locked ceil_div_pos)
  have 3: "loginAttempts s' ip = Some a \<and> maxLoginAttempts \<le> la_count a
        \<and> lockoutDuration \<le> now1 w - la_lastAttempt a \<longrightarrow>
        checkLoginAttempts (now1 w) ip s' =
          (\<lparr>allowed = True, remainingTime = None\<rparr>,
           s'\<lparr>loginAttempts := (loginAttempts s')(ip := None)\<rparr>)
        \<and> verifyCredentials bc' w email password ip userAgent s' =
            verifyCredentials bc' w email password ip userAgent
              (s'\<lparr>loginAttempts := (loginAttempts s')(ip := None)\<rparr>)"
    using check_elapsed [of s' ip a "now1 w"] vc_elapsed [of s' ip a w bc' email password userAgent]
    by blast
  have 4: "r_message (fst (verifyCredentials bc' w email password ip userAgent s'))
         = ''Failed to send verification code''
       \<or> r_message (fst (verifyCredentials bc' w email password ip userAgent s'))
         = ''Authentication service error'' \<longrightarrow>
       loginAttempts (snd (verifyCredentials bc' w email password ip userAgent s')) =
         loginAttempts (snd (checkLoginAttempts (now1 w) ip s'))"
    by (auto simp: vc_attempts [of bc' w email password ip userAgent s'])
  have 5: "r_success (fst (verify2FACode w' cid code ip s')) \<longrightarrow>
        loginAttempts (snd (verify2FACode w' cid code ip s')) ip = None"
    by (simp add: v2_success_attempts)
  have 6: "loginAttempts s' ip = Some a \<and> maxLoginAttempts \<le> la_count a
        \<and> loginAttempts (exec c s') ip \<noteq> Some a \<longrightarrow>
        (\<exists>bc w email password userAgent.
            c = VerifyCredentials bc w email password ip userAgent
            \<and> lockoutDuration \<le> now1 w - la_lastAttempt a)
        \<or> (\<exists>w cid code. c = Verify2FACode w cid code ip
              \<and> r_success (fst (verify2FACode w cid code ip s')))
        \<or> (\<exists>w. c = CleanupExpiredData w \<and> la_lastAttempt a < now2 w - 60 * 60 * 1000)"
    using exec_lockout [of s' ip a c] by blast
  have c: "maxLoginAttempts = 3 \<and> lockoutDuration = 15 * 60 * 1000"
    by (simp add: maxLoginAttempts_def lockoutDuration_def)
  from c have c1: "maxLoginAttempts = 3" and c2: "lockoutDuration = 15 * 60 * 1000"
    by simp_all
  show ?thesis
    by (intro conjI) (rule c1 c2 1 2 3 4 5 6)+
qed

text \<open>
  The claim as written fails: three consecutive calls from one address that fail because
  the code could not be dispatched leave no counter behind, and the fourth call, inside
  the window, is not rejected.
\<close>

theorem uncounted_failures_counterexample:
  "int (length undelivered_calls) = maxLoginAttempts
   \<and> fst (verifyCredentials_run plain_library ''1.2.3.4'' undelivered_calls state0) =
       [failure ''Failed to send verification code'',
        failure ''Failed to send verification code'',
        failure ''Failed to send verification code'']
   \<and> now1 (world0\<lparr>now1 := 4000, now2 := 4005\<rparr>) - now2 (fst (last undelivered_calls))
       < lockoutDuration
   \<and> r_success (fst (verifyCredentials plain_library (world0\<lparr>now1 := 4000, now2 := 4005\<rparr>)
        ''a@b.com'' ''secret123'' ''1.2.3.4'' ''ua''
        (snd (verifyCredentials_run plain_library ''1.2.3.4'' undelivered_calls state0))))"
  by (simp add: vc_run_Cons fixture_defs undelivered_calls_def vc_eval lower_examples)

theorem lockout_after_max_failed_attempts_witness:
  "loginAttempts state0 ''1.2.3.4'' = None \<and> int (length failed_calls) = maxLoginAttempts
   \<and> fst (verifyCredentials_run plain_library ''1.2.3.4'' failed_calls state0) =
       [failure ''Invalid credentials'', failure ''Invalid credentials'',
        failure ''Invalid credentials'']
   \<and> loginAttempts (snd (verifyCredentials_run plain_library ''1.2.3.4'' failed_calls state0))
        ''1.2.3.4'' = Some \<lparr>la_count = 3, la_lastAttempt = 3005\<rparr>
   \<and> verifyCredentials plain_library (world0\<lparr>now1 := 60000\<rparr>) ''a@b.com'' ''secret123''
        ''1.2.3.4'' ''ua''
        (snd (verifyCredentials_run plain_library ''1.2.3.4'' failed_calls state0))
      = (failure ''Too many login attempts. Try again in 844 seconds.'',
         snd (verifyCredentials_run plain_library ''1.2.3.4'' failed_calls state0))
   \<and> loginAttempts state_locked ''1.2.3.4'' = Some \<lparr>la_count = 3, la_lastAttempt = 3005\<rparr>
   \<and> lockoutDuration \<le> now1 (world0\<lparr>now1 := 903005\<rparr>) - 3005
   \<and> r_success (fst (verifyCredentials plain_library (world0\<lparr>now1 := 903005\<rparr>) ''a@b.com''
        ''secret123'' ''1.2.3.4'' ''ua'' state_locked))
   \<and> r_message (fst (verifyCredentials plain_library (world0\<lparr>sendMailOk := False\<rparr>) ''a@b.com''
        ''secret123'' ''1.2.3.4'' ''ua'' state0)) = ''Failed to send verification code''
   \<and> loginAttempts (snd (verifyCredentials plain_library (world0\<lparr>sendMailOk := False\<rparr>)
        ''a@b.com'' ''secret123'' ''1.2.3.4'' ''ua'' state0)) ''1.2.3.4'' = None
   \<and> loginAttempts state_locked_pending ''1.2.3.4'' = Some \<lparr>la_count = 3, la_lastAttempt = 4005\<rparr>
   \<and> r_success (fst (verify2FACode (world0\<lparr>now1 := 5000, now2 := 5005\<rparr>) ''123e4567-e89b-42d3-a456-426614174000'' ''123456''
        ''1.2.3.4'' state_locked_pending))
   \<and> loginAttempts (snd (verify2FACode (world0\<lparr>now1 := 5000, now2 := 5005\<rparr>) ''123e4567-e89b-42d3-a456-426614174000'' ''123456''
        ''1.2.3.4'' state_locked_pending)) ''1.2.3.4'' = None
   \<and> loginAttempts (exec (CleanupExpiredData (world0\<lparr>now2 := 3700000\<rparr>)) state_locked_pending)
        ''1.2.3.4'' \<noteq> Some \<lparr>la_count = 3, la_lastAttempt = 4005\<rparr>
   \<and> la_lastAttempt \<lparr>la_count = 3, la_lastAttempt = 4005\<rparr>
        < now2 (world0\<lparr>now2 := 3700000\<rparr>) - 60 * 60 * 1000"
proof -
  let ?s3 = "snd (verifyCredentials_run plain_library ''1.2.3.4'' failed_calls state0)"
  let ?a = "\<lparr>la_count = 3, la_lastAttempt = 3005\<rparr>"
  have f: "loginAttempts state0 ''1.2.3.4'' = None" "int (length failed_calls) = maxLoginAttempts"
    "loginAttempts state_locked ''1.2.3.4'' = Some ?a"
    "lockoutDuration \<le> now1 (world0\<lparr>now1 := 903005\<rparr>) - 3005"
    by (simp_all add: fixture_defs failed_calls_def state_locked_def maxLoginAttempts_def lockoutDuration_def)
  note rs = failed_calls_results
  have h1: "loginAttempts state0 ''1.2.3.4'' = None \<and> int (length failed_calls) = maxLoginAttempts
        \<and> list_all (\<lambda>r. r_message r = ''Invalid credentials''
                        \<or> r_message r = ''Access denied: IP not authorized'')
             (fst (verifyCredentials_run plain_library ''1.2.3.4'' failed_calls state0))"
    by (simp add: f rs)
  have last: "now2 (fst (last failed_calls)) = 3005"
    by (simp add: fixture_defs failed_calls_def state_locked_def)
  have locked: "loginAttempts ?s3 ''1.2.3.4'' = Some ?a"
    using lockout_after_max_failed_attempts
      [where s = state0 and ip = "''1.2.3.4''" and cs = failed_calls and bc = plain_library,
        THEN conjunct2, THEN conjunct2, THEN conjunct1, THEN mp, OF h1]
    by (simp add: last maxLoginAttempts_def)
  have h2: "loginAttempts ?s3 ''1.2.3.4'' = Some ?a \<and> maxLoginAttempts \<le> la_count ?a
        \<and> now1 (world0\<lparr>now1 := 60000\<rparr>) - la_lastAttempt ?a < lockoutDuration"
    by (simp add: locked maxLoginAttempts_def lockoutDuration_def)
  have num: "string_of_int (ceil_div (lockoutDuration
        - (now1 (world0\<lparr>now1 := 60000\<rparr>) - la_lastAttempt ?a)) 1000) = ''844''"
    by (simp add: lockoutDuration_def ceil_div_def string_of_int_examples)
  have rejected: "verifyCredentials plain_library (world0\<lparr>now1 := 60000\<rparr>) ''a@b.com'' ''secret123''
        ''1.2.3.4'' ''ua'' ?s3
      = (failure ''Too many login attempts. Try again in 844 seconds.'', ?s3)"
    using lockout_after_max_failed_attempts
      [where s' = ?s3 and ip = "''1.2.3.4''" and a = ?a
         and w = "world0\<lparr>now1 := 60000\<rparr>" and bc' = plain_library and email = "''a@b.com''"
         and password = "''secret123''" and userAgent = "''ua''",
        THEN conjunct2, THEN conjunct2, THEN conjunct2, THEN conjunct1, THEN mp, OF h2,
        THEN conjunct1]
    unfolding num by simp
  have h3: "loginAttempts state_locked ''1.2.3.4'' = Some ?a \<and> maxLoginAttempts \<le> la_count ?a
        \<and> lockoutDuration \<le> now1 (world0\<lparr>now1 := 903005\<rparr>) - la_lastAttempt ?a"
    using f by (simp add: maxLoginAttempts_def)
  have cleared: "state_locked\<lparr>loginAttempts := (loginAttempts state_locked)(''1.2.3.4'' := None)\<rparr>
      = state0"
    by (simp add: fixture_defs failed_calls_def state_locked_def)
  have normal: "r_success (fst (verifyCredentials plain_library (world0\<lparr>now1 := 903005\<rparr>)
      ''a@b.com'' ''secret123'' ''1.2.3.4'' ''ua'' state0))"
    by (simp add: fixture_defs failed_calls_def state_locked_def vc_eval lower_examples)
  have after: "r_success (fst (verifyCredentials plain_library (world0\<lparr>now1 := 903005\<rparr>) ''a@b.com''
        ''secret123'' ''1.2.3.4'' ''ua'' state_locked))"
    using lockout_after_max_failed_attempts
      [where s' = state_locked and ip = "''1.2.3.4''" and a = ?a
         and w = "world0\<lparr>now1 := 903005\<rparr>" and bc' = plain_library and email = "''a@b.com''"
         and password = "''secret123''" and userAgent = "''ua''",
        THEN conjunct2, THEN conjunct2, THEN conjunct2, THEN conjunct2, THEN conjunct1,
        THEN mp, OF h3, THEN conjunct2]
      normal
    unfolding cleared by simp
  let ?wf = "world0\<lparr>sendMailOk := False\<rparr>"
  let ?w5 = "world0\<lparr>now1 := 5000, now2 := 5005\<rparr>"
  let ?b = "\<lparr>la_count = 3, la_lastAttempt = 4005\<rparr>"
  let ?c = "CleanupExpiredData (world0\<lparr>now2 := 3700000\<rparr>)"
  note T = lockout_after_max_failed_attempts
      [where s = state0 and cs = failed_calls and bc = plain_library and ip = "''1.2.3.4''"
         and bc' = plain_library and email = "''a@b.com''" and password = "''secret123''"
         and userAgent = "''ua''" and cid = "''123e4567-e89b-42d3-a456-426614174000''" and code = "''123456''" and w' = ?w5
         and a = ?b and c = ?c]
  note Ta = T [where s' = state0 and w = ?wf,
        THEN conjunct2, THEN conjunct2, THEN conjunct2, THEN conjunct2, THEN conjunct2]
  note Tb = T [where s' = state_locked_pending and w = world0,
        THEN conjunct2, THEN conjunct2, THEN conjunct2, THEN conjunct2, THEN conjunct2]
  have m: "r_message (fst (verifyCredentials plain_library ?wf ''a@b.com''
        ''secret123'' ''1.2.3.4'' ''ua'' state0)) = ''Failed to send verification code''"
    by (simp add: fixture_defs vc_eval lower_examples)
  then have m': "r_message (fst (verifyCredentials plain_library ?wf ''a@b.com''
        ''secret123'' ''1.2.3.4'' ''ua'' state0)) = ''Failed to send verification code''
      \<or> r_message (fst (verifyCredentials plain_library ?wf ''a@b.com''
        ''secret123'' ''1.2.3.4'' ''ua'' state0)) = ''Authentication service error''"
    by simp
  have uncounted: "loginAttempts (snd (verifyCredentials plain_library ?wf
        ''a@b.com'' ''secret123'' ''1.2.3.4'' ''ua'' state0)) ''1.2.3.4'' = None"
    using Ta [THEN conjunct1, THEN mp, OF m']
    by (simp add: check_none state0_def)
  have g: "loginAttempts state_locked_pending ''1.2.3.4'' = Some ?b"
    "la_lastAttempt ?b < now2 (world0\<lparr>now2 := 3700000\<rparr>) - 60 * 60 * 1000"
    by (simp_all add: fixture_defs state_locked_pending_def)
  have ok2: "r_success (fst (verify2FACode ?w5 ''123e4567-e89b-42d3-a456-426614174000'' ''123456'' ''1.2.3.4''
      state_locked_pending))"
    by (simp add: fixture_defs state_locked_pending_def v2_eval)
  have lifted: "loginAttempts (snd (verify2FACode ?w5 ''123e4567-e89b-42d3-a456-426614174000'' ''123456'' ''1.2.3.4''
      state_locked_pending)) ''1.2.3.4'' = None"
    using Tb [THEN conjunct2, THEN conjunct1, THEN mp, OF ok2] .
  have swept: "loginAttempts (exec ?c state_locked_pending) ''1.2.3.4'' \<noteq> Some ?b"
    by (simp add: cleanup_attempts fixture_defs state_locked_pending_def)
  have h6: "loginAttempts state_locked_pending ''1.2.3.4'' = Some ?b
      \<and> maxLoginAttempts \<le> la_count ?b
      \<and> loginAttempts (exec ?c state_locked_pending) ''1.2.3.4'' \<noteq> Some ?b"
    using g swept by (simp add: maxLoginAttempts_def)
  have old: "la_lastAttempt ?b < now2 (world0\<lparr>now2 := 3700000\<rparr>) - 60 * 60 * 1000"
    using Tb [THEN conjunct2, THEN conjunct2, THEN mp, OF h6]
    by auto
  from f rs locked rejected after m uncounted g ok2 lifted swept old show ?thesis by simp
qed


section \<open>C10: a rejected call does not touch the throttle\<close>

text \<open>
  Claim C10, as amended.  A \<^verbatim>\<open>verifyCredentials\<close> call rejected by the throttle check
  returns the state it was given, so the login-attempt map is unchanged.  A failure on
  credentials or allow-list stamps the entry of the address with the clock reading of that
  call.  With the counter at or above the maximum, a call is rejected exactly when its
  clock reading is less than \<^verbatim>\<open>lockoutDuration\<close> after that stamp, and any run of
  rejected calls from the address leaves the state, stamp included, as it was: rejected
  attempts never extend the lockout, which ends no later than \<^verbatim>\<open>lockoutDuration\<close>
  after the last recorded failure.  It ends sooner when a \<^verbatim>\<open>verify2FACode\<close> from the
  same address succeeds, which deletes the entry; apart from that, a call of the service
  changes the entry of a locked address only if it is a \<^verbatim>\<open>verifyCredentials\<close> from
  the address at or after the end of the window, or a \<^verbatim>\<open>cleanupExpiredData\<close> more
  than an hour after the stamp.
\<close>

theorem rejected_call_does_not_extend_lockout:
  "(\<not> allowed (fst (checkLoginAttempts (now1 w) ip s)) \<longrightarrow>
      snd (verifyCredentials bc w email password ip userAgent s) = s
      \<and> \<not> r_success (fst (verifyCredentials bc w email password ip userAgent s)))
   \<and> (r_message (fst (verifyCredentials bc w email password ip userAgent s))
         = ''Invalid credentials''
       \<or> r_message (fst (verifyCredentials bc w email password ip userAgent s))
         = ''Access denied: IP not authorized'' \<longrightarrow>
       map_option la_lastAttempt
         (loginAttempts (snd (verifyCredentials bc w email password ip userAgent s)) ip)
       = Some (now2 w))
   \<and> (loginAttempts s ip = Some a \<and> maxLoginAttempts \<le> la_count a \<longrightarrow>
       (\<not> allowed (fst (checkLoginAttempts t ip s))) = (t < la_lastAttempt a + lockoutDuration)
       \<and> (list_all (\<lambda>c. now1 (fst c) < la_lastAttempt a + lockoutDuration) cs \<longrightarrow>
            snd (verifyCredentials_run bc ip cs s) = s
            \<and> list_all (\<lambda>r. \<not> r_success r) (fst (verifyCredentials_run bc ip cs s))))
   \<and> (r_success (fst (verify2FACode w' cid code ip s)) \<longrightarrow>
        loginAttempts (snd (verify2FACode w' cid code ip s)) ip = None
        \<and> allowed (fst (checkLoginAttempts t ip (snd (verify2FACode w' cid code ip s)))))
   \<and> (loginAttempts s ip = Some a \<and> maxLoginAttempts \<le> la_count a
        \<and> loginAttempts (exec c s) ip \<noteq> Some a \<longrightarrow>
        (\<exists>bc w email password userAgent.
            c = VerifyCredentials bc w email password ip userAgent
            \<and> la_lastAttempt a + lockoutDuration \<le> now1 w)
        \<or> (\<exists>w cid code. c = Verify2FACode w cid code ip
              \<and> r_success (fst (verify2FACode w cid code ip s)))
        \<or> (\<exists>w. c = CleanupExpiredData w \<and> la_lastAttempt a < now2 w - 60 * 60 * 1000))"
proof -
  have 1: "\<not> allowed (fst (checkLoginAttempts (now1 w) ip s)) \<longrightarrow>
      snd (verifyCredentials bc w email password ip userAgent s) = s
      \<and> \<not> r_success (fst (verifyCredentials bc w email password ip userAgent s))"
    by (simp add: vc_rejected)
  have 2: "r_message (fst (verifyCredentials bc w email password ip userAgent s))
         = ''Invalid credentials''
       \<or> r_message (fst (verifyCredentials bc w email password ip userAgent s))
         = ''Access denied: IP not authorized'' \<longrightarrow>
       map_option la_lastAttempt
         (loginAttempts (snd (verifyCredentials bc w email password ip userAgent s)) ip)
       = Some (now2 w)"
  proof (rule impI)
    assume r: "r_message (fst (verifyCredentials bc w email password ip userAgent s))
         = ''Invalid credentials''
       \<or> r_message (fst (verifyCredentials bc w email password ip userAgent s))
         = ''Access denied: IP not authorized''"
    from vc_recorded_failure(2) [OF r]
    show "map_option la_lastAttempt
         (loginAttempts (snd (verifyCredentials bc w email password ip userAgent s)) ip)
       = Some (now2 w)"
      by (simp add: recordLoginAttempt_failure)
  qed
  have 3: "loginAttempts s ip = Some a \<and> maxLoginAttempts \<le> la_count a \<longrightarrow>
       (\<not> allowed (fst (checkLoginAttempts t ip s))) = (t < la_lastAttempt a + lockoutDuration)
       \<and> (list_all (\<lambda>c. now1 (fst c) < la_lastAttempt a + lockoutDuration) cs \<longrightarrow>
            snd (verifyCredentials_run bc ip cs s) = s
            \<and> list_all (\<lambda>r. \<not> r_success r) (fst (verifyCredentials_run bc ip cs s)))"
  proof (intro impI)
    assume h: "loginAttempts s ip = Some a \<and> maxLoginAttempts \<le> la_count a"
    then have a: "loginAttempts s ip = Some a" and m: "maxLoginAttempts \<le> la_count a"
      by simp_all
    have c: "(\<not> allowed (fst (checkLoginAttempts t ip s))) = (t < la_lastAttempt a + lockoutDuration)"
    proof (cases "t - la_lastAttempt a < lockoutDuration")
      case True
      from check_locked [OF a m True] True show ?thesis by simp
    next
      case False
      then have "lockoutDuration \<le> t - la_lastAttempt a" by simp
      from check_elapsed [OF a m this] False show ?thesis by simp
    qed
    have r: "list_all (\<lambda>c. now1 (fst c) < la_lastAttempt a + lockoutDuration) cs \<longrightarrow>
            snd (verifyCredentials_run bc ip cs s) = s
            \<and> list_all (\<lambda>r. \<not> r_success r) (fst (verifyCredentials_run bc ip cs s))"
      using vc_run_locked [OF a m] by blast
    from c r
    show "(\<not> allowed (fst (checkLoginAttempts t ip s))) = (t < la_lastAttempt a + lockoutDuration)
       \<and> (list_all (\<lambda>c. now1 (fst c) < la_lastAttempt a + lockoutDuration) cs \<longrightarrow>
            snd (verifyCredentials_run bc ip cs s) = s
            \<and> list_all (\<lambda>r. \<not> r_success r) (fst (verifyCredentials_run bc ip cs s)))"
      by simp
  qed
  have 4: "r_success (fst (verify2FACode w' cid code ip s)) \<longrightarrow>
        loginAttempts (snd (verify2FACode w' cid code ip s)) ip = None
        \<and> allowed (fst (checkLoginAttempts t ip (snd (verify2FACode w' cid code ip s))))"
    by (simp add: v2_success_attempts check_none)
  have 5: "loginAttempts s ip = Some a \<and> maxLoginAttempts \<le> la_count a
        \<and> loginAttempts (exec c s) ip \<noteq> Some a \<longrightarrow>
        (\<exists>bc w email password userAgent.
            c = VerifyCredentials bc w email password ip userAgent
            \<and> la_lastAttempt a + lockoutDuration \<le> now1 w)
        \<or> (\<exists>w cid code. c = Verify2FACode w cid code ip
              \<and> r_success (fst (verify2FACode w cid code ip s)))
        \<or> (\<exists>w. c = CleanupExpiredData w \<and> la_lastAttempt a < now2 w - 60 * 60 * 1000)"
  proof (rule impI)
    assume h: "loginAttempts s ip = Some a \<and> maxLoginAttempts \<le> la_count a
        \<and> loginAttempts (exec c s) ip \<noteq> Some a"
    then have "(\<exists>bc w email password userAgent.
            c = VerifyCredentials bc w email password ip userAgent
            \<and> lockoutDuration \<le> now1 w - la_lastAttempt a)
        \<or> (\<exists>w cid code. c = Verify2FACode w cid code ip
              \<and> r_success (fst (verify2FACode w cid code ip s)))
        \<or> (\<exists>w. c = CleanupExpiredData w \<and> la_lastAttempt a < now2 w - 60 * 60 * 1000)"
      using exec_lockout [of s ip a c] by blast
    then show "(\<exists>bc w email password userAgent.
            c = VerifyCredentials bc w email password ip userAgent
            \<and> la_lastAttempt a + lockoutDuration \<le> now1 w)
        \<or> (\<exists>w cid code. c = Verify2FACode w cid code ip
              \<and> r_success (fst (verify2FACode w cid code ip s)))
        \<or> (\<exists>w. c = CleanupExpiredData w \<and> la_lastAttempt a < now2 w - 60 * 60 * 1000)"
      by (elim disjE exE conjE) (auto simp: algebra_simps)
  qed
  show ?thesis
    by (intro conjI) (rule 1 2 3 4 5)+
qed

lemma locking_calls_state:
  "snd (verifyCredentials_run plain_library ''1.2.3.4'' locking_calls state0) =
     state_locked_pending
       \<lparr>activityLogs :=
          [\<lparr>al_userId = 1, al_action = ''login_step1'', al_status = ''success'',
            al_message = ''Credentials verified, 2FA sent'', al_ipAddress = ''1.2.3.4'',
            al_userAgent = ''ua''\<rparr>,
           \<lparr>al_userId = 1, al_action = ''login_attempt'', al_status = ''error'',
            al_message = ''Invalid password'', al_ipAddress = ''1.2.3.4'',
            al_userAgent = ''ua''\<rparr>,
           \<lparr>al_userId = 1, al_action = ''login_attempt'', al_status = ''error'',
            al_message = ''Invalid password'', al_ipAddress = ''1.2.3.4'',
            al_userAgent = ''ua''\<rparr>,
           \<lparr>al_userId = 1, al_action = ''login_attempt'', al_status = ''error'',
            al_message = ''Invalid password'', al_ipAddress = ''1.2.3.4'',
            al_userAgent = ''ua''\<rparr>]\<rparr>"
  by (simp add: vc_run_Cons fixture_defs locking_calls_def state_locked_pending_def vc_eval
      lower_examples)

text \<open>
  The claim as written fails: a successful \<^verbatim>\<open>verify2FACode\<close> from a locked address,
  with a code issued before the lockout, deletes the entry, and the next
  \<^verbatim>\<open>verifyCredentials\<close> from that address, well inside \<^verbatim>\<open>lockoutDuration\<close> of the
  last recorded failure, is evaluated on its credentials.
\<close>

theorem lockout_lifted_by_login_counterexample:
  "loginAttempts (snd (verifyCredentials_run plain_library ''1.2.3.4'' locking_calls state0))
     ''1.2.3.4'' = Some \<lparr>la_count = 3, la_lastAttempt = 4005\<rparr>
   \<and> \<not> allowed (fst (checkLoginAttempts 4500 ''1.2.3.4''
        (snd (verifyCredentials_run plain_library ''1.2.3.4'' locking_calls state0))))
   \<and> r_success (fst (verify2FACode (world0\<lparr>now1 := 5000, now2 := 5005\<rparr>) ''123e4567-e89b-42d3-a456-426614174000'' ''123456''
        ''1.2.3.4''
        (snd (verifyCredentials_run plain_library ''1.2.3.4'' locking_calls state0))))
   \<and> now1 (world0\<lparr>now1 := 6000, now2 := 6005\<rparr>) < 4005 + lockoutDuration
   \<and> fst (verifyCredentials plain_library (world0\<lparr>now1 := 6000, now2 := 6005\<rparr>) ''a@b.com''
        ''wrong-4'' ''1.2.3.4'' ''ua''
        (snd (verify2FACode (world0\<lparr>now1 := 5000, now2 := 5005\<rparr>) ''123e4567-e89b-42d3-a456-426614174000'' ''123456''
           ''1.2.3.4''
           (snd (verifyCredentials_run plain_library ''1.2.3.4'' locking_calls state0)))))
     = failure ''Invalid credentials''"
  unfolding locking_calls_state
  by (simp add: fixture_defs state_locked_pending_def vc_eval lower_examples
      verify2FACode_def createAuthSession_def)

theorem rejected_call_does_not_extend_lockout_witness:
  "\<not> allowed (fst (checkLoginAttempts (now1 (world0\<lparr>now1 := 60000\<rparr>)) ''1.2.3.4'' state_locked))
   \<and> snd (verifyCredentials plain_library (world0\<lparr>now1 := 60000\<rparr>) ''a@b.com'' ''secret123''
        ''1.2.3.4'' ''ua'' state_locked) = state_locked
   \<and> r_message (fst (verifyCredentials plain_library world0 ''a@b.com'' ''wrong-1'' ''1.2.3.4''
        ''ua'' state0)) = ''Invalid credentials''
   \<and> map_option la_lastAttempt (loginAttempts (snd (verifyCredentials plain_library world0
        ''a@b.com'' ''wrong-1'' ''1.2.3.4'' ''ua'' state0)) ''1.2.3.4'') = Some 1005
   \<and> loginAttempts state_locked ''1.2.3.4'' = Some \<lparr>la_count = 3, la_lastAttempt = 3005\<rparr>
   \<and> maxLoginAttempts \<le> la_count \<lparr>la_count = 3, la_lastAttempt = 3005\<rparr>
   \<and> list_all (\<lambda>c. now1 (fst c) < 3005 + lockoutDuration) rejected_calls
   \<and> snd (verifyCredentials_run plain_library ''1.2.3.4'' rejected_calls state_locked)
       = state_locked
   \<and> \<not> allowed (fst (checkLoginAttempts 903004 ''1.2.3.4'' state_locked))
   \<and> allowed (fst (checkLoginAttempts 903005 ''1.2.3.4'' state_locked))
   \<and> loginAttempts state_locked_pending ''1.2.3.4'' = Some \<lparr>la_count = 3, la_lastAttempt = 4005\<rparr>
   \<and> r_success (fst (verify2FACode (world0\<lparr>now1 := 5000, now2 := 5005\<rparr>) ''123e4567-e89b-42d3-a456-426614174000'' ''123456''
        ''1.2.3.4'' state_locked_pending))
   \<and> loginAttempts (snd (verify2FACode (world0\<lparr>now1 := 5000, now2 := 5005\<rparr>) ''123e4567-e89b-42d3-a456-426614174000'' ''123456''
        ''1.2.3.4'' state_locked_pending)) ''1.2.3.4'' = None
   \<and> allowed (fst (checkLoginAttempts 6000 ''1.2.3.4''
        (snd (verify2FACode (world0\<lparr>now1 := 5000, now2 := 5005\<rparr>) ''123e4567-e89b-42d3-a456-426614174000'' ''123456''
           ''1.2.3.4'' state_locked_pending))))
   \<and> loginAttempts
        (exec (Verify2FACode (world0\<lparr>now1 := 5000, now2 := 5005\<rparr>) ''123e4567-e89b-42d3-a456-426614174000'' ''123456'' ''1.2.3.4'')
           state_locked_pending) ''1.2.3.4'' \<noteq> Some \<lparr>la_count = 3, la_lastAttempt = 4005\<rparr>"
proof -
  let ?a = "\<lparr>la_count = 3, la_lastAttempt = 3005\<rparr>"
  have f: "loginAttempts state_locked ''1.2.3.4'' = Some ?a"
    "maxLoginAttempts \<le> la_count ?a"
    "list_all (\<lambda>c. now1 (fst c) < 3005 + lockoutDuration) rejected_calls"
    by (simp_all add: fixture_defs state_locked_def rejected_calls_def maxLoginAttempts_def lockoutDuration_def)
  have h3: "loginAttempts state_locked ''1.2.3.4'' = Some ?a \<and> maxLoginAttempts \<le> la_count ?a"
    using f by simp
  note T = rejected_call_does_not_extend_lockout
      [where s = state_locked and ip = "''1.2.3.4''" and a = ?a and bc = plain_library
         and cs = rejected_calls and w = "world0\<lparr>now1 := 60000\<rparr>" and email = "''a@b.com''"
         and password = "''secret123''" and userAgent = "''ua''"]
  have c1: "\<not> allowed (fst (checkLoginAttempts 903004 ''1.2.3.4'' state_locked))"
    using T [where t = 903004, THEN conjunct2, THEN conjunct2, THEN conjunct1, THEN mp, OF h3, THEN conjunct1]
    by (simp add: lockoutDuration_def)
  have c2: "allowed (fst (checkLoginAttempts 903005 ''1.2.3.4'' state_locked))"
    using T [where t = 903005, THEN conjunct2, THEN conjunct2, THEN conjunct1, THEN mp, OF h3, THEN conjunct1]
    by (simp add: lockoutDuration_def)
  have c0: "\<not> allowed (fst (checkLoginAttempts (now1 (world0\<lparr>now1 := 60000\<rparr>)) ''1.2.3.4''
      state_locked))"
    using T [where t = 60000, THEN conjunct2, THEN conjunct2, THEN conjunct1, THEN mp, OF h3, THEN conjunct1]
    by (simp add: lockoutDuration_def)
  have one: "snd (verifyCredentials plain_library (world0\<lparr>now1 := 60000\<rparr>) ''a@b.com''
      ''secret123'' ''1.2.3.4'' ''ua'' state_locked) = state_locked"
    using T [where t = 0, THEN conjunct1, THEN mp, OF c0, THEN conjunct1] .
  have l: "list_all (\<lambda>c. now1 (fst c) < la_lastAttempt ?a + lockoutDuration) rejected_calls"
    using f by simp
  have run: "snd (verifyCredentials_run plain_library ''1.2.3.4'' rejected_calls state_locked)
       = state_locked"
    using T [where t = 0, THEN conjunct2, THEN conjunct2, THEN conjunct1, THEN mp, OF h3, THEN conjunct2,
        THEN mp, OF l, THEN conjunct1] .
  have m: "r_message (fst (verifyCredentials plain_library world0 ''a@b.com'' ''wrong-1''
      ''1.2.3.4'' ''ua'' state0)) = ''Invalid credentials''"
    by (simp add: fixture_defs state_locked_def rejected_calls_def vc_eval lower_examples)
  then have m': "r_message (fst (verifyCredentials plain_library world0 ''a@b.com'' ''wrong-1''
      ''1.2.3.4'' ''ua'' state0)) = ''Invalid credentials''
     \<or> r_message (fst (verifyCredentials plain_library world0 ''a@b.com'' ''wrong-1''
      ''1.2.3.4'' ''ua'' state0)) = ''Access denied: IP not authorized''"
    by simp
  have stamp: "map_option la_lastAttempt (loginAttempts (snd (verifyCredentials plain_library
      world0 ''a@b.com'' ''wrong-1'' ''1.2.3.4'' ''ua'' state0)) ''1.2.3.4'') = Some 1005"
    using rejected_call_does_not_extend_lockout
      [where s = state0 and ip = "''1.2.3.4''" and a = ?a and bc = plain_library
         and cs = rejected_calls and w = world0 and email = "''a@b.com''"
         and password = "''wrong-1''" and userAgent = "''ua''" and t = 0,
        THEN conjunct2, THEN conjunct1, THEN mp, OF m']
    by (simp add: world0_def)
  let ?w5 = "world0\<lparr>now1 := 5000, now2 := 5005\<rparr>"
  let ?b = "\<lparr>la_count = 3, la_lastAttempt = 4005\<rparr>"
  let ?c = "Verify2FACode ?w5 ''123e4567-e89b-42d3-a456-426614174000'' ''123456'' ''1.2.3.4''"
  note T2 = rejected_call_does_not_extend_lockout
      [where s = state_locked_pending and ip = "''1.2.3.4''" and a = ?b and bc = plain_library
         and cs = rejected_calls and w = world0 and email = "''a@b.com''"
         and password = "''secret123''" and userAgent = "''ua''" and t = 6000
         and w' = ?w5 and cid = "''123e4567-e89b-42d3-a456-426614174000''" and code = "''123456''" and c = ?c,
        THEN conjunct2, THEN conjunct2, THEN conjunct2]
  have g: "loginAttempts state_locked_pending ''1.2.3.4'' = Some ?b"
    by (simp add: fixture_defs state_locked_pending_def)
  have ok2: "r_success (fst (verify2FACode ?w5 ''123e4567-e89b-42d3-a456-426614174000'' ''123456'' ''1.2.3.4''
      state_locked_pending))"
    by (simp add: fixture_defs state_locked_pending_def v2_eval)
  note lifted = T2 [THEN conjunct1, THEN mp, OF ok2]
  from lifted have gone: "loginAttempts (exec ?c state_locked_pending) ''1.2.3.4'' \<noteq> Some ?b"
    by simp
  have h5: "loginAttempts state_locked_pending ''1.2.3.4'' = Some ?b
      \<and> maxLoginAttempts \<le> la_count ?b
      \<and> loginAttempts (exec ?c state_locked_pending) ''1.2.3.4'' \<noteq> Some ?b"
    using g gone by (simp add: maxLoginAttempts_def)
  have by_login: "r_success (fst (verify2FACode ?w5 ''123e4567-e89b-42d3-a456-426614174000'' ''123456'' ''1.2.3.4''
      state_locked_pending))"
    using T2 [THEN conjunct2, THEN mp, OF h5] by auto
  from c0 one m stamp f run c1 c2 g by_login lifted gone show ?thesis by simp
qed


section \<open>Which calls remove a verification code entry\<close>

lemma v2_codes_other:
  assumes "cid \<noteq> cid'"
  shows "verificationCodes (snd (verify2FACode w cid' code ip s)) cid = verificationCodes s cid"
proof (cases "verificationCodes s cid'")
  case None
  then show ?thesis by (simp add: v2_none)
next
  case (Some v)
  show ?thesis
  proof (cases "now1 w \<le> vc_expiresAt v \<and> \<not> vc_used v \<and> vc_ip v = ip \<and> vc_code v = code")
    case True
    with Some assms show ?thesis
      by (simp add: v2_passed [of s cid' v w ip code] Let_def split: option.splits)
  next
    case False
    with Some assms show ?thesis
      by (auto simp: verify2FACode_def)
  qed
qed

lemma v2_check_failed_state:
  assumes "verificationCodes s cid = Some v" "now1 w \<le> vc_expiresAt v"
    "\<not> (\<not> vc_used v \<and> vc_ip v = ip \<and> vc_code v = code)"
  shows "snd (verify2FACode w cid code ip s) = s"
  using assms by (auto simp: verify2FACode_def)

lemma v2_removes_same:
  assumes "verificationCodes s cid = Some v"
    "verificationCodes (snd (verify2FACode w cid code ip s)) cid = None"
    "now1 w \<le> vc_expiresAt v"
  shows "r_success (fst (verify2FACode w cid code ip s))"
proof (cases "\<not> vc_used v \<and> vc_ip v = ip \<and> vc_code v = code")
  case True
  with assms v2_checks_passed [of s cid v w ip code] show ?thesis by auto
next
  case False
  from v2_check_failed_state [OF assms(1,3) False] assms(1,2) show ?thesis by simp
qed

lemma v2_removes:
  assumes "verificationCodes s cid = Some v"
    "verificationCodes (snd (verify2FACode w cid' code ip s)) cid = None"
  shows "cid' = cid \<and> (vc_expiresAt v < now1 w \<or> r_success (fst (verify2FACode w cid code ip s)))"
proof (cases "cid = cid'")
  case False
  with assms v2_codes_other [of cid cid' w code ip s] show ?thesis by simp
next
  case True
  with assms(2) have n: "verificationCodes (snd (verify2FACode w cid code ip s)) cid = None"
    by simp
  show ?thesis
  proof (cases "vc_expiresAt v < now1 w")
    case expired: True
    with True show ?thesis by simp
  next
    case False
    then have "now1 w \<le> vc_expiresAt v" by simp
    from v2_removes_same [OF assms(1) n this] True show ?thesis by simp
  qed
qed

lemma verifySession_codes [simp]:
  "verificationCodes (snd (verifySession w token s)) = verificationCodes s"
  by (auto simp: verifySession_def getAuthSession_def getUser_def updateAuthSession_isActive_def
      split: option.splits)

lemma logout_codes [simp]:
  "verificationCodes (snd (logout w token s)) = verificationCodes s"
  by (simp add: logout_def deleteAuthSession_def)

lemma changePassword_codes [simp]:
  "verificationCodes (snd (changePassword bc w uid cur new s)) = verificationCodes s"
  by (auto simp: changePassword_def getUser_def updateUser_passwordHash_def Let_def
      split: option.splits)

lemma updateIPWhitelist_codes [simp]:
  "verificationCodes (snd (updateIPWhitelist w uid ips s)) = verificationCodes s"
  by (simp add: updateIPWhitelist_def updateUser_whitelistedIPs_def)

lemma cleanup_codes:
  "verificationCodes (cleanupExpiredData w s) cid =
     (if dbThrows w CleanupExpiredSessions then verificationCodes s cid
      else case verificationCodes s cid of
             None \<Rightarrow> None
           | Some c \<Rightarrow> if vc_expiresAt c < now1 w then None else Some c)"
  by (simp add: cleanupExpiredData_def cleanupExpiredSessions_def Let_def)

lemma exec_removes:
  assumes "verificationCodes s cid = Some v" "verificationCodes (exec c s) cid = None"
  shows "(\<exists>w code ip. c = Verify2FACode w cid code ip
            \<and> (vc_expiresAt v < now1 w \<or> r_success (fst (verify2FACode w cid code ip s))))
         \<or> (\<exists>w. c = CleanupExpiredData w \<and> vc_expiresAt v < now1 w)"
proof (cases c)
  case (VerifyCredentials bc w email password ip userAgent)
  with assms vc_keeps_codes [OF assms(1), of bc w email password ip userAgent]
  show ?thesis by simp
next
  case (Verify2FACode w cid' code ip)
  with assms v2_removes [OF assms(1), of w cid' code ip] show ?thesis by simp
next
  case (VerifySession w token)
  with assms show ?thesis by simp
next
  case (Logout w token)
  with assms show ?thesis by simp
next
  case (CleanupExpiredData w)
  with assms show ?thesis by (simp add: cleanup_codes split: if_splits)
next
  case (ChangePassword bc w uid cur new)
  with assms show ?thesis by simp
next
  case (UpdateIPWhitelist w uid ips)
  with assms show ?thesis by simp
qed


section \<open>C9: the entry left behind by a failed dispatch\<close>

text \<open>
  Claim C9, as amended.  When the credentials and the address pass, the deployment is not
  in development mode and the dispatch fails (no transporter, or \<^verbatim>\<open>sendMail\<close>
  throws), \<^verbatim>\<open>verifyCredentials\<close> returns the failure
  \<^verbatim>\<open>Failed to send verification code\<close> without a code identifier, and the entry it
  stored before dispatching stays in the cache.  A call of the service removes an entry
  of the cache only if it is a \<^verbatim>\<open>verify2FACode\<close> on that identifier that either finds
  it expired or completes the login with it, or a \<^verbatim>\<open>cleanupExpiredData\<close> that finds it
  expired.
\<close>

theorem dispatch_failure_leaves_code_entry:
  "(allowed (fst (checkLoginAttempts (now1 w) ip s)) \<and> \<not> dbThrows w GetUserByEmail
      \<and> find (\<lambda>u. u_email u = toLowerCase bc email) (users s) = Some user \<and> u_isActive user
      \<and> bcrypt_compare bc password (u_passwordHash user) \<and> isIPWhitelisted w user ip
      \<and> \<not> development w \<and> \<not> (emailTransporter s \<and> sendMailOk w) \<longrightarrow>
      fst (verifyCredentials bc w email password ip userAgent s)
        = failure ''Failed to send verification code''
      \<and> r_codeId (fst (verifyCredentials bc w email password ip userAgent s)) = None
      \<and> verificationCodes (snd (verifyCredentials bc w email password ip userAgent s)) =
          (verificationCodes s)(randomUUID w \<mapsto>
             \<lparr>vc_code = randomCode w, vc_email = u_email user, vc_ip = ip,
              vc_userAgent = userAgent, vc_expiresAt = now2 w + codeExpiry, vc_used = False\<rparr>))
   \<and> (verificationCodes s' cid = Some v \<and> verificationCodes (exec c s') cid = None \<longrightarrow>
        (\<exists>w' code' ip'. c = Verify2FACode w' cid code' ip'
            \<and> (vc_expiresAt v < now1 w'
                \<or> r_success (fst (verify2FACode w' cid code' ip' s'))))
        \<or> (\<exists>w'. c = CleanupExpiredData w' \<and> vc_expiresAt v < now1 w'))"
proof (rule conjI; rule impI)
  assume h: "allowed (fst (checkLoginAttempts (now1 w) ip s)) \<and> \<not> dbThrows w GetUserByEmail
      \<and> find (\<lambda>u. u_email u = toLowerCase bc email) (users s) = Some user \<and> u_isActive user
      \<and> bcrypt_compare bc password (u_passwordHash user) \<and> isIPWhitelisted w user ip
      \<and> \<not> development w \<and> \<not> (emailTransporter s \<and> sendMailOk w)"
  then have "verifyCredentials bc w email password ip userAgent s =
    (failure ''Failed to send verification code'',
     (snd (checkLoginAttempts (now1 w) ip s))
       \<lparr>verificationCodes := (verificationCodes s)(randomUUID w \<mapsto>
           \<lparr>vc_code = randomCode w, vc_email = u_email user, vc_ip = ip,
            vc_userAgent = userAgent, vc_expiresAt = now2 w + codeExpiry,
            vc_used = False\<rparr>)\<rparr>)"
    by (intro vc_dispatch_failed) simp_all
  then show "fst (verifyCredentials bc w email password ip userAgent s)
        = failure ''Failed to send verification code''
      \<and> r_codeId (fst (verifyCredentials bc w email password ip userAgent s)) = None
      \<and> verificationCodes (snd (verifyCredentials bc w email password ip userAgent s)) =
          (verificationCodes s)(randomUUID w \<mapsto>
             \<lparr>vc_code = randomCode w, vc_email = u_email user, vc_ip = ip,
              vc_userAgent = userAgent, vc_expiresAt = now2 w + codeExpiry, vc_used = False\<rparr>)"
    by simp
next
  assume "verificationCodes s' cid = Some v \<and> verificationCodes (exec c s') cid = None"
  then show "(\<exists>w' code' ip'. c = Verify2FACode w' cid code' ip'
            \<and> (vc_expiresAt v < now1 w'
                \<or> r_success (fst (verify2FACode w' cid code' ip' s'))))
        \<or> (\<exists>w'. c = CleanupExpiredData w' \<and> vc_expiresAt v < now1 w')"
    using exec_removes [of s' cid v c] by simp
qed

text \<open>
  The claim as written fails: the entry left behind by the failed dispatch is also removed,
  well before its expiry, by a \<^verbatim>\<open>verify2FACode\<close> call that presents its identifier
  and code from the same address and so completes the login.
\<close>

theorem dispatch_failure_entry_removed_by_login_counterexample:
  "fst (verifyCredentials plain_library (world0\<lparr>sendMailOk := False\<rparr>) ''a@b.com'' ''secret123''
          ''1.2.3.4'' ''ua'' state0) = failure ''Failed to send verification code''
   \<and> snd (verifyCredentials plain_library (world0\<lparr>sendMailOk := False\<rparr>) ''a@b.com''
          ''secret123'' ''1.2.3.4'' ''ua'' state0) = state_pending
   \<and> verificationCodes state_pending ''123e4567-e89b-42d3-a456-426614174000'' = Some pending_code
   \<and> now1 (world0\<lparr>now1 := 2000\<rparr>) \<le> vc_expiresAt pending_code
   \<and> verificationCodes
        (exec (Verify2FACode (world0\<lparr>now1 := 2000\<rparr>) ''123e4567-e89b-42d3-a456-426614174000'' ''123456'' ''1.2.3.4'')
           state_pending) ''123e4567-e89b-42d3-a456-426614174000'' = None"
  by (simp add: fixture_defs vc_eval verify2FACode_def createAuthSession_def lower_examples)

theorem dispatch_failure_leaves_code_entry_witness:
  "allowed (fst (checkLoginAttempts (now1 (world0\<lparr>sendMailOk := False\<rparr>)) ''1.2.3.4'' state0))
   \<and> \<not> dbThrows (world0\<lparr>sendMailOk := False\<rparr>) GetUserByEmail
   \<and> find (\<lambda>u. u_email u = toLowerCase plain_library ''a@b.com'') (users state0) = Some alice
   \<and> u_isActive alice \<and> bcrypt_compare plain_library ''secret123'' (u_passwordHash alice)
   \<and> isIPWhitelisted (world0\<lparr>sendMailOk := False\<rparr>) alice ''1.2.3.4''
   \<and> \<not> development (world0\<lparr>sendMailOk := False\<rparr>)
   \<and> \<not> (emailTransporter state0 \<and> sendMailOk (world0\<lparr>sendMailOk := False\<rparr>))
   \<and> fst (verifyCredentials plain_library (world0\<lparr>sendMailOk := False\<rparr>) ''a@b.com'' ''secret123''
          ''1.2.3.4'' ''ua'' state0) = failure ''Failed to send verification code''
   \<and> verificationCodes (snd (verifyCredentials plain_library (world0\<lparr>sendMailOk := False\<rparr>)
          ''a@b.com'' ''secret123'' ''1.2.3.4'' ''ua'' state0)) ''123e4567-e89b-42d3-a456-426614174000'' = Some pending_code
   \<and> verificationCodes state_pending ''123e4567-e89b-42d3-a456-426614174000'' = Some pending_code
   \<and> verificationCodes (exec (CleanupExpiredData (world0\<lparr>now1 := 400000\<rparr>)) state_pending)
        ''123e4567-e89b-42d3-a456-426614174000'' = None
   \<and> vc_expiresAt pending_code < now1 (world0\<lparr>now1 := 400000\<rparr>)"
proof -
  let ?w = "world0\<lparr>sendMailOk := False\<rparr>"
  let ?c = "CleanupExpiredData (world0\<lparr>now1 := 400000\<rparr>)"
  have f: "allowed (fst (checkLoginAttempts (now1 ?w) ''1.2.3.4'' state0))"
    "\<not> dbThrows ?w GetUserByEmail"
    "find (\<lambda>u. u_email u = toLowerCase plain_library ''a@b.com'') (users state0) = Some alice"
    "u_isActive alice" "bcrypt_compare plain_library ''secret123'' (u_passwordHash alice)"
    "isIPWhitelisted ?w alice ''1.2.3.4''"
    "\<not> development ?w" "\<not> (emailTransporter state0 \<and> sendMailOk ?w)"
    by (simp_all add: fixture_defs lower_examples checkLoginAttempts_def isIPWhitelisted_def)
  have h1: "allowed (fst (checkLoginAttempts (now1 ?w) ''1.2.3.4'' state0))
      \<and> \<not> dbThrows ?w GetUserByEmail
      \<and> find (\<lambda>u. u_email u = toLowerCase plain_library ''a@b.com'') (users state0) = Some alice
      \<and> u_isActive alice
      \<and> bcrypt_compare plain_library ''secret123'' (u_passwordHash alice)
      \<and> isIPWhitelisted ?w alice ''1.2.3.4''
      \<and> \<not> development ?w \<and> \<not> (emailTransporter state0 \<and> sendMailOk ?w)"
    using f by simp
  have g: "verificationCodes state_pending ''123e4567-e89b-42d3-a456-426614174000'' = Some pending_code"
    "verificationCodes (exec ?c state_pending) ''123e4567-e89b-42d3-a456-426614174000'' = None"
    by (simp_all add: fixture_defs cleanup_codes)
  have h2: "verificationCodes state_pending ''123e4567-e89b-42d3-a456-426614174000'' = Some pending_code
      \<and> verificationCodes (exec ?c state_pending) ''123e4567-e89b-42d3-a456-426614174000'' = None"
    using g by simp
  note T = dispatch_failure_leaves_code_entry
      [where w = ?w and ip = "''1.2.3.4''" and s = state0 and email = "''a@b.com''"
         and user = alice and bc = plain_library and password = "''secret123''"
         and userAgent = "''ua''" and s' = state_pending and cid = "''123e4567-e89b-42d3-a456-426614174000''"
         and v = pending_code and c = ?c]
  from T [THEN conjunct1, THEN mp, OF h1]
  have 1: "fst (verifyCredentials plain_library ?w ''a@b.com'' ''secret123''
          ''1.2.3.4'' ''ua'' state0) = failure ''Failed to send verification code''
     \<and> verificationCodes (snd (verifyCredentials plain_library ?w
          ''a@b.com'' ''secret123'' ''1.2.3.4'' ''ua'' state0)) ''123e4567-e89b-42d3-a456-426614174000'' = Some pending_code"
    by (simp add: fixture_defs codeExpiry_def)
  from T [THEN conjunct2, THEN mp, OF h2]
  have 2: "vc_expiresAt pending_code < now1 (world0\<lparr>now1 := 400000\<rparr>)"
    by auto
  from f g 1 2 show ?thesis by simp
qed


section \<open>C7: changePassword\<close>

lemma changePassword_wrong_current:
  assumes "find (\<lambda>x. u_id x = userId) (users s) = Some u" "\<not> dbThrows w GetUser"
    "\<not> bcrypt_compare bc currentPassword (u_passwordHash u)"
  shows "changePassword bc w userId currentPassword newPassword s =
           ((False, ''Current password is incorrect''), s)"
  using assms by (simp add: changePassword_def getUser_def)

lemma changePassword_ok:
  assumes "find (\<lambda>x. u_id x = userId) (users s) = Some u" "\<not> dbThrows w GetUser"
    "\<not> dbThrows w UpdateUser" "bcrypt_compare bc currentPassword (u_passwordHash u)"
  shows "changePassword bc w userId currentPassword newPassword s =
    ((True, ''Password changed successfully''),
     logActivity w userId ''password_change'' ''success'' ''Password changed successfully''
       ''system'' None
       (s\<lparr>users := map (\<lambda>x. if u_id x = userId
                              then x\<lparr>u_passwordHash := bcrypt_hash bc newPassword (salt w)\<rparr>
                              else x) (users s)\<rparr>))"
  using assms by (simp add: changePassword_def getUser_def updateUser_passwordHash_def Let_def)

lemma find_by_email_rehashed:
  "find (\<lambda>x. u_email x = e)
     (map (\<lambda>x. if u_id x = userId then x\<lparr>u_passwordHash := h\<rparr> else x) xs)
   = map_option (\<lambda>x. if u_id x = userId then x\<lparr>u_passwordHash := h\<rparr> else x)
       (find (\<lambda>x. u_email x = e) xs)"
  by (induction xs) simp_all

lemma find_Some_holds: "find P xs = Some x \<Longrightarrow> P x"
  by (induction xs) (auto split: if_splits)

text \<open>
  Claim C7, as amended.  When \<^verbatim>\<open>currentPassword\<close> does not match the stored hash,
  \<^verbatim>\<open>changePassword\<close> fails (with \<^verbatim>\<open>Current password is incorrect\<close> when the
  user fetch does not throw) and returns the state it was given: no user update is issued.
  When it matches (and the storage calls do not throw) the call succeeds and every row
  with that id carries the hash of the new password.  After that,
  \<^verbatim>\<open>verifyCredentials\<close> with the old password fails for that account whenever the old
  password does not match the new hash; it does match when the new password equals the
  old one.
\<close>

theorem changePassword_checks_current_password:
  "(find (\<lambda>x. u_id x = userId) (users s) = Some u
      \<and> \<not> bcrypt_compare bc currentPassword (u_passwordHash u) \<longrightarrow>
      \<not> fst (fst (changePassword bc w userId currentPassword newPassword s))
      \<and> snd (changePassword bc w userId currentPassword newPassword s) = s
      \<and> (\<not> dbThrows w GetUser \<longrightarrow>
           changePassword bc w userId currentPassword newPassword s =
             ((False, ''Current password is incorrect''), s)))
   \<and> (find (\<lambda>x. u_id x = userId) (users s) = Some u \<and> \<not> dbThrows w GetUser
        \<and> \<not> dbThrows w UpdateUser \<and> bcrypt_compare bc currentPassword (u_passwordHash u) \<longrightarrow>
        fst (changePassword bc w userId currentPassword newPassword s)
          = (True, ''Password changed successfully'')
        \<and> users (snd (changePassword bc w userId currentPassword newPassword s)) =
            map (\<lambda>x. if u_id x = userId
                      then x\<lparr>u_passwordHash := bcrypt_hash bc newPassword (salt w)\<rparr> else x)
              (users s)
        \<and> (find (\<lambda>x. u_email x = toLowerCase bc email) (users s) = Some u
             \<and> \<not> bcrypt_compare bc currentPassword (bcrypt_hash bc newPassword (salt w)) \<longrightarrow>
             \<not> r_success (fst (verifyCredentials bc w' email currentPassword ip userAgent
                   (snd (changePassword bc w userId currentPassword newPassword s))))))"
proof (rule conjI; rule impI)
  assume h: "find (\<lambda>x. u_id x = userId) (users s) = Some u
      \<and> \<not> bcrypt_compare bc currentPassword (u_passwordHash u)"
  from h have a: "find (\<lambda>x. u_id x = userId) (users s) = Some u" by (rule conjunct1)
  from h have c: "\<not> bcrypt_compare bc currentPassword (u_passwordHash u)"
    by (rule conjunct2)
  show "\<not> fst (fst (changePassword bc w userId currentPassword newPassword s))
      \<and> snd (changePassword bc w userId currentPassword newPassword s) = s
      \<and> (\<not> dbThrows w GetUser \<longrightarrow>
           changePassword bc w userId currentPassword newPassword s =
             ((False, ''Current password is incorrect''), s))"
  proof (cases "dbThrows w GetUser")
    case True
    then show ?thesis by (simp add: changePassword_def getUser_def)
  next
    case False
    from changePassword_wrong_current [OF a False c] False show ?thesis by simp
  qed
next
  let ?h = "bcrypt_hash bc newPassword (salt w)"
  let ?f = "\<lambda>x. if u_id x = userId then x\<lparr>u_passwordHash := ?h\<rparr> else x"
  let ?s1 = "snd (changePassword bc w userId currentPassword newPassword s)"
  assume h: "find (\<lambda>x. u_id x = userId) (users s) = Some u \<and> \<not> dbThrows w GetUser
        \<and> \<not> dbThrows w UpdateUser \<and> bcrypt_compare bc currentPassword (u_passwordHash u)"
  from h have a: "find (\<lambda>x. u_id x = userId) (users s) = Some u" by (rule conjunct1)
  from h have b: "\<not> dbThrows w GetUser" by (rule conjunct2 [THEN conjunct1])
  from h have c: "\<not> dbThrows w UpdateUser" by (rule conjunct2 [THEN conjunct2, THEN conjunct1])
  from h have d: "bcrypt_compare bc currentPassword (u_passwordHash u)"
    by (rule conjunct2 [THEN conjunct2, THEN conjunct2])
  have eq: "changePassword bc w userId currentPassword newPassword s =
    ((True, ''Password changed successfully''),
     logActivity w userId ''password_change'' ''success'' ''Password changed successfully''
       ''system'' None (s\<lparr>users := map ?f (users s)\<rparr>))"
    by (rule changePassword_ok [OF a b c d])
  have uid: "u_id u = userId"
    by (rule find_Some_holds [OF a])
  have us: "users ?s1 = map ?f (users s)"
    by (simp add: eq)
  have after: "find (\<lambda>x. u_email x = toLowerCase bc email) (users s) = Some u
             \<and> \<not> bcrypt_compare bc currentPassword ?h \<longrightarrow>
             \<not> r_success (fst (verifyCredentials bc w' email currentPassword ip userAgent ?s1))"
  proof (rule impI)
    assume a: "find (\<lambda>x. u_email x = toLowerCase bc email) (users s) = Some u
             \<and> \<not> bcrypt_compare bc currentPassword ?h"
    then have found: "find (\<lambda>x. u_email x = toLowerCase bc email) (users ?s1)
        = Some (u\<lparr>u_passwordHash := ?h\<rparr>)"
      by (simp add: us find_by_email_rehashed uid)
    from a have "\<not> bcrypt_compare bc currentPassword (u_passwordHash (u\<lparr>u_passwordHash := ?h\<rparr>))"
      by simp
    from vc_wrong_credentials_fail [OF found this]
    show "\<not> r_success (fst (verifyCredentials bc w' email currentPassword ip userAgent ?s1))" .
  qed
  from eq us after
  show "fst (changePassword bc w userId currentPassword newPassword s)
          = (True, ''Password changed successfully'')
        \<and> users ?s1 = map ?f (users s)
        \<and> (find (\<lambda>x. u_email x = toLowerCase bc email) (users s) = Some u
             \<and> \<not> bcrypt_compare bc currentPassword ?h \<longrightarrow>
             \<not> r_success (fst (verifyCredentials bc w' email currentPassword ip userAgent ?s1)))"
    by simp
qed

text \<open>
  The claim as written fails when the new password equals the current one: the change
  succeeds and the old password still passes \<^verbatim>\<open>verifyCredentials\<close>.
\<close>

lemmas cp_eval =
  changePassword_def getUser_def updateUser_passwordHash_def

theorem changePassword_same_password_counterexample:
  "fst (changePassword plain_library world0 1 ''secret123'' ''secret123'' state0)
     = (True, ''Password changed successfully'')
   \<and> r_success (fst (verifyCredentials plain_library (world0\<lparr>now1 := 5000, now2 := 5005\<rparr>)
        ''a@b.com'' ''secret123'' ''1.2.3.4'' ''ua''
        (snd (changePassword plain_library world0 1 ''secret123'' ''secret123'' state0))))"
  by (simp add: fixture_defs cp_eval vc_eval lower_examples)

theorem changePassword_checks_current_password_witness:
  "find (\<lambda>x. u_id x = 1) (users state0) = Some alice \<and> \<not> dbThrows world0 GetUser
   \<and> \<not> dbThrows world0 UpdateUser
   \<and> \<not> bcrypt_compare plain_library ''guess'' (u_passwordHash alice)
   \<and> changePassword plain_library world0 1 ''guess'' ''newSecret99'' state0 =
        ((False, ''Current password is incorrect''), state0)
   \<and> bcrypt_compare plain_library ''secret123'' (u_passwordHash alice)
   \<and> fst (changePassword plain_library world0 1 ''secret123'' ''newSecret99'' state0)
        = (True, ''Password changed successfully'')
   \<and> users (snd (changePassword plain_library world0 1 ''secret123'' ''newSecret99'' state0))
        = [alice\<lparr>u_passwordHash := ''$2b$12$newSecret99''\<rparr>]
   \<and> find (\<lambda>x. u_email x = toLowerCase plain_library ''a@b.com'') (users state0) = Some alice
   \<and> \<not> bcrypt_compare plain_library ''secret123''
         (bcrypt_hash plain_library ''newSecret99'' (salt world0))
   \<and> \<not> r_success (fst (verifyCredentials plain_library (world0\<lparr>now1 := 5000, now2 := 5005\<rparr>)
        ''a@b.com'' ''secret123'' ''1.2.3.4'' ''ua''
        (snd (changePassword plain_library world0 1 ''secret123'' ''newSecret99'' state0))))"
proof -
  have f: "find (\<lambda>x. u_id x = 1) (users state0) = Some alice" "\<not> dbThrows world0 GetUser"
    "\<not> dbThrows world0 UpdateUser"
    "\<not> bcrypt_compare plain_library ''guess'' (u_passwordHash alice)"
    "bcrypt_compare plain_library ''secret123'' (u_passwordHash alice)"
    "find (\<lambda>x. u_email x = toLowerCase plain_library ''a@b.com'') (users state0) = Some alice"
    "\<not> bcrypt_compare plain_library ''secret123''
         (bcrypt_hash plain_library ''newSecret99'' (salt world0))"
    by (simp_all add: fixture_defs lower_examples)
  have h1: "find (\<lambda>x. u_id x = 1) (users state0) = Some alice
      \<and> \<not> bcrypt_compare plain_library ''guess'' (u_passwordHash alice)"
    using f by simp
  have h2: "find (\<lambda>x. u_id x = 1) (users state0) = Some alice \<and> \<not> dbThrows world0 GetUser
        \<and> \<not> dbThrows world0 UpdateUser
        \<and> bcrypt_compare plain_library ''secret123'' (u_passwordHash alice)"
    using f by simp
  have h3: "find (\<lambda>x. u_email x = toLowerCase plain_library ''a@b.com'') (users state0) = Some alice
        \<and> \<not> bcrypt_compare plain_library ''secret123''
             (bcrypt_hash plain_library ''newSecret99'' (salt world0))"
    using f by simp
  have 1: "changePassword plain_library world0 1 ''guess'' ''newSecret99'' state0 =
        ((False, ''Current password is incorrect''), state0)"
    using changePassword_checks_current_password
      [where userId = 1 and s = state0 and u = alice and w = world0 and bc = plain_library
         and currentPassword = "''guess''" and newPassword = "''newSecret99''"
         and email = "''a@b.com''" and w' = world0 and ip = "''1.2.3.4''" and userAgent = "''ua''",
       THEN conjunct1, THEN mp, OF h1, THEN conjunct2, THEN conjunct2, THEN mp, OF f(2)] .
  note T = changePassword_checks_current_password
      [where userId = 1 and s = state0 and u = alice and w = world0 and bc = plain_library
         and currentPassword = "''secret123''" and newPassword = "''newSecret99''"
         and email = "''a@b.com''" and w' = "world0\<lparr>now1 := 5000, now2 := 5005\<rparr>"
         and ip = "''1.2.3.4''" and userAgent = "''ua''",
       THEN conjunct2, THEN mp, OF h2]
  from T [THEN conjunct1]
  have 2: "fst (changePassword plain_library world0 1 ''secret123'' ''newSecret99'' state0)
        = (True, ''Password changed successfully'')" .
  from T [THEN conjunct2, THEN conjunct1]
  have 3: "users (snd (changePassword plain_library world0 1 ''secret123'' ''newSecret99'' state0))
        = [alice\<lparr>u_passwordHash := ''$2b$12$newSecret99''\<rparr>]"
    by (simp add: fixture_defs)
  from T [THEN conjunct2, THEN conjunct2, THEN mp, OF h3]
  have 4: "\<not> r_success (fst (verifyCredentials plain_library (world0\<lparr>now1 := 5000, now2 := 5005\<rparr>)
        ''a@b.com'' ''secret123'' ''1.2.3.4'' ''ua''
        (snd (changePassword plain_library world0 1 ''secret123'' ''newSecret99'' state0))))" .
  from f 1 2 3 4 show ?thesis by simp
qed

end
